theory Spec2Isabelle
  imports Main "HOL-Library.Sublist"
begin

section \<open>JavaScript values\<close>

text \<open>
  Values of type \<^verbatim>\<open>any\<close>: what a callback throws, and what a property of a parsed JSON
  object holds. Numbers are the integers, printed in decimal. An object is the list of its
  own properties; the first binding of a key is the one that counts.
\<close>

datatype jsval =
    JUndefined
  | JNull
  | JBool bool
  | JNum int
  | JStr string
  | JArr "jsval list"
  | JObj "(string \<times> jsval) list"

text \<open>JavaScript's ToBoolean: what \<^verbatim>\<open>if (v)\<close> and \<^verbatim>\<open>!v\<close> test.\<close>

fun truthy :: "jsval \<Rightarrow> bool" where
  "truthy JUndefined = False"
| "truthy JNull = False"
| "truthy (JBool b) = b"
| "truthy (JNum n) = (n \<noteq> 0)"
| "truthy (JStr s) = (s \<noteq> [])"
| "truthy (JArr vs) = True"
| "truthy (JObj ps) = True"

text \<open>A value of type \<^verbatim>\<open>string | undefined\<close> is truthy when it is a non-empty string.\<close>

fun truthy_string :: "string option \<Rightarrow> bool" where
  "truthy_string None = False"
| "truthy_string (Some s) = (s \<noteq> [])"

section \<open>Tree items with error handling\<close>

text \<open>
  \<^verbatim>\<open>class InvalidTreeItem<TRoot> extends AzExtParentTreeItem<TRoot>\<close>. The private field
  \<^verbatim>\<open>_error\<close> is \<open>stored_error\<close>. The default of the last constructor parameter is
  \<^verbatim>\<open>localize('invalid', 'Invalid')\<close>; \<open>localize\<close> (module \<^verbatim>\<open>../localize\<close>) is a parameter.
\<close>

record 'p InvalidTreeItem =
  parent :: 'p
  label :: string
  stored_error :: jsval
  contextValue :: string
  description :: string

definition new_InvalidTreeItem ::
  "(string \<Rightarrow> string \<Rightarrow> string) \<Rightarrow> 'p \<Rightarrow> string \<Rightarrow> jsval \<Rightarrow> string \<Rightarrow> string option
     \<Rightarrow> 'p InvalidTreeItem" where
  "new_InvalidTreeItem localize parent' label' error contextValue' description' =
     \<lparr>parent = parent', label = label', stored_error = error, contextValue = contextValue',
      description = (case description' of None \<Rightarrow> localize ''invalid'' ''Invalid'' | Some d \<Rightarrow> d)\<rparr>"

text \<open>
  A node of the tree: an item some \<^verbatim>\<open>createTreeItem\<close> callback made, or an
  \<^verbatim>\<open>InvalidTreeItem\<close>.
\<close>

datatype ('p, 'i) AzExtTreeItem = TreeItem 'i | Invalid "'p InvalidTreeItem"

text \<open>The async method \<^verbatim>\<open>loadMoreChildrenImpl\<close> rejects: \<open>Inl\<close> is the value thrown.\<close>

definition loadMoreChildrenImpl :: "'p InvalidTreeItem \<Rightarrow> jsval + ('p, 'i) AzExtTreeItem list" where
  "loadMoreChildrenImpl this = Inl (stored_error this)"

definition hasMoreChildrenImpl :: "'p InvalidTreeItem \<Rightarrow> bool" where
  "hasMoreChildrenImpl this = False"

definition isAncestorOfImpl :: "'p InvalidTreeItem \<Rightarrow> bool" where
  "isAncestorOfImpl this = False"

text \<open>
  \<^verbatim>\<open>createTreeItemsWithErrorHandling\<close>. \<^verbatim>\<open>Promise.all\<close> runs one callback per element
  of the array; each callback ends with one block that runs without interruption: the push of
  the item, or the push of the placeholder, or the assignment to \<^verbatim>\<open>unknownError\<close>.
  \<open>settle\<close> is that block for one element, on the pair of \<^verbatim>\<open>treeItems\<close> and
  \<^verbatim>\<open>unknownError\<close>; the list \<open>sourceArray\<close> gives the elements in the order in which
  their callbacks complete (a permutation of the array passed). The callbacks return
  \<open>Inl\<close> of what they throw.
\<close>

definition settle ::
  "(string \<Rightarrow> string \<Rightarrow> string) \<Rightarrow> 'p \<Rightarrow> string \<Rightarrow> ('s \<Rightarrow> jsval + 'i option)
     \<Rightarrow> ('s \<Rightarrow> jsval + string option) \<Rightarrow> 's
     \<Rightarrow> ('p, 'i) AzExtTreeItem list \<times> jsval \<Rightarrow> ('p, 'i) AzExtTreeItem list \<times> jsval" where
  "settle localize treeItem invalidContextValue createTreeItem getLabelOnError source st =
     (case st of (treeItems, unknownError) \<Rightarrow>
       (case createTreeItem source of
          Inr item \<Rightarrow>
            (case item of
               Some i \<Rightarrow> (treeItems @ [TreeItem i], unknownError)
             | None \<Rightarrow> (treeItems, unknownError))
        | Inl error \<Rightarrow>
            (let name = (case getLabelOnError source of Inr n \<Rightarrow> n | Inl e \<Rightarrow> None) in
             if truthy_string name
             then (treeItems @
                     [Invalid (new_InvalidTreeItem localize treeItem (the name) error
                                 invalidContextValue None)],
                   unknownError)
             else if truthy error \<and> \<not> truthy unknownError then (treeItems, error)
             else (treeItems, unknownError))))"

definition createTreeItemsWithErrorHandling ::
  "(string \<Rightarrow> string \<Rightarrow> string) \<Rightarrow> 'p \<Rightarrow> 's list \<Rightarrow> string \<Rightarrow> ('s \<Rightarrow> jsval + 'i option)
     \<Rightarrow> ('s \<Rightarrow> jsval + string option) \<Rightarrow> ('p, 'i) AzExtTreeItem list" where
  "createTreeItemsWithErrorHandling localize treeItem sourceArray invalidContextValue
       createTreeItem getLabelOnError =
     (case fold (settle localize treeItem invalidContextValue createTreeItem getLabelOnError)
             sourceArray ([], JUndefined) of
        (treeItems, unknownError) \<Rightarrow>
          if truthy unknownError
          then treeItems @
                 [Invalid (new_InvalidTreeItem localize treeItem
                             (localize ''cantShowItems'' ''Some items could not be displayed'')
                             unknownError invalidContextValue (Some ''''))]
          else treeItems)"

section \<open>Strings\<close>

text \<open>
  The methods of \<^verbatim>\<open>String.prototype\<close> the code calls, on strings as lists of characters.
  \<^verbatim>\<open>indexOf\<close> is the index of the first occurrence, or -1.
\<close>

primrec indexOf_from :: "nat \<Rightarrow> string \<Rightarrow> string \<Rightarrow> int" where
  "indexOf_from i [] searchString = (if searchString = [] then int i else - 1)"
| "indexOf_from i (c # cs) searchString =
     (if prefix searchString (c # cs) then int i else indexOf_from (Suc i) cs searchString)"

definition indexOf :: "string \<Rightarrow> string \<Rightarrow> int" where
  "indexOf s searchString = indexOf_from 0 s searchString"

definition includes_string :: "string \<Rightarrow> string \<Rightarrow> bool" where
  "includes_string s searchString = (indexOf s searchString \<noteq> - 1)"

text \<open>
  \<^verbatim>\<open>substring(indexStart, indexEnd)\<close>: both indices are clamped to the string, and
  swapped when the first is the greater.
\<close>

definition substring :: "string \<Rightarrow> int \<Rightarrow> int \<Rightarrow> string" where
  "substring s indexStart indexEnd =
     (let n = int (length s);
          a = max 0 (min indexStart n);
          b = max 0 (min indexEnd n)
      in take (nat (max a b - min a b)) (drop (nat (min a b)) s))"

text \<open>\<^verbatim>\<open>split(separator)\<close>: the pieces between the successive occurrences of the separator.\<close>

function split :: "string \<Rightarrow> string \<Rightarrow> string list" where
  "split s separator =
     (if separator = [] then map (\<lambda>c. [c]) s
      else if indexOf s separator < 0 then [s]
      else take (nat (indexOf s separator)) s #
           split (drop (nat (indexOf s separator) + length separator) s) separator)"
  by pat_completeness auto
termination
proof (relation "measure (\<lambda>(s, separator). length s)")
  show "wf (measure (\<lambda>(s, separator). length s))" by simp
next
  fix s separator :: string
  assume sep: "separator \<noteq> []" and found: "\<not> indexOf s separator < 0"
  have bound: "0 \<le> indexOf_from i t separator
      \<Longrightarrow> nat (indexOf_from i t separator) + length separator \<le> i + length t" for i t
  proof (induction t arbitrary: i)
    case Nil
    then show ?case by (simp split: if_splits)
  next
    case (Cons c cs)
    show ?case
    proof (cases "prefix separator (c # cs)")
      case True
      then show ?thesis using prefix_length_le [OF True] by simp
    next
      case False
      with Cons.prems have "0 \<le> indexOf_from (Suc i) cs separator" by simp
      from Cons.IH [OF this] False show ?thesis by simp
    qed
  qed
  from found have "nat (indexOf s separator) + length separator \<le> length s"
    using bound [of 0 s] by (simp add: indexOf_def)
  with sep have "length (drop (nat (indexOf s separator) + length separator) s) < length s"
    by (cases separator) auto
  then show "((drop (nat (indexOf s separator) + length separator) s, separator), s, separator)
      \<in> measure (\<lambda>(s, separator). length s)"
    by simp
qed

declare split.simps [simp del]


text \<open>JavaScript's ToString, which a template literal applies to the value it holds. An
  integer is printed in decimal whatever its size (JavaScript changes to the exponent form
  from ten to the power of 21 on), and an object as \<^verbatim>\<open>[object Object]\<close>, which is what it prints as
  unless it has a \<^verbatim>\<open>toString\<close> of its own.\<close>

fun decimal :: "nat \<Rightarrow> string" where
  "decimal n =
     (if n < 10 then [''0123456789'' ! n]
      else decimal (n div 10) @ [''0123456789'' ! (n mod 10)])"

declare decimal.simps [simp del]

definition number_toString :: "int \<Rightarrow> string" where
  "number_toString n = (if n < 0 then CHR ''-'' # decimal (nat (- n)) else decimal (nat n))"

fun join :: "string \<Rightarrow> string list \<Rightarrow> string" where
  "join separator [] = []"
| "join separator [s] = s"
| "join separator (s # t # ss) = s @ separator @ join separator (t # ss)"

fun toString :: "jsval \<Rightarrow> string" where
  "toString JUndefined = ''undefined''"
| "toString JNull = ''null''"
| "toString (JBool b) = (if b then ''true'' else ''false'')"
| "toString (JNum n) = number_toString n"
| "toString (JStr s) = s"
| "toString (JArr vs) =
     join '','' (map (\<lambda>v. if v = JUndefined \<or> v = JNull then [] else toString v) vs)"
| "toString (JObj ps) = ''[object Object]''"

section \<open>Quick picks from JSON objects\<close>

text \<open>
  \<^verbatim>\<open>json[key]\<close> on an object: the value of the property, \<^verbatim>\<open>undefined\<close> when the
  object has none of that name. The properties are the object's own: those it inherits
  (\<^verbatim>\<open>constructor\<close>, \<^verbatim>\<open>toString\<close>) are not read.
\<close>

definition property :: "(string \<times> jsval) list \<Rightarrow> string \<Rightarrow> jsval" where
  "property json key = (case map_of json key of None \<Rightarrow> JUndefined | Some v \<Rightarrow> v)"

text \<open>
  \<^verbatim>\<open>IAzureQuickPickItem<T>\<close>, with the fields the code sets; a field left out of an object
  literal is \<open>None\<close>. The cast \<^verbatim>\<open><string>json[label]\<close> changes nothing at run time, so a
  label is the value itself.
\<close>

record 'd IAzureQuickPickItem =
  pick_id :: "string option"
  pick_label :: jsval
  pick_description :: "string option"
  pick_detail :: "string option"
  suppressPersistence :: "bool option"
  data :: 'd

text \<open>
  \<^verbatim>\<open>createQuickPickFromJsons\<close>: the loop over \<^verbatim>\<open>jsons\<close>, with the parameter
  \<^verbatim>\<open>description\<close>, which the loop assigns to, and \<^verbatim>\<open>quickPicks\<close> as its state.
\<close>

fun createQuickPickFromJsons_loop ::
  "(string \<times> jsval) list list \<Rightarrow> string \<Rightarrow> string option
     \<Rightarrow> (string \<times> jsval) list IAzureQuickPickItem list
     \<Rightarrow> (string \<times> jsval) list IAzureQuickPickItem list" where
  "createQuickPickFromJsons_loop [] label' description' quickPicks = quickPicks"
| "createQuickPickFromJsons_loop (json # jsons) label' description' quickPicks =
     (if \<not> truthy (property json label')
      then createQuickPickFromJsons_loop jsons label' description' quickPicks
      else
        (let description'' =
               (if truthy_string description' \<and> \<not> truthy (property json (the description'))
                then None else description')
         in createQuickPickFromJsons_loop jsons label' description''
              (quickPicks @
                 [\<lparr>pick_id = None,
                   pick_label = property json label',
                   pick_description =
                     Some (if truthy_string description''
                           then toString (property json (the description'')) else ''''),
                   pick_detail = None,
                   suppressPersistence = None,
                   data = json\<rparr>])))"

definition createQuickPickFromJsons ::
  "(string \<times> jsval) list list \<Rightarrow> string \<Rightarrow> string option
     \<Rightarrow> (string \<times> jsval) list IAzureQuickPickItem list" where
  "createQuickPickFromJsons jsons label' description' =
     createQuickPickFromJsons_loop jsons label' description' []"

section \<open>The App Service plans of a wizard\<close>

text \<open>
  \<^verbatim>\<open>AppServicePlan\<close> and \<^verbatim>\<open>SkuDescription\<close> (azure-arm-website), with the properties
  the code reads; each may be undefined.
\<close>

record SkuDescription =
  sku_name :: "string option"

record AppServicePlan =
  plan_id :: "string option"
  plan_name :: "string option"
  plan_kind :: "string option"
  plan_location :: "string option"
  plan_resourceGroup :: "string option"
  plan_geoRegion :: "string option"
  plan_sku :: "SkuDescription option"

text \<open>
  \<^verbatim>\<open>AppKind\<close> is declared in \<^verbatim>\<open>AppKind.ts\<close>, which is not among the sources.
  \<^verbatim>\<open>createAppService\<close> names its members \<^verbatim>\<open>app\<close> and \<^verbatim>\<open>functionapp\<close>; the third
  constructor stands for any other value, which the switch sends to its default branch.
\<close>

datatype AppKind = app | functionapp | otherAppKind

text \<open>
  \<^verbatim>\<open>IAppServiceWizardContext\<close>, with the properties the code reads or sets. The four
  properties copied from the subscription context are one field. A promise is the outcome
  it settles to: \<open>plansTask\<close>, when defined, is \<open>Inl\<close> of the error the listing rejects with
  or \<open>Inr\<close> of the plans.
\<close>

record 'sub IAppServiceWizardContext =
  newSiteKind :: AppKind
  newSiteOS :: "string option"
  newSiteRuntime :: "string option"
  subscription :: 'sub
  newResourceGroupName :: "string option"
  newPlanName :: "string option"
  plan :: "AppServicePlan option"
  plansTask :: "(jsval + AppServicePlan list) option"



text \<open>
  \<^verbatim>\<open>nonNullProp\<close> (\<^verbatim>\<open>utils/nonNull\<close>, not among the sources) returns the value of a
  property and throws when it is null or undefined; what it throws for a property name is the
  parameter \<open>nonNullError\<close>.
\<close>

definition nonNullProp :: "(string \<Rightarrow> jsval) \<Rightarrow> 'a option \<Rightarrow> string \<Rightarrow> jsval + 'a" where
  "nonNullProp nonNullError v key = (case v of None \<Rightarrow> Inl (nonNullError key) | Some x \<Rightarrow> Inr x)"






section \<open>The wizard of createAppService\<close>

text \<open>
  \<^verbatim>\<open>IAppCreateOptions\<close>, with the properties \<^verbatim>\<open>createAppService\<close> reads; \<open>noOptions\<close>
  is the empty object of \<^verbatim>\<open>createOptions || {}\<close>.
\<close>

record IAppCreateOptions =
  os :: "string option"
  runtime :: "string option"
  resourceGroup :: "string option"
  advancedCreation :: "bool option"
  functionAppSettings :: "(string \<times> string) list option"

definition noOptions :: IAppCreateOptions where
  "noOptions = \<lparr>os = None, runtime = None, resourceGroup = None, advancedCreation = None,
                 functionAppSettings = None\<rparr>"

text \<open>
  The steps, by their classes. The members of the three storage account enums are those the
  code names.
\<close>

datatype StorageAccountKind = Storage | BlobStorage

datatype StorageAccountPerformance = Standard | Premium

datatype StorageAccountReplication = LRS | ZRS

record INewStorageAccountDefaults =
  default_kind :: StorageAccountKind
  default_performance :: StorageAccountPerformance
  default_replication :: StorageAccountReplication

record IStorageAccountFilters =
  filter_kind :: "StorageAccountKind list"
  filter_performance :: "StorageAccountPerformance list"
  filter_replication :: "StorageAccountReplication list"
  learnMoreLink :: string

datatype AzureWizardPromptStep =
    SiteNameStep
  | ResourceGroupListStep
  | SiteOSStep
  | SiteRuntimeStep
  | StorageAccountListStep INewStorageAccountDefaults IStorageAccountFilters
  | LocationListStep
  | AppServicePlanListStep
  | AppServicePlanNameStep
  | AppServicePlanSkuStep

datatype AzureWizardExecuteStep =
    ResourceGroupCreateStep
  | AppServicePlanCreateStep
  | SiteCreateStep "(string \<times> string) list option"

record 'sub AzureWizard =
  promptSteps :: "AzureWizardPromptStep list"
  executeSteps :: "AzureWizardExecuteStep list"
  initialWizardContext :: "'sub IAppServiceWizardContext"

text \<open>
  \<^verbatim>\<open>createAppService\<close> up to \<^verbatim>\<open>new AzureWizard(promptSteps, executeSteps, wizardContext)\<close>:
  the wizard it makes, or \<open>Inl\<close> of what \<^verbatim>\<open>setWizardContextDefaults\<close> throws. Two
  things that are not among the sources are parameters: \<open>WebsiteOS\<close>, the lookup
  \<^verbatim>\<open>WebsiteOS[createOptions.os]\<close> in the enum, and \<open>setWizardContextDefaults\<close>, which
  returns the wizard context as it leaves it.
\<close>

definition createAppService_wizard ::
  "(string \<Rightarrow> string option)
     \<Rightarrow> ('sub IAppServiceWizardContext \<Rightarrow> jsval + 'sub IAppServiceWizardContext)
     \<Rightarrow> AppKind \<Rightarrow> 'sub \<Rightarrow> IAppCreateOptions option \<Rightarrow> jsval + 'sub AzureWizard" where
  "createAppService_wizard WebsiteOS setWizardContextDefaults appKind subscriptionContext
       createOptions' =
     (let createOptions = (case createOptions' of Some c \<Rightarrow> c | None \<Rightarrow> noOptions);
          promptSteps0 = [];
          executeSteps0 = [];
          wizardContext0 =
            \<lparr>newSiteKind = appKind,
             newSiteOS = (if truthy_string (os createOptions)
                          then WebsiteOS (the (os createOptions)) else None),
             newSiteRuntime = runtime createOptions,
             subscription = subscriptionContext,
             newResourceGroupName = None,
             newPlanName = None,
             plan = None,
             plansTask = None\<rparr>;
          (wizardContext1, executeSteps1) =
            (if truthy_string (resourceGroup createOptions)
             then (wizardContext0\<lparr>newResourceGroupName := resourceGroup createOptions\<rparr>,
                   executeSteps0 @ [ResourceGroupCreateStep])
             else (wizardContext0, executeSteps0));
          promptSteps1 = promptSteps0 @ [SiteNameStep];
          finish = (\<lambda>promptSteps2 executeSteps2 wizardContext2.
            Inr \<lparr>promptSteps = promptSteps2,
                 executeSteps =
                   executeSteps2 @ [SiteCreateStep (functionAppSettings createOptions)],
                 initialWizardContext = wizardContext2\<rparr>)
      in case appKind of
           functionapp \<Rightarrow>
             finish
               (promptSteps1 @
                  [ResourceGroupListStep, SiteOSStep, SiteRuntimeStep,
                   StorageAccountListStep
                     \<lparr>default_kind = Storage, default_performance = Standard,
                      default_replication = LRS\<rparr>
                     \<lparr>filter_kind = [BlobStorage], filter_performance = [Premium],
                      filter_replication = [ZRS], learnMoreLink = ''https://aka.ms/Cfqnrc''\<rparr>,
                   LocationListStep])
               executeSteps1 wizardContext1
         | app \<Rightarrow>
             if advancedCreation createOptions = Some True
             then finish
                    (promptSteps1 @
                       [ResourceGroupListStep, SiteOSStep, SiteRuntimeStep,
                        AppServicePlanListStep, LocationListStep])
                    executeSteps1 wizardContext1
             else (case setWizardContextDefaults wizardContext1 of
                     Inl e \<Rightarrow> Inl e
                   | Inr wizardContext2 \<Rightarrow>
                       finish
                         (promptSteps1 @ [LocationListStep, SiteOSStep, SiteRuntimeStep])
                         (executeSteps1 @ [ResourceGroupCreateStep, AppServicePlanCreateStep])
                         wizardContext2)
         | otherAppKind \<Rightarrow> finish promptSteps1 executeSteps1 wizardContext1)"

section \<open>Connecting a site to GitHub\<close>

text \<open>
  \<^verbatim>\<open>gitHubWebResource\<close>: the request options, with the properties the code sets.
\<close>

record gitHubWebResource =
  url :: "string option"
  headers :: "(string \<times> string) list"
  resolveWithFullResponse :: "bool option"
  nextLink :: "string option"

text \<open>
  A response of GitHub as the code reads it: the \<^verbatim>\<open>Link\<close> header, when there is one, and
  what \<^verbatim>\<open>JSON.parse\<close> makes of the body, \<open>Inl\<close> of the error it throws or \<open>Inr\<close> of the
  value, which the cast \<^verbatim>\<open><T>\<close> takes to be of the type \<open>'a\<close> asked for.
\<close>

record 'a Response =
  link :: "string option"
  body :: "jsval + 'a"

record IParsedError =
  message :: string

record IActionContext =
  suppressErrorDisplay :: "bool option"
  properties :: "string \<Rightarrow> string option"

text \<open>
  The two buttons of the dialog of \<^verbatim>\<open>showGitHubAuthPrompt\<close>; the dialog returns one of
  them, or \<^verbatim>\<open>undefined\<close> when it is dismissed.
\<close>

datatype MessageItem = goToPortal | learnMore

record SourceControl =
  token :: "string option"

record SiteSourceControl =
  repoUrl :: string
  branch :: string
  isManualIntegration :: bool
  deploymentRollbackEnabled :: bool
  isMercurial :: bool

text \<open>
  The site client: its name and id, and what each of its three calls settles to, \<open>Inl\<close> of
  the error or \<open>Inr\<close> of the result.
\<close>

record SiteClient =
  client_id :: string
  fullName :: string
  listSourceControls :: "jsval + SourceControl list"
  updateSourceControl :: "SiteSourceControl \<Rightarrow> jsval + unit"
  syncRepository :: "jsval + unit"

text \<open>The calls the code makes to the outside, as the trace records them. A tree item is
  known by its id.\<close>

type_synonym AzureTreeItem = string

datatype event =
    ListSourceControls
  | ShowErrorMessage string
  | OpenUrl string
  | OpenInPortal AzureTreeItem string
  | Request gitHubWebResource
  | WithProgress string
  | AppendLine string
  | VerifyNoRunFromPackageSetting
  | UpdateSourceControl SiteSourceControl
  | ShowInformationMessage string
  | SyncRepository

fun is_Request :: "event \<Rightarrow> bool" where
  "is_Request (Request r) = True"
| "is_Request e = False"

text \<open>
  The state the functions of \<^verbatim>\<open>connectToGitHub.ts\<close> work on. The objects they share by
  reference are fields: \<open>requestOptions\<close>, \<open>actionContext\<close> (the parameter
  \<^verbatim>\<open>context\<close>) and \<open>cache_picks\<close> (\<^verbatim>\<open>cache.picks\<close>). The outside is scripted:
  \<open>answers\<close> are the user's successive answers to the error dialog, and when none is left
  the dialog is never answered; \<open>responses\<close> are what the successive requests settle to,
  each with the time at which it does, and when none is left the request never settles.
  \<open>now\<close> is what \<^verbatim>\<open>Date.now()\<close> reads, \<open>trace\<close> the calls made so far. A function
  returns \<open>None\<close> when it never returns, \<open>Some (Inl e)\<close> when it throws \<open>e\<close>. The calls
  that open a page, print a line or show a notification are taken to return.
\<close>

record 'a state =
  requestOptions :: gitHubWebResource
  actionContext :: IActionContext
  cache_picks :: "(string \<times> jsval) list IAzureQuickPickItem list"
  answers :: "MessageItem option list"
  responses :: "(int \<times> (jsval + 'a Response)) list"
  now :: int
  trace :: "event list"

text \<open>
  The loop of \<^verbatim>\<open>showGitHubAuthPrompt\<close>, by recursion on the answers left; it returns the
  last \<^verbatim>\<open>input\<close>.
\<close>

fun showGitHubAuthPrompt_loop ::
  "string \<Rightarrow> MessageItem option list \<Rightarrow> 'a state \<Rightarrow> MessageItem option option \<times> 'a state" where
  "showGitHubAuthPrompt_loop invalidToken [] s =
     (None, s\<lparr>trace := trace s @ [ShowErrorMessage invalidToken]\<rparr>)"
| "showGitHubAuthPrompt_loop invalidToken (input # rest) s =
     (let s1 = s\<lparr>trace := trace s @ [ShowErrorMessage invalidToken], answers := rest\<rparr> in
      if input = Some learnMore
      then showGitHubAuthPrompt_loop invalidToken rest
             (s1\<lparr>actionContext := (actionContext s1)
                     \<lparr>properties := (properties (actionContext s1))
                                       (''githubLearnMore'' \<mapsto> ''true'')\<rparr>,
                  trace := trace s1 @ [OpenUrl ''https://aka.ms/B7g6sw'']\<rparr>)
      else (Some input, s1))"

text \<open>The message \<^verbatim>\<open>invalidToken\<close> of \<^verbatim>\<open>showGitHubAuthPrompt\<close> and the message
  \<^verbatim>\<open>noToken\<close> of \<^verbatim>\<open>connectToGitHub\<close>; \<open>localize\<close> (module \<^verbatim>\<open>./localize\<close>) is a
  parameter.\<close>

definition invalidToken :: "(string \<Rightarrow> string \<Rightarrow> string list \<Rightarrow> string) \<Rightarrow> string" where
  "invalidToken localize =
     localize ''tokenExpired''
       ''Azure's GitHub token is invalid.  Authorize in the \"Deployment Center\"'' []"

definition noToken :: "(string \<Rightarrow> string \<Rightarrow> string list \<Rightarrow> string) \<Rightarrow> string" where
  "noToken localize = localize ''noToken'' ''No oAuth2 Token.'' []"

definition showGitHubAuthPrompt ::
  "(string \<Rightarrow> string \<Rightarrow> string list \<Rightarrow> string) \<Rightarrow> AzureTreeItem \<Rightarrow> SiteClient \<Rightarrow> 'a state
     \<Rightarrow> unit option \<times> 'a state" where
  "showGitHubAuthPrompt localize node client s =
     (case showGitHubAuthPrompt_loop (invalidToken localize) (answers s) s of
        (None, s1) \<Rightarrow> (None, s1)
      | (Some input, s1) \<Rightarrow>
          if input = Some goToPortal
          then (Some (),
                s1\<lparr>actionContext := (actionContext s1)
                       \<lparr>properties := (properties (actionContext s1))
                                         (''githubGoToPortal'' \<mapsto> ''true'')\<rparr>,
                    trace := trace s1 @ [OpenInPortal node (client_id client @ ''/vstscd'')]\<rparr>)
          else (Some (), s1))"

text \<open>
  \<^verbatim>\<open>parseLinkHeaderToGitHubLinkObject\<close>. The link object is a map from property names to
  values, since the loop sets whatever name it cuts out of an entry.
\<close>

definition parseLinkHeaderToGitHubLinkObject :: "string \<Rightarrow> string \<Rightarrow> string option" where
  "parseLinkHeaderToGitHubLinkObject linkHeader =
     (let linkUrls = split linkHeader '', '';
          relative = ''rel=''
      in fold (\<lambda>url linkMap.
                 linkMap(substring url (indexOf url relative + int (length relative) + 1)
                           (int (length url) - 1)
                         \<mapsto> substring url (indexOf url ''<'' + 1) (indexOf url ''>'')))
           linkUrls Map.empty)"

text \<open>
  \<^verbatim>\<open>getJsonRequest\<close>. \<open>parseError\<close> (vscode-azureextensionui) is a parameter.
  \<open>tried\<close> is the outcome of the \<^verbatim>\<open>try\<close> block.
\<close>

definition getJsonRequest ::
  "(string \<Rightarrow> string \<Rightarrow> string list \<Rightarrow> string) \<Rightarrow> (jsval \<Rightarrow> IParsedError) \<Rightarrow> AzureTreeItem
     \<Rightarrow> SiteClient \<Rightarrow> 'a state \<Rightarrow> (jsval + 'a) option \<times> 'a state" where
  "getJsonRequest localize parseError node client s =
     (let s1 = s\<lparr>trace := trace s @ [Request (requestOptions s)]\<rparr> in
      case responses s1 of
        [] \<Rightarrow> (None, s1)
      | (t, outcome) # rest \<Rightarrow>
          (let s2 = s1\<lparr>responses := rest, now := t\<rparr>;
               tried =
                 (case outcome of
                    Inl error \<Rightarrow> (Inl error, s2)
                  | Inr gitHubResponse \<Rightarrow>
                      (let s3 =
                             (if truthy_string (link gitHubResponse)
                              then s2\<lparr>requestOptions := (requestOptions s2)
                                        \<lparr>nextLink :=
                                           parseLinkHeaderToGitHubLinkObject
                                             (the (link gitHubResponse)) ''next''\<rparr>\<rparr>
                              else s2)
                       in (body gitHubResponse, s3)))
           in case tried of
                (Inr v, s3) \<Rightarrow> (Some (Inr v), s3)
              | (Inl error, s3) \<Rightarrow>
                  (let parsedError = parseError error in
                   if indexOf (message parsedError) ''Bad credentials'' > - 1
                   then (case showGitHubAuthPrompt localize node client s3 of
                           (None, s4) \<Rightarrow> (None, s4)
                         | (Some u, s4) \<Rightarrow>
                             (Some (Inl error),
                              s4\<lparr>actionContext := (actionContext s4)
                                     \<lparr>suppressErrorDisplay := Some True\<rparr>\<rparr>))
                   else (Some (Inl error), s3))))"

text \<open>
  The \<^verbatim>\<open>do ... while\<close> loop of \<^verbatim>\<open>getGitHubReposQuickPicks\<close>, on \<^verbatim>\<open>gitHubRepos\<close>.
  Each round takes one response off the script, so the loop ends.
\<close>

function getGitHubReposQuickPicks_loop ::
  "(string \<Rightarrow> string \<Rightarrow> string list \<Rightarrow> string) \<Rightarrow> (jsval \<Rightarrow> IParsedError) \<Rightarrow> AzureTreeItem
     \<Rightarrow> SiteClient \<Rightarrow> int \<Rightarrow> int \<Rightarrow> (string \<times> jsval) list list
     \<Rightarrow> (string \<times> jsval) list list state
     \<Rightarrow> (jsval + (string \<times> jsval) list list) option \<times> (string \<times> jsval) list list state" where
  "getGitHubReposQuickPicks_loop localize parseError node client startTime timeoutMs gitHubRepos s =
     (case getJsonRequest localize parseError node client s of
        (None, s1) \<Rightarrow> (None, s1)
      | (Some (Inl e), s1) \<Rightarrow> (Some (Inl e), s1)
      | (Some (Inr page), s1) \<Rightarrow>
          (let gitHubRepos1 = gitHubRepos @ page;
               s2 = (if truthy_string (nextLink (requestOptions s1))
                     then s1\<lparr>requestOptions := (requestOptions s1)
                               \<lparr>url := nextLink (requestOptions s1)\<rparr>\<rparr>
                     else s1)
           in if truthy_string (nextLink (requestOptions s2)) \<and> startTime + timeoutMs > now s2
              then getGitHubReposQuickPicks_loop localize parseError node client startTime
                     timeoutMs gitHubRepos1 s2
              else (Some (Inr gitHubRepos1), s2)))"
  by pat_completeness auto
termination
proof (relation "measure (\<lambda>(localize, parseError, node, client, startTime, timeoutMs,
                            gitHubRepos, s). length (responses s))")
  show "wf (measure (\<lambda>(localize, parseError, node, client, startTime, timeoutMs,
                       gitHubRepos, s :: (string \<times> jsval) list list state).
                      length (responses s)))"
    by simp
next
  fix localize parseError node client and startTime timeoutMs :: int
    and gitHubRepos gitHubRepos1 :: "(string \<times> jsval) list list"
    and s s1 s2 :: "(string \<times> jsval) list list state"
    and x y page
  assume request: "(x, s1) = getJsonRequest localize parseError node client s"
    and settled: "x = Some y" "y = Inr page"
    and s2: "s2 = (if truthy_string (nextLink (requestOptions s1))
                   then s1\<lparr>requestOptions := (requestOptions s1)
                             \<lparr>url := nextLink (requestOptions s1)\<rparr>\<rparr>
                   else s1)"
  have loop: "responses (snd (showGitHubAuthPrompt_loop invalidToken as t)) = responses t"
    for invalidToken as and t :: "(string \<times> jsval) list list state"
    by (induction as arbitrary: t) (simp_all add: Let_def)
  have prompt: "responses (snd (showGitHubAuthPrompt localize node client t)) = responses t"
    for t :: "(string \<times> jsval) list list state"
  proof -
    obtain invalidToken :: string
      where unfolded: "showGitHubAuthPrompt localize node client t =
        (case showGitHubAuthPrompt_loop invalidToken (answers t) t of
           (None, s1) \<Rightarrow> (None, s1)
         | (Some input, s1) \<Rightarrow>
             if input = Some goToPortal
             then (Some (),
                   s1\<lparr>actionContext := (actionContext s1)
                          \<lparr>properties := (properties (actionContext s1))
                                            (''githubGoToPortal'' \<mapsto> ''true'')\<rparr>,
                       trace := trace s1 @ [OpenInPortal node (client_id client @ ''/vstscd'')]\<rparr>)
             else (Some (), s1))"
      by (simp add: showGitHubAuthPrompt_def)
    obtain r u where looped: "showGitHubAuthPrompt_loop invalidToken (answers t) t = (r, u)"
      by fastforce
    with loop [of invalidToken "answers t" t] have "responses u = responses t"
      by simp
    with looped show ?thesis
      unfolding unfolded by (simp split: option.splits)
  qed
  from request [symmetric] settled have "length (responses s1) < length (responses s)"
    using prompt
    by (auto simp: getJsonRequest_def Let_def
             split: list.splits prod.splits sum.splits if_splits option.splits)
  with s2 show "((localize, parseError, node, client, startTime, timeoutMs, gitHubRepos1, s2),
                 localize, parseError, node, client, startTime, timeoutMs, gitHubRepos, s)
      \<in> measure (\<lambda>(localize, parseError, node, client, startTime, timeoutMs,
                     gitHubRepos, s). length (responses s))"
    by simp
qed

declare getGitHubReposQuickPicks_loop.simps [simp del]

text \<open>
  \<^verbatim>\<open>Array.prototype.sort\<close> with a comparison function, as a stable sort by insertion.
\<close>

fun insert_sorted :: "('a \<Rightarrow> 'a \<Rightarrow> int) \<Rightarrow> 'a \<Rightarrow> 'a list \<Rightarrow> 'a list" where
  "insert_sorted compareFn x [] = [x]"
| "insert_sorted compareFn x (y # ys) =
     (if compareFn x y \<le> 0 then x # y # ys else y # insert_sorted compareFn x ys)"

definition array_sort :: "('a \<Rightarrow> 'a \<Rightarrow> int) \<Rightarrow> 'a list \<Rightarrow> 'a list" where
  "array_sort compareFn xs = foldr (insert_sorted compareFn) xs []"

text \<open>
  A pick of the cache as a pick of the list returned, whose data may be undefined, and the
  pick that loads more.
\<close>

definition with_data :: "'d IAzureQuickPickItem \<Rightarrow> 'd option IAzureQuickPickItem" where
  "with_data p =
     \<lparr>pick_id = pick_id p, pick_label = pick_label p, pick_description = pick_description p,
      pick_detail = pick_detail p, suppressPersistence = suppressPersistence p,
      data = Some (data p)\<rparr>"

definition loadMorePick :: "'d option IAzureQuickPickItem" where
  "loadMorePick =
     \<lparr>pick_id = None, pick_label = JStr ''$(sync) Load More'', pick_description = None,
      pick_detail = None, suppressPersistence = Some True, data = None\<rparr>"

text \<open>
  \<^verbatim>\<open>getGitHubReposQuickPicks\<close>. \<open>timeoutSeconds'\<close> is \<open>None\<close> when the argument is left
  out. \<open>localeCompare\<close> is a parameter, the order of the user's locale; the labels
  it is called on are strings for the repositories GitHub lists, and the comparison is on the
  ToString of a label.
\<close>

definition getGitHubReposQuickPicks ::
  "(string \<Rightarrow> string \<Rightarrow> string list \<Rightarrow> string) \<Rightarrow> (jsval \<Rightarrow> IParsedError)
     \<Rightarrow> (string \<Rightarrow> string \<Rightarrow> int) \<Rightarrow> AzureTreeItem \<Rightarrow> SiteClient \<Rightarrow> int option
     \<Rightarrow> (string \<times> jsval) list list state
     \<Rightarrow> (jsval + (string \<times> jsval) list option IAzureQuickPickItem list) option
         \<times> (string \<times> jsval) list list state" where
  "getGitHubReposQuickPicks localize parseError localeCompare node client timeoutSeconds' s =
     (let timeoutSeconds = (case timeoutSeconds' of None \<Rightarrow> 10 | Some t \<Rightarrow> t);
          timeoutMs = timeoutSeconds * 1000;
          startTime = now s
      in case getGitHubReposQuickPicks_loop localize parseError node client startTime timeoutMs
                [] s of
           (None, s1) \<Rightarrow> (None, s1)
         | (Some (Inl e), s1) \<Rightarrow> (Some (Inl e), s1)
         | (Some (Inr gitHubRepos), s1) \<Rightarrow>
             (let s2 = s1\<lparr>cache_picks :=
                            array_sort
                              (\<lambda>a b. localeCompare (toString (pick_label a))
                                       (toString (pick_label b)))
                              (cache_picks s1 @
                               createQuickPickFromJsons gitHubRepos ''name'' None)\<rparr>
              in if truthy_string (nextLink (requestOptions s2))
                 then (Some (Inr (loadMorePick # map with_data (cache_picks s2))), s2)
                 else (Some (Inr (map with_data (cache_picks s2))), s2)))"

text \<open>Errors the code itself makes or runs into.\<close>

definition new_Error :: "string \<Rightarrow> jsval" where
  "new_Error msg = JObj [(''name'', JStr ''Error''), (''message'', JStr msg)]"

definition new_TypeError :: "string \<Rightarrow> jsval" where
  "new_TypeError msg = JObj [(''name'', JStr ''TypeError''), (''message'', JStr msg)]"

text \<open>
  A promise awaited: nothing more happens while it is pending, what it rejects with is
  thrown, and the code goes on with the value it resolves to, in the state it leaves.
\<close>

definition await ::
  "('e + 'v) option \<times> 's \<Rightarrow> ('v \<Rightarrow> 's \<Rightarrow> ('e + 'w) option \<times> 's) \<Rightarrow> ('e + 'w) option \<times> 's" where
  "await outcome continuation =
     (case outcome of
        (None, s) \<Rightarrow> (None, s)
      | (Some (Inl e), s) \<Rightarrow> (Some (Inl e), s)
      | (Some (Inr v), s) \<Rightarrow> continuation v s)"

text \<open>
  A state for a request whose response is of another type than those of the script: the
  objects, the clock and the trace of \<open>s\<close>, with the responses \<open>rs\<close>.
\<close>

definition with_responses :: "(int \<times> (jsval + 'b Response)) list \<Rightarrow> 'a state \<Rightarrow> 'b state" where
  "with_responses rs s =
     \<lparr>requestOptions = requestOptions s, actionContext = actionContext s,
      cache_picks = cache_picks s, answers = answers s, responses = rs, now = now s,
      trace = trace s\<rparr>"

text \<open>
  A value as \<^verbatim>\<open>nonNullProp\<close> tests it: \<^verbatim>\<open>undefined\<close> and \<^verbatim>\<open>null\<close> are no value.
\<close>

definition nonNull :: "jsval \<Rightarrow> jsval option" where
  "nonNull v = (if v = JUndefined \<or> v = JNull then None else Some v)"

text \<open>
  The \<^verbatim>\<open>do ... while\<close> loop of \<^verbatim>\<open>connectToGitHub\<close>, which shows the repositories
  until the user picks one; the pick that loads more has no data and starts another round.
  \<^verbatim>\<open>ext.ui.showQuickPick\<close> (vscode-azureextensionui, not among the sources) is a
  parameter, here \<open>showQuickPick_repos\<close> for picks whose data may be undefined: what the
  user does with the picks shown under a placeholder, \<open>Some (Inr pick)\<close> for a pick,
  \<open>Some (Inl e)\<close> when the call throws \<open>e\<close> (the user cancels), \<open>None\<close> when the user
  never answers. Given the promise of \<^verbatim>\<open>getGitHubReposQuickPicks\<close> it is taken to wait for
  the picks: it shows none while the promise is pending and throws what the promise rejects
  with. \<^verbatim>\<open>picksCache.picks\<close> is \<open>cache_picks\<close>. Each round reads at least one response,
  so the loop ends.
\<close>

function connectToGitHub_loop ::
  "(string \<Rightarrow> string \<Rightarrow> string list \<Rightarrow> string) \<Rightarrow> (jsval \<Rightarrow> IParsedError)
     \<Rightarrow> (string \<Rightarrow> string \<Rightarrow> int)
     \<Rightarrow> ((string \<times> jsval) list option IAzureQuickPickItem list \<Rightarrow> string
          \<Rightarrow> (jsval + (string \<times> jsval) list option IAzureQuickPickItem) option)
     \<Rightarrow> AzureTreeItem \<Rightarrow> SiteClient \<Rightarrow> (string \<times> jsval) list list state
     \<Rightarrow> (jsval + (string \<times> jsval) list) option \<times> (string \<times> jsval) list list state" where
  "connectToGitHub_loop localize parseError localeCompare showQuickPick_repos node client s =
     (case getGitHubReposQuickPicks localize parseError localeCompare node client None s of
        (None, s1) \<Rightarrow> (None, s1)
      | (Some (Inl e), s1) \<Rightarrow> (Some (Inl e), s1)
      | (Some (Inr picks), s1) \<Rightarrow>
          (case showQuickPick_repos picks ''Choose repository.'' of
             None \<Rightarrow> (None, s1)
           | Some (Inl e) \<Rightarrow> (Some (Inl e), s1)
           | Some (Inr pick) \<Rightarrow>
               (case data pick of
                  None \<Rightarrow>
                    connectToGitHub_loop localize parseError localeCompare showQuickPick_repos
                      node client s1
                | Some repoQuickPick \<Rightarrow> (Some (Inr repoQuickPick), s1))))"
  by pat_completeness auto
termination
proof (relation "measure (\<lambda>(localize, parseError, localeCompare, showQuickPick_repos, node,
                            client, s). length (responses s))")
  show "wf (measure (\<lambda>(localize, parseError, localeCompare, showQuickPick_repos, node, client,
                       s :: (string \<times> jsval) list list state). length (responses s)))"
    by simp
next
  fix localize parseError localeCompare showQuickPick_repos node client
    and s s1 :: "(string \<times> jsval) list list state"
    and x y picks
  assume picks: "(x, s1) =
      getGitHubReposQuickPicks localize parseError localeCompare node client None s"
    and settled: "x = Some y" "y = Inr picks"
  have pages: "getGitHubReposQuickPicks_loop localize parseError node client startTime timeoutMs
        gitHubRepos u = (Some (Inr repos), u') \<Longrightarrow> length (responses u') < length (responses u)"
    for startTime timeoutMs gitHubRepos repos and u u' :: "(string \<times> jsval) list list state"
  proof (induction localize parseError node client startTime timeoutMs gitHubRepos u
      rule: getGitHubReposQuickPicks_loop.induct)
    case (1 localize parseError node client startTime timeoutMs gitHubRepos u)
    obtain r u1 where request: "getJsonRequest localize parseError node client u = (r, u1)"
      by fastforce
    from "1.prems" request obtain v where r: "r = Some (Inr v)"
      by (subst (asm) getGitHubReposQuickPicks_loop.simps)
         (auto simp: Let_def split: option.splits sum.splits if_splits)
    from request r have less: "length (responses u1) < length (responses u)"
      by (auto simp: getJsonRequest_def Let_def
               split: list.splits prod.splits sum.splits if_splits option.splits)
    define u2 where "u2 = (if truthy_string (nextLink (requestOptions u1))
                           then u1\<lparr>requestOptions := (requestOptions u1)
                                     \<lparr>url := nextLink (requestOptions u1)\<rparr>\<rparr>
                           else u1)"
    have same: "responses u2 = responses u1"
      by (simp add: u2_def)
    show ?case
    proof (cases "truthy_string (nextLink (requestOptions u2)) \<and> startTime + timeoutMs > now u2")
      case True
      with "1.prems" request r
      have "getGitHubReposQuickPicks_loop localize parseError node client startTime timeoutMs
              (gitHubRepos @ v) u2 = (Some (Inr repos), u')"
        by (subst (asm) getGitHubReposQuickPicks_loop.simps) (simp add: Let_def u2_def)
      with "1.IH" [OF request [symmetric] r refl refl u2_def] True
      have "length (responses u') < length (responses u2)"
        by simp
      with less same show ?thesis by simp
    next
      case False
      with "1.prems" request r have "u' = u2"
        by (subst (asm) getGitHubReposQuickPicks_loop.simps) (auto simp: Let_def u2_def)
      with less same show ?thesis by simp
    qed
  qed
  show "((localize, parseError, localeCompare, showQuickPick_repos, node, client, s1),
         localize, parseError, localeCompare, showQuickPick_repos, node, client, s)
      \<in> measure (\<lambda>(localize, parseError, localeCompare, showQuickPick_repos, node, client, s).
                    length (responses s))"
  proof -
    obtain r u where loop: "getGitHubReposQuickPicks_loop localize parseError node client (now s)
        (10 * 1000) [] s = (r, u)"
      by fastforce
    from picks [symmetric] settled loop obtain repos where "r = Some (Inr repos)"
      and "responses s1 = responses u"
      by (auto simp: getGitHubReposQuickPicks_def Let_def
               split: option.splits sum.splits if_splits)
    with pages [of "now s" "10 * 1000" "[]" s repos u] loop show ?thesis
      by simp
  qed
qed


declare connectToGitHub_loop.simps [simp del]

text \<open>
  \<^verbatim>\<open>connectToGitHub\<close> from \<^verbatim>\<open>signRequest\<close> to \<^verbatim>\<open>repoName\<close>: the requests for the
  user, the organizations, the repositories and the branches, and the three quick picks. It
  returns \<^verbatim>\<open>siteSourceControl\<close> and \<^verbatim>\<open>repoName\<close>. \<open>signRequest\<close> (module
  \<^verbatim>\<open>./signRequest\<close>) is a parameter: the request options signed with the token, or the
  error thrown. \<open>showQuickPick\<close> is \<^verbatim>\<open>ext.ui.showQuickPick\<close> for the picks of the
  organizations and of the branches. The parsed bodies have the types that the casts
  \<^verbatim>\<open><T>\<close> give them: an object for the user, an array of objects for the others. The
  response to the request for the user, of another type than those of the script, is the
  argument \<open>userResponse\<close>, \<open>None\<close> when that request never settles. The properties that
  \<^verbatim>\<open>gitHubOrgData\<close>, \<^verbatim>\<open>gitHubReposData\<close> and \<^verbatim>\<open>gitHubBranchData\<close> declare as
  strings are read through ToString, which leaves a string as it is. What
  \<^verbatim>\<open>nonNullProp\<close> throws ends the function as a rejected promise does. The trace records
  the requests and the prompt, not the signing and the quick picks.
\<close>

definition connectToGitHub_repository ::
  "(string \<Rightarrow> string \<Rightarrow> string list \<Rightarrow> string) \<Rightarrow> (jsval \<Rightarrow> IParsedError)
     \<Rightarrow> (string \<Rightarrow> string \<Rightarrow> int) \<Rightarrow> (string \<Rightarrow> jsval)
     \<Rightarrow> (gitHubWebResource \<Rightarrow> string \<Rightarrow> jsval + gitHubWebResource)
     \<Rightarrow> ((string \<times> jsval) list IAzureQuickPickItem list \<Rightarrow> string
          \<Rightarrow> (jsval + (string \<times> jsval) list IAzureQuickPickItem) option)
     \<Rightarrow> ((string \<times> jsval) list option IAzureQuickPickItem list \<Rightarrow> string
          \<Rightarrow> (jsval + (string \<times> jsval) list option IAzureQuickPickItem) option)
     \<Rightarrow> AzureTreeItem \<Rightarrow> SiteClient
     \<Rightarrow> (int \<times> (jsval + (string \<times> jsval) list Response)) option
     \<Rightarrow> string \<Rightarrow> (string \<times> jsval) list list state
     \<Rightarrow> (jsval + SiteSourceControl \<times> string) option \<times> (string \<times> jsval) list list state" where
  "connectToGitHub_repository localize parseError localeCompare nonNullError signRequest
       showQuickPick showQuickPick_repos node client userResponse oAuth2Token s =
     await (Some (signRequest (requestOptions s) oAuth2Token), s) (\<lambda>signed s.
     let s1 = s\<lparr>requestOptions := signed\<lparr>url := Some ''https://api.github.com/user''\<rparr>\<rparr> in
     await (case getJsonRequest localize parseError node client
                   (with_responses (case userResponse of None \<Rightarrow> [] | Some r \<Rightarrow> [r]) s1) of
              (outcome, u) \<Rightarrow> (outcome, with_responses (responses s1) u)) (\<lambda>gitHubUser s2.
     let s3 = s2\<lparr>requestOptions := (requestOptions s2)
                     \<lparr>url := Some ''https://api.github.com/user/orgs''\<rparr>\<rparr> in
     await (getJsonRequest localize parseError node client s3) (\<lambda>gitHubOrgs s4.
     let orgQuickPicks = createQuickPickFromJsons [gitHubUser] ''login'' None @
                         createQuickPickFromJsons gitHubOrgs ''login'' None in
     await (showQuickPick orgQuickPicks ''Choose your organization.'', s4) (\<lambda>orgPick s4.
     let orgQuickPick = data orgPick in
     await (Some (nonNullProp nonNullError (nonNull (property orgQuickPick ''repos_url''))
                    ''repos_url''), s4) (\<lambda>repos_url s4.
     let s5 = s4\<lparr>requestOptions := (requestOptions s4)\<lparr>url := Some (toString repos_url)\<rparr>,
                 cache_picks := []\<rparr> in
     await (connectToGitHub_loop localize parseError localeCompare showQuickPick_repos node
              client s5) (\<lambda>repoQuickPick s6.
     let s7 = s6\<lparr>requestOptions := (requestOptions s6)
                     \<lparr>url := Some (toString (property repoQuickPick ''url'') @
                                   ''/branches'')\<rparr>\<rparr> in
     await (getJsonRequest localize parseError node client s7) (\<lambda>gitHubBranches s8.
     let branchQuickPicks = createQuickPickFromJsons gitHubBranches ''name'' None in
     await (showQuickPick branchQuickPicks ''Choose branch.'', s8) (\<lambda>branchPick s8.
     let branchQuickPick = data branchPick;
         siteSourceControl =
           \<lparr>repoUrl = toString (property repoQuickPick ''html_url''),
            branch = toString (property branchQuickPick ''name''),
            isManualIntegration = False,
            deploymentRollbackEnabled = True,
            isMercurial = False\<rparr>;
         repoName = toString (property orgQuickPick ''login'') @ ''/'' @
                    toString (property repoQuickPick ''name'')
     in (Some (Inr (siteSourceControl, repoName)), s8)))))))))"

text \<open>
  The \<^verbatim>\<open>try\<close> statement that ends \<^verbatim>\<open>connectToGitHub\<close>: the update of the source
  control under a progress notification and, when that throws, the sync of the repository.
  \<open>verifyNoRunFromPackageSetting\<close> (not among the sources) is a parameter: what the call
  settles to for a client.
\<close>

definition connectToGitHub_update ::
  "(string \<Rightarrow> string \<Rightarrow> string list \<Rightarrow> string) \<Rightarrow> (jsval \<Rightarrow> IParsedError)
     \<Rightarrow> (SiteClient \<Rightarrow> jsval + unit) \<Rightarrow> SiteClient \<Rightarrow> SiteSourceControl \<Rightarrow> string \<Rightarrow> 'a state
     \<Rightarrow> (jsval + unit) option \<times> 'a state" where
  "connectToGitHub_update localize parseError verifyNoRunFromPackageSetting client
       siteSourceControl repoName s =
     (let connectingToGithub =
            localize ''ConnectingToGithub''
              ''\"{0}\" is being connected to repo \"{1}\". This may take several minutes...''
              [fullName client, repoName];
          connectedToGithub =
            localize ''ConnectedToGithub'' ''Repo \"{0}\" is connected and deployed to \"{1}\".''
              [repoName, fullName client];
          s1 = s\<lparr>trace := trace s @ [WithProgress connectingToGithub,
                                       AppendLine connectingToGithub,
                                       VerifyNoRunFromPackageSetting]\<rparr>;
          tried =
            (case verifyNoRunFromPackageSetting client of
               Inl err \<Rightarrow> (Inl err, s1)
             | Inr u \<Rightarrow>
                 (let s2 = s1\<lparr>trace := trace s1 @ [UpdateSourceControl siteSourceControl]\<rparr> in
                  case updateSourceControl client siteSourceControl of
                    Inl err \<Rightarrow> (Inl err, s2)
                  | Inr u \<Rightarrow>
                      (Inr (),
                       s2\<lparr>trace := trace s2 @ [ShowInformationMessage connectedToGithub,
                                                AppendLine connectedToGithub]\<rparr>)))
      in case tried of
           (Inr u, s3) \<Rightarrow> (Some (Inr ()), s3)
         | (Inl err, s3) \<Rightarrow>
             (let s4 = s3\<lparr>trace := trace s3 @ [SyncRepository]\<rparr> in
              case syncRepository client of
                Inr u \<Rightarrow> (Some (Inr ()), s4)
              | Inl error \<Rightarrow>
                  (let parsedError = parseError error in
                   if indexOf (message parsedError) ''\"statusCode\":200'' = - 1
                   then (Some (Inl error), s4)
                   else (Some (Inr ()), s4))))"

text \<open>
  \<^verbatim>\<open>connectToGitHub\<close>. The choice of the organization, the repository and the branch
  (from \<^verbatim>\<open>signRequest\<close> to \<^verbatim>\<open>repoName\<close>) is the argument \<open>chooseRepository\<close>: given
  the token and the state it returns the \<^verbatim>\<open>siteSourceControl\<close> and the \<^verbatim>\<open>repoName\<close>,
  or throws, or never returns. The code's choice is \<open>connectToGitHub_repository\<close> above,
  with its parameters and the response for the user. \<open>userAgent\<close> is what
  \<^verbatim>\<open>appendExtensionUserAgent()\<close> returns. Reading \<^verbatim>\<open>token\<close> off the first element of an
  empty array is a TypeError.
\<close>

definition connectToGitHub ::
  "(string \<Rightarrow> string \<Rightarrow> string list \<Rightarrow> string) \<Rightarrow> (jsval \<Rightarrow> IParsedError) \<Rightarrow> string
     \<Rightarrow> (SiteClient \<Rightarrow> jsval + unit)
     \<Rightarrow> (string \<Rightarrow> 'a state \<Rightarrow> (jsval + SiteSourceControl \<times> string) option \<times> 'a state)
     \<Rightarrow> AzureTreeItem \<Rightarrow> SiteClient \<Rightarrow> 'a state \<Rightarrow> (jsval + unit) option \<times> 'a state" where
  "connectToGitHub localize parseError userAgent verifyNoRunFromPackageSetting chooseRepository
       node client s =
     (let s1 = s\<lparr>requestOptions :=
                   \<lparr>url = None, headers = [(''User-Agent'', userAgent)],
                    resolveWithFullResponse = Some True, nextLink = None\<rparr>,
                 trace := trace s @ [ListSourceControls]\<rparr>
      in case listSourceControls client of
           Inl e \<Rightarrow> (Some (Inl e), s1)
         | Inr sourceControls \<Rightarrow>
             (case sourceControls of
                [] \<Rightarrow>
                  (Some (Inl (new_TypeError ''Cannot read property 'token' of undefined'')), s1)
              | first # others \<Rightarrow>
                  (let oAuth2Token = token first in
                   if \<not> truthy_string oAuth2Token
                   then (case showGitHubAuthPrompt localize node client s1 of
                           (None, s2) \<Rightarrow> (None, s2)
                         | (Some u, s2) \<Rightarrow>
                             (Some (Inl (new_Error (noToken localize))),
                              s2\<lparr>actionContext := (actionContext s2)
                                     \<lparr>suppressErrorDisplay := Some True\<rparr>\<rparr>))
                   else (case chooseRepository (the oAuth2Token) s1 of
                           (None, s2) \<Rightarrow> (None, s2)
                         | (Some (Inl e), s2) \<Rightarrow> (Some (Inl e), s2)
                         | (Some (Inr (siteSourceControl, repoName)), s2) \<Rightarrow>
                             connectToGitHub_update localize parseError
                               verifyNoRunFromPackageSetting client siteSourceControl
                               repoName s2))))"

section \<open>Notions for the statements\<close>

text \<open>
  The state in which \<^verbatim>\<open>getJsonRequest\<close> leaves its \<^verbatim>\<open>try\<close> block when the request
  has settled to \<open>outcome\<close> at time \<open>t\<close>: the request is in the trace, the response is off
  the script, and \<^verbatim>\<open>nextLink\<close> is set from the \<^verbatim>\<open>Link\<close> header when there is one.
\<close>

definition after_response ::
  "'a state \<Rightarrow> int \<Rightarrow> jsval + 'a Response \<Rightarrow> (int \<times> (jsval + 'a Response)) list \<Rightarrow> 'a state" where
  "after_response s t outcome rest =
     s\<lparr>trace := trace s @ [Request (requestOptions s)], responses := rest, now := t,
        requestOptions :=
          (case outcome of
             Inl error \<Rightarrow> requestOptions s
           | Inr r \<Rightarrow>
               if truthy_string (link r)
               then (requestOptions s)
                      \<lparr>nextLink := parseLinkHeaderToGitHubLinkObject (the (link r)) ''next''\<rparr>
               else requestOptions s)\<rparr>"

text \<open>What a settled request fails with, if it fails: the error the request rejects with, or
  the error \<^verbatim>\<open>JSON.parse\<close> throws on the body.\<close>

definition failure :: "jsval + 'a Response \<Rightarrow> jsval option" where
  "failure outcome =
     (case outcome of
        Inl error \<Rightarrow> Some error
      | Inr r \<Rightarrow> (case body r of Inl error \<Rightarrow> Some error | Inr v \<Rightarrow> None))"

text \<open>
  A \<^verbatim>\<open>Link\<close> header of the form the code expects: its entries, each a name and a URL,
  written \<^verbatim>\<open><URL>; rel="NAME"\<close> and separated by a comma and a space. An entry is well
  formed when the URL has no \<^verbatim>\<open>>\<close>, no \<^verbatim>\<open>rel=\<close> and no comma followed by a space in it, and the name has no
  comma followed by a space in it.
\<close>

definition link_entry :: "string \<times> string \<Rightarrow> string" where
  "link_entry e = ''<'' @ snd e @ ''>; rel=\"'' @ fst e @ ''\"''"

definition link_header :: "(string \<times> string) list \<Rightarrow> string" where
  "link_header entries = join '', '' (map link_entry entries)"

definition wellformed_entry :: "string \<times> string \<Rightarrow> bool" where
  "wellformed_entry e \<longleftrightarrow>
     \<not> includes_string (snd e) ''>'' \<and> \<not> includes_string (snd e) ''rel='' \<and>
     \<not> includes_string (snd e) '', '' \<and> \<not> includes_string (fst e) '', ''"

text \<open>
  A page of a listing as a response on the script: it settles at time \<open>t\<close>, has the
  \<^verbatim>\<open>Link\<close> header \<open>l\<close>, and its body parses to \<open>page\<close>. \<open>after_page\<close> is the
  state in which the loop of \<^verbatim>\<open>getGitHubReposQuickPicks\<close> tests its condition after it has
  read the response \<open>r\<close>.
\<close>

definition page_response :: "int \<times> string \<times> 'a \<Rightarrow> int \<times> (jsval + 'a Response)" where
  "page_response p = (case p of (t, l, page) \<Rightarrow> (t, Inr \<lparr>link = Some l, body = Inr page\<rparr>))"

definition after_page ::
  "'a state \<Rightarrow> int \<Rightarrow> 'a Response \<Rightarrow> (int \<times> (jsval + 'a Response)) list \<Rightarrow> 'a state" where
  "after_page s t r rest =
     (let s1 = after_response s t (Inr r) rest in
      if truthy_string (nextLink (requestOptions s1))
      then s1\<lparr>requestOptions := (requestOptions s1)\<lparr>url := nextLink (requestOptions s1)\<rparr>\<rparr>
      else s1)"

text \<open>
  A run of \<^verbatim>\<open>connectToGitHub\<close> that stops for the token, from the state \<open>s\<close> with the
  result and the state \<open>outcome\<close>: after listing the source controls it has made requests
  and then shown the prompt, and nothing else, no update of the source control and no sync
  among it; it throws \<open>error\<close> with the error display suppressed once the user leaves the
  dialog of the prompt, and does not return as long as the user only asks to learn more.
\<close>

definition stops_for_token ::
  "(string \<Rightarrow> string \<Rightarrow> string list \<Rightarrow> string) \<Rightarrow> 'a state \<Rightarrow> jsval
     \<Rightarrow> (jsval + unit) option \<times> 'a state \<Rightarrow> bool" where
  "stops_for_token localize s error outcome \<longleftrightarrow>
     (\<exists>requests es.
        requests \<noteq> [] \<and> (\<forall>e\<in>set requests. is_Request e) \<and>
        (\<forall>e\<in>set es. (case e of ShowErrorMessage m \<Rightarrow> True | OpenUrl u \<Rightarrow> True
                         | OpenInPortal n u \<Rightarrow> True | _ \<Rightarrow> False)) \<and>
        trace (snd outcome) =
          trace s @ ListSourceControls # requests @ ShowErrorMessage (invalidToken localize) # es) \<and>
     fst outcome =
       (if \<forall>a\<in>set (answers s). a = Some learnMore then None else Some (Inl error)) \<and>
     ((\<exists>a\<in>set (answers s). a \<noteq> Some learnMore) \<longrightarrow>
        suppressErrorDisplay (actionContext (snd outcome)) = Some True)"

section \<open>How a part of the connection ends\<close>

text \<open>
  What a part of \<^verbatim>\<open>connectToGitHub\<close> that runs from \<open>s\<close> to \<open>s'\<close> has read of the
  script tells how it ended. It is quiet when every response it has read is a success: then it
  has shown no prompt, it has left the action context as it was and it has added only
  requests to the trace.
\<close>

definition quiet :: "'a state \<Rightarrow> 'a state \<Rightarrow> bool" where
  "quiet s s' \<longleftrightarrow>
     answers s' = answers s \<and> actionContext s' = actionContext s \<and>
     (\<exists>pre. responses s = pre @ responses s' \<and> (\<forall>p\<in>set pre. failure (snd p) = None)) \<and>
     (\<exists>es. trace s' = trace s @ es \<and> (\<forall>e\<in>set es. is_Request e))"

text \<open>
  The error of a failed request thrown again, from the state \<open>s\<close> before the request: the
  result is the error, or nothing when the prompt is shown and the user never leaves its
  dialog; when the parsed message contains \<^verbatim>\<open>Bad credentials\<close> the trace has got requests
  and then the prompt, and the error display is suppressed once the user has left the dialog.
\<close>

definition thrown ::
  "(string \<Rightarrow> string \<Rightarrow> string list \<Rightarrow> string) \<Rightarrow> (jsval \<Rightarrow> IParsedError) \<Rightarrow> 'a state \<Rightarrow> jsval
     \<Rightarrow> (jsval + 'v) option \<Rightarrow> 'a state \<Rightarrow> bool" where
  "thrown localize parseError s error r s' \<longleftrightarrow>
     r = (if indexOf (message (parseError error)) ''Bad credentials'' > - 1 \<and>
             (\<forall>a\<in>set (answers s). a = Some learnMore)
          then None else Some (Inl error)) \<and>
     (indexOf (message (parseError error)) ''Bad credentials'' > - 1 \<longrightarrow>
        (\<exists>requests es.
           requests \<noteq> [] \<and> (\<forall>e\<in>set requests. is_Request e) \<and>
           (\<forall>e\<in>set es. (case e of ShowErrorMessage m \<Rightarrow> True | OpenUrl u \<Rightarrow> True
                            | OpenInPortal n u \<Rightarrow> True | _ \<Rightarrow> False)) \<and>
           trace s' = trace s @ requests @ ShowErrorMessage (invalidToken localize) # es) \<and>
        ((\<exists>a\<in>set (answers s). a \<noteq> Some learnMore) \<longrightarrow>
           suppressErrorDisplay (actionContext s') = Some True))"

text \<open>
  A part has stopped when the last response it has read is a failure, all the earlier ones
  being successes, and the error of that failure is thrown; it settles when it is quiet or
  has stopped.
\<close>

definition stopped ::
  "(string \<Rightarrow> string \<Rightarrow> string list \<Rightarrow> string) \<Rightarrow> (jsval \<Rightarrow> IParsedError) \<Rightarrow> 'a state
     \<Rightarrow> (jsval + 'v) option \<Rightarrow> 'a state \<Rightarrow> bool" where
  "stopped localize parseError s r s' \<longleftrightarrow>
     (\<exists>pre t outcome error.
        responses s = pre @ (t, outcome) # responses s' \<and>
        (\<forall>p\<in>set pre. failure (snd p) = None) \<and> failure outcome = Some error \<and>
        thrown localize parseError s error r s')"

definition settles ::
  "(string \<Rightarrow> string \<Rightarrow> string list \<Rightarrow> string) \<Rightarrow> (jsval \<Rightarrow> IParsedError) \<Rightarrow> 'a state
     \<Rightarrow> (jsval + 'v) option \<times> 'a state \<Rightarrow> bool" where
  "settles localize parseError s outcome \<longleftrightarrow>
     quiet s (snd outcome) \<or> stopped localize parseError s (fst outcome) (snd outcome)"

section \<open>Properties of the tree items\<close>

lemma settle_eq:
  "settle localize treeItem cv createTreeItem getLabelOnError source (items, u) =
     (items @ (case createTreeItem source of
            Inr item \<Rightarrow> (case item of Some i \<Rightarrow> [TreeItem i] | None \<Rightarrow> [])
          | Inl error \<Rightarrow>
              (case getLabelOnError source of
                 Inr (Some name) \<Rightarrow>
                   if name \<noteq> []
                   then [Invalid (new_InvalidTreeItem localize treeItem name error cv None)]
                   else []
               | Inr None \<Rightarrow> []
               | Inl e \<Rightarrow> [])),
      if truthy u then u
      else (case createTreeItem source of
                  Inr item \<Rightarrow> u
                | Inl error \<Rightarrow>
                    if truthy_string (case getLabelOnError source of Inr n \<Rightarrow> n | Inl e \<Rightarrow> None)
                       \<or> \<not> truthy error
                    then u else error))"
  by (simp add: settle_def Let_def split: sum.splits option.splits)

lemma fold_settle:
  "fold (settle localize treeItem cv createTreeItem getLabelOnError) xs (items, u) =
     (items @ concat (map (\<lambda>source.
          case createTreeItem source of
            Inr item \<Rightarrow> (case item of Some i \<Rightarrow> [TreeItem i] | None \<Rightarrow> [])
          | Inl error \<Rightarrow>
              (case getLabelOnError source of
                 Inr (Some name) \<Rightarrow>
                   if name \<noteq> []
                   then [Invalid (new_InvalidTreeItem localize treeItem name error cv None)]
                   else []
               | Inr None \<Rightarrow> []
               | Inl e \<Rightarrow> [])) xs),
      if truthy u then u
      else (case List.map_filter (\<lambda>source.
                case createTreeItem source of
                  Inr item \<Rightarrow> None
                | Inl error \<Rightarrow>
                    if truthy_string (case getLabelOnError source of Inr n \<Rightarrow> n | Inl e \<Rightarrow> None)
                       \<or> \<not> truthy error
                    then None else Some error) xs of
              [] \<Rightarrow> u
            | e # es \<Rightarrow> e))"
proof (induction xs arbitrary: items u)
  case Nil
  then show ?case by simp
next
  case (Cons x xs)
  show ?case
    unfolding fold_Cons comp_def settle_eq Cons.IH
    by (simp split: sum.splits option.splits list.splits)
qed

lemma map_filter_truthy:
  "List.map_filter (\<lambda>source.
       case createTreeItem source of
         Inr item \<Rightarrow> None
       | Inl error \<Rightarrow> if P source \<or> \<not> truthy error then None else Some error) xs = e # es
   \<Longrightarrow> truthy e"
proof (induction xs)
  case Nil
  then show ?case by simp
next
  case (Cons x xs)
  then show ?case by (auto split: sum.splits if_splits)
qed

text \<open>
  C9. Whatever the constructor is given, an \<^verbatim>\<open>InvalidTreeItem\<close> has no more children
  to load, is the ancestor of nothing, and \<^verbatim>\<open>loadMoreChildrenImpl\<close> throws the very
  error the constructor stored.
\<close>

theorem InvalidTreeItem_methods:
  "hasMoreChildrenImpl (new_InvalidTreeItem localize p l error cv d) = False \<and>
   isAncestorOfImpl (new_InvalidTreeItem localize p l error cv d) = False \<and>
   loadMoreChildrenImpl (new_InvalidTreeItem localize p l error cv d) = Inl error \<and>
   stored_error (new_InvalidTreeItem localize p l error cv d) = error"
  by (simp add: hasMoreChildrenImpl_def isAncestorOfImpl_def loadMoreChildrenImpl_def
        new_InvalidTreeItem_def)

text \<open>
  C1, as stated, fails: two elements whose \<^verbatim>\<open>createTreeItem\<close> throws (the numbers 1 and
  2 are thrown) and for which \<^verbatim>\<open>getLabelOnError\<close> returns \<^verbatim>\<open>undefined\<close> give one
  node in all, the aggregate one, and the error thrown for the second element is in no node.
\<close>

theorem createTreeItems_unlabelled_counterexample:
  "createTreeItemsWithErrorHandling (\<lambda>key message. message) ''root'' [1, 2 :: nat] ''invalid''
       (\<lambda>source. Inl (JNum (int source)) :: jsval + unit option) (\<lambda>source. Inr None) =
     [Invalid \<lparr>parent = ''root'', label = ''Some items could not be displayed'',
               stored_error = JNum 1, contextValue = ''invalid'', description = ''''\<rparr>]"
  by (simp add: createTreeItemsWithErrorHandling_def settle_def new_InvalidTreeItem_def)

text \<open>
  C1, amended. The returned list is, element by element in the order of completion: the item
  itself where \<^verbatim>\<open>createTreeItem\<close> returned one; a placeholder \<^verbatim>\<open>InvalidTreeItem\<close>
  with the label of \<^verbatim>\<open>getLabelOnError\<close>, carrying the thrown error, where
  \<^verbatim>\<open>createTreeItem\<close> threw and \<^verbatim>\<open>getLabelOnError\<close> returned a non-empty label;
  nothing where \<^verbatim>\<open>createTreeItem\<close> returned \<^verbatim>\<open>undefined\<close>, and nothing of its own
  where it threw and no label could be had. At most one more node follows.
\<close>

theorem createTreeItems_per_element:
  "\<exists>rest. length rest \<le> 1 \<and>
     createTreeItemsWithErrorHandling localize treeItem sourceArray cv createTreeItem
         getLabelOnError =
       concat (map (\<lambda>source.
          case createTreeItem source of
            Inr item \<Rightarrow> (case item of Some i \<Rightarrow> [TreeItem i] | None \<Rightarrow> [])
          | Inl error \<Rightarrow>
              (case getLabelOnError source of
                 Inr (Some name) \<Rightarrow>
                   if name \<noteq> []
                   then [Invalid (new_InvalidTreeItem localize treeItem name error cv None)]
                   else []
               | Inr None \<Rightarrow> []
               | Inl e \<Rightarrow> [])) sourceArray) @ rest"
  unfolding createTreeItemsWithErrorHandling_def fold_settle
  by (simp split: list.splits)

theorem createTreeItems_per_element_witness:
  "\<exists>rest. length rest \<le> 1 \<and>
     createTreeItemsWithErrorHandling (\<lambda>key message. message) ''root'' [1, 2, 3, 4 :: nat]
         ''invalid''
         (\<lambda>source. if source = 1 then Inr (Some source) else if source = 4 then Inr None
                    else Inl (JNum (int source)))
         (\<lambda>source. if source = 2 then Inr (Some ''two'') else Inr None) =
       [TreeItem 1,
        Invalid \<lparr>parent = ''root'', label = ''two'', stored_error = JNum 2,
                 contextValue = ''invalid'', description = ''Invalid''\<rparr>] @ rest"
  using createTreeItems_per_element [of "\<lambda>key message. message" "''root''" "[1, 2, 3, 4 :: nat]"
      "''invalid''"
      "\<lambda>source. if source = 1 then Inr (Some source) else if source = 4 then Inr None
                 else Inl (JNum (int source))"
      "\<lambda>source. if source = 2 then Inr (Some ''two'') else Inr None"]
  by (simp add: new_InvalidTreeItem_def)

text \<open>
  C3. The returned list is the nodes made element by element, followed by at most one
  aggregate node: none when no element failed without a label, else one node labelled
  \<^verbatim>\<open>localize('cantShowItems', 'Some items could not be displayed')\<close> with an empty
  description, and the error it carries is the first (in the order of completion) thrown for an
  element without a label. An unknown error is a truthy thrown value, as the guard
  \<^verbatim>\<open>error && !unknownError\<close> has it.
\<close>

theorem createTreeItems_one_aggregate:
  "createTreeItemsWithErrorHandling localize treeItem sourceArray cv createTreeItem
       getLabelOnError =
     concat (map (\<lambda>source.
          case createTreeItem source of
            Inr item \<Rightarrow> (case item of Some i \<Rightarrow> [TreeItem i] | None \<Rightarrow> [])
          | Inl error \<Rightarrow>
              (case getLabelOnError source of
                 Inr (Some name) \<Rightarrow>
                   if name \<noteq> []
                   then [Invalid (new_InvalidTreeItem localize treeItem name error cv None)]
                   else []
               | Inr None \<Rightarrow> []
               | Inl e \<Rightarrow> [])) sourceArray) @
     (case List.map_filter (\<lambda>source.
              case createTreeItem source of
                Inr item \<Rightarrow> None
              | Inl error \<Rightarrow>
                  if truthy_string (case getLabelOnError source of Inr n \<Rightarrow> n | Inl e \<Rightarrow> None)
                     \<or> \<not> truthy error
                  then None else Some error) sourceArray of
        [] \<Rightarrow> []
      | e # es \<Rightarrow>
          [Invalid (new_InvalidTreeItem localize treeItem
                      (localize ''cantShowItems'' ''Some items could not be displayed'')
                      e cv (Some ''''))])"
proof (cases "List.map_filter (\<lambda>source.
              case createTreeItem source of
                Inr item \<Rightarrow> None
              | Inl error \<Rightarrow>
                  if truthy_string (case getLabelOnError source of Inr n \<Rightarrow> n | Inl e \<Rightarrow> None)
                     \<or> \<not> truthy error
                  then None else Some error) sourceArray")
  case Nil
  then show ?thesis
    unfolding createTreeItemsWithErrorHandling_def fold_settle by simp
next
  case (Cons e es)
  from map_filter_truthy [OF Cons] have "truthy e" .
  with Cons show ?thesis
    unfolding createTreeItemsWithErrorHandling_def fold_settle by simp
qed

theorem createTreeItems_one_aggregate_witness:
  "createTreeItemsWithErrorHandling (\<lambda>key message. message) ''root'' [1, 2, 3, 4 :: nat]
       ''invalid''
       (\<lambda>source. if source = 1 then Inr (Some source) else Inl (JNum (int source)))
       (\<lambda>source. if source = 2 then Inr (Some ''two'') else Inr None) =
     [TreeItem 1,
      Invalid \<lparr>parent = ''root'', label = ''two'', stored_error = JNum 2,
               contextValue = ''invalid'', description = ''Invalid''\<rparr>,
      Invalid \<lparr>parent = ''root'', label = ''Some items could not be displayed'',
               stored_error = JNum 3, contextValue = ''invalid'', description = ''''\<rparr>]"
  using createTreeItems_one_aggregate [of "\<lambda>key message. message" "''root''"
      "[1, 2, 3, 4 :: nat]" "''invalid''"
      "\<lambda>source. if source = 1 then Inr (Some source) else Inl (JNum (int source))"
      "\<lambda>source. if source = 2 then Inr (Some ''two'') else Inr None"]
  by (simp add: new_InvalidTreeItem_def)

section \<open>Properties of the quick picks\<close>

lemma createQuickPickFromJsons_loop_blank:
  "\<not> truthy_string description' \<Longrightarrow>
   createQuickPickFromJsons_loop jsons label' description' quickPicks =
     quickPicks @
     map (\<lambda>json. \<lparr>pick_id = None, pick_label = property json label',
                   pick_description = Some '''', pick_detail = None,
                   suppressPersistence = None, data = json\<rparr>)
         (filter (\<lambda>json. truthy (property json label')) jsons)"
  by (induction jsons arbitrary: quickPicks) (simp_all add: Let_def)

lemma createQuickPickFromJsons_loop_described:
  "d \<noteq> [] \<Longrightarrow>
   createQuickPickFromJsons_loop jsons label' (Some d) quickPicks =
     quickPicks @
     map (\<lambda>json. \<lparr>pick_id = None, pick_label = property json label',
                   pick_description = Some (toString (property json d)), pick_detail = None,
                   suppressPersistence = None, data = json\<rparr>)
         (takeWhile (\<lambda>json. truthy (property json d))
            (filter (\<lambda>json. truthy (property json label')) jsons)) @
     map (\<lambda>json. \<lparr>pick_id = None, pick_label = property json label',
                   pick_description = Some '''', pick_detail = None,
                   suppressPersistence = None, data = json\<rparr>)
         (dropWhile (\<lambda>json. truthy (property json d))
            (filter (\<lambda>json. truthy (property json label')) jsons))"
proof (induction jsons arbitrary: quickPicks)
  case Nil
  then show ?case by simp
next
  case (Cons json jsons)
  then show ?case
    by (simp add: Let_def createQuickPickFromJsons_loop_blank)
qed

lemma createQuickPickFromJsons_eq:
  "createQuickPickFromJsons jsons label' description' =
     map (\<lambda>json. \<lparr>pick_id = None, pick_label = property json label',
                   pick_description = Some (toString (property json (the description'))),
                   pick_detail = None, suppressPersistence = None, data = json\<rparr>)
         (takeWhile (\<lambda>json. truthy_string description' \<and> truthy (property json (the description')))
            (filter (\<lambda>json. truthy (property json label')) jsons)) @
     map (\<lambda>json. \<lparr>pick_id = None, pick_label = property json label',
                   pick_description = Some '''', pick_detail = None,
                   suppressPersistence = None, data = json\<rparr>)
         (dropWhile (\<lambda>json. truthy_string description' \<and> truthy (property json (the description')))
            (filter (\<lambda>json. truthy (property json label')) jsons))"
proof (cases "truthy_string description'")
  case True
  then obtain d where d: "description' = Some d" "d \<noteq> []"
    by (cases description') auto
  then show ?thesis
    by (simp add: createQuickPickFromJsons_def createQuickPickFromJsons_loop_described)
next
  case False
  have "takeWhile (\<lambda>json. False) xs = []" "dropWhile (\<lambda>json. False) xs = xs"
    for xs :: "(string \<times> jsval) list list"
    by (cases xs; simp)+
  with False show ?thesis
    by (simp add: createQuickPickFromJsons_def createQuickPickFromJsons_loop_blank)
qed

text \<open>
  C8, as stated, fails: the first object has neither the label property \<^verbatim>\<open>name\<close> nor the
  description property \<^verbatim>\<open>d\<close>; it is skipped before the description is looked at, so the
  parameter is not cleared and the pick of the second object has the description \<^verbatim>\<open>x\<close>.
\<close>

theorem createQuickPickFromJsons_skipped_counterexample:
  "createQuickPickFromJsons
       [[(''id'', JNum 7)], [(''name'', JStr ''a''), (''d'', JStr ''x'')]] ''name'' (Some ''d'') =
     [\<lparr>pick_id = None, pick_label = JStr ''a'', pick_description = Some ''x'',
       pick_detail = None, suppressPersistence = None,
       data = [(''name'', JStr ''a''), (''d'', JStr ''x'')]\<rparr>]"
  by (simp add: createQuickPickFromJsons_def property_def)

text \<open>
  C8, amended. The picks are those of the objects with a truthy value at the label property,
  in order (so there are at most as many picks as objects), each with its object as data and
  its object's label value as label. The descriptions are those of the objects up to the first
  kept object with no truthy value at the description property; that pick and every later one
  has the blank description. An object that is skipped for its label does not clear the
  description. With no description parameter, or an empty one, every description is blank.
\<close>

theorem createQuickPickFromJsons_picks:
  "length (createQuickPickFromJsons jsons label' description') \<le> length jsons \<and>
   map data (createQuickPickFromJsons jsons label' description') =
     filter (\<lambda>json. truthy (property json label')) jsons \<and>
   map pick_label (createQuickPickFromJsons jsons label' description') =
     map (\<lambda>json. property json label') (filter (\<lambda>json. truthy (property json label')) jsons) \<and>
   map pick_description (createQuickPickFromJsons jsons label' description') =
     map (\<lambda>json. Some (toString (property json (the description'))))
       (takeWhile (\<lambda>json. truthy_string description' \<and> truthy (property json (the description')))
          (filter (\<lambda>json. truthy (property json label')) jsons)) @
     map (\<lambda>json. Some '''')
       (dropWhile (\<lambda>json. truthy_string description' \<and> truthy (property json (the description')))
          (filter (\<lambda>json. truthy (property json label')) jsons))"
proof -
  let ?kept = "filter (\<lambda>json. truthy (property json label')) jsons"
  let ?P = "\<lambda>json. truthy_string description' \<and> truthy (property json (the description'))"
  have "length (takeWhile ?P ?kept) + length (dropWhile ?P ?kept) = length ?kept"
    by (metis length_append takeWhile_dropWhile_id)
  moreover have "length ?kept \<le> length jsons"
    by simp
  ultimately have "length (createQuickPickFromJsons jsons label' description') \<le> length jsons"
    unfolding createQuickPickFromJsons_eq by simp
  moreover have "map data (createQuickPickFromJsons jsons label' description') = ?kept"
    unfolding createQuickPickFromJsons_eq by (simp add: comp_def)
  moreover have "map pick_label (createQuickPickFromJsons jsons label' description') =
      map (\<lambda>json. property json label') (takeWhile ?P ?kept @ dropWhile ?P ?kept)"
    unfolding createQuickPickFromJsons_eq map_append by (simp add: comp_def)
  moreover have "map pick_description (createQuickPickFromJsons jsons label' description') =
      map (\<lambda>json. Some (toString (property json (the description')))) (takeWhile ?P ?kept) @
      map (\<lambda>json. Some '''') (dropWhile ?P ?kept)"
    unfolding createQuickPickFromJsons_eq by (simp add: comp_def)
  ultimately show ?thesis by simp
qed

theorem createQuickPickFromJsons_picks_witness:
  "map pick_label (createQuickPickFromJsons
       [[(''name'', JStr ''a''), (''d'', JNum 12)], [(''id'', JNum 7)], [(''name'', JStr ''b'')],
        [(''name'', JStr ''c''), (''d'', JStr ''x'')]] ''name'' (Some ''d'')) =
     [JStr ''a'', JStr ''b'', JStr ''c''] \<and>
   map pick_description (createQuickPickFromJsons
       [[(''name'', JStr ''a''), (''d'', JNum 12)], [(''id'', JNum 7)], [(''name'', JStr ''b'')],
        [(''name'', JStr ''c''), (''d'', JStr ''x'')]] ''name'' (Some ''d'')) =
     [Some ''12'', Some '''', Some '''']"
  using createQuickPickFromJsons_picks [of
      "[[(''name'', JStr ''a''), (''d'', JNum 12)], [(''id'', JNum 7)], [(''name'', JStr ''b'')],
        [(''name'', JStr ''c''), (''d'', JStr ''x'')]]" "''name''" "Some ''d''"]
  by (simp add: property_def number_toString_def decimal.simps)

section \<open>Properties of the wizard of createAppService\<close>

text \<open>
  C6. The prompt steps are a function of the app kind and the options. For a function app
  the wizard is always made, and its prompt steps are, in this order, SiteNameStep,
  ResourceGroupListStep, SiteOSStep, SiteRuntimeStep, StorageAccountListStep and
  LocationListStep. For every app kind, whenever a wizard is made, its last execute step is
  the SiteCreateStep.
\<close>

theorem createAppService_steps:
  "(\<exists>w. createAppService_wizard WebsiteOS setWizardContextDefaults functionapp
            subscriptionContext createOptions' = Inr w \<and>
        promptSteps w =
          [SiteNameStep, ResourceGroupListStep, SiteOSStep, SiteRuntimeStep,
           StorageAccountListStep
             \<lparr>default_kind = Storage, default_performance = Standard,
              default_replication = LRS\<rparr>
             \<lparr>filter_kind = [BlobStorage], filter_performance = [Premium],
              filter_replication = [ZRS], learnMoreLink = ''https://aka.ms/Cfqnrc''\<rparr>,
           LocationListStep]) \<and>
   (\<forall>w. createAppService_wizard WebsiteOS setWizardContextDefaults appKind
            subscriptionContext createOptions' = Inr w \<longrightarrow>
        executeSteps w \<noteq> [] \<and>
        last (executeSteps w) =
          SiteCreateStep (functionAppSettings
            (case createOptions' of Some c \<Rightarrow> c | None \<Rightarrow> noOptions)))"
  by (cases appKind)
     (auto simp: createAppService_wizard_def Let_def split: sum.splits if_splits)

theorem createAppService_steps_witness:
  "\<exists>w. createAppService_wizard (\<lambda>key. Some key) Inr app ()
          (Some \<lparr>os = Some ''linux'', runtime = None, resourceGroup = Some ''rg'',
                 advancedCreation = None, functionAppSettings = Some [(''k'', ''v'')]\<rparr>) = Inr w \<and>
        promptSteps w = [SiteNameStep, LocationListStep, SiteOSStep, SiteRuntimeStep] \<and>
        length (executeSteps w) = 4 \<and>
        last (executeSteps w) = SiteCreateStep (Some [(''k'', ''v'')])"
proof -
  let ?options = "Some \<lparr>os = Some ''linux'', runtime = None, resourceGroup = Some ''rg'',
      advancedCreation = None, functionAppSettings = Some [(''k'', ''v'')]\<rparr>"
  obtain w where w: "createAppService_wizard (\<lambda>key. Some key) Inr app () ?options = Inr w"
    and steps: "promptSteps w = [SiteNameStep, LocationListStep, SiteOSStep, SiteRuntimeStep]"
      "length (executeSteps w) = 4"
    by (simp add: createAppService_wizard_def)
  from createAppService_steps [of "\<lambda>key. Some key" Inr "()" ?options app] w
  have "last (executeSteps w) = SiteCreateStep (Some [(''k'', ''v'')])"
    by simp
  with w steps show ?thesis by blast
qed

section \<open>Properties of the plans of a wizard\<close>



section \<open>Properties of the connection to GitHub\<close>

lemma showGitHubAuthPrompt_loop_frame:
  "showGitHubAuthPrompt_loop msg as s = (r, s') \<Longrightarrow>
     responses s' = responses s \<and> requestOptions s' = requestOptions s \<and> now s' = now s \<and>
     cache_picks s' = cache_picks s \<and>
     suppressErrorDisplay (actionContext s') = suppressErrorDisplay (actionContext s)"
  by (induction as arbitrary: s) (auto simp: Let_def split: if_splits)

lemma showGitHubAuthPrompt_loop_result:
  "fst (showGitHubAuthPrompt_loop msg as s) =
     (case dropWhile (\<lambda>a. a = Some learnMore) as of [] \<Rightarrow> None | a # rest \<Rightarrow> Some a)"
  by (induction as arbitrary: s) (auto simp: Let_def)

lemma showGitHubAuthPrompt_loop_trace:
  "\<exists>es. trace (snd (showGitHubAuthPrompt_loop msg as s)) =
          trace s @ ShowErrorMessage msg # es \<and>
        (\<forall>e\<in>set es. case e of ShowErrorMessage m \<Rightarrow> True | OpenUrl u \<Rightarrow> True | _ \<Rightarrow> False)"
proof (induction as arbitrary: s)
  case Nil
  then show ?case by simp
next
  case (Cons a as)
  show ?case
  proof (cases "a = Some learnMore")
    case True
    let ?s = "s\<lparr>trace := trace s @ [ShowErrorMessage msg], answers := as,
                actionContext := (actionContext s)
                   \<lparr>properties := (properties (actionContext s))
                                     (''githubLearnMore'' \<mapsto> ''true'')\<rparr>,
                trace := trace s @ [ShowErrorMessage msg] @ [OpenUrl ''https://aka.ms/B7g6sw'']\<rparr>"
    from Cons.IH [of ?s] obtain es where
      "trace (snd (showGitHubAuthPrompt_loop msg as ?s)) =
         trace ?s @ ShowErrorMessage msg # es"
      "\<forall>e\<in>set es. case e of ShowErrorMessage m \<Rightarrow> True | OpenUrl u \<Rightarrow> True | _ \<Rightarrow> False"
      by blast
    with True show ?thesis
      by (simp add: Let_def)
  next
    case False
    then show ?thesis by (simp add: Let_def)
  qed
qed

lemma showGitHubAuthPrompt_result:
  "fst (showGitHubAuthPrompt localize node client s) =
     (if \<forall>a\<in>set (answers s). a = Some learnMore then None else Some ())"
proof -
  obtain r s1 where loop: "showGitHubAuthPrompt_loop (invalidToken localize) (answers s) s = (r, s1)"
    by fastforce
  have r: "r = (case dropWhile (\<lambda>a. a = Some learnMore) (answers s) of
                  [] \<Rightarrow> None | a # rest \<Rightarrow> Some a)"
    using showGitHubAuthPrompt_loop_result [of "invalidToken localize" "answers s" s] loop
    by simp
  show ?thesis
  proof (cases "\<forall>a\<in>set (answers s). a = Some learnMore")
    case True
    then have "dropWhile (\<lambda>a. a = Some learnMore) (answers s) = []"
      by simp
    with r loop True show ?thesis
      by (simp add: showGitHubAuthPrompt_def)
  next
    case False
    then have "dropWhile (\<lambda>a. a = Some learnMore) (answers s) \<noteq> []"
      by simp
    with r obtain a where "r = Some a"
      by (cases "dropWhile (\<lambda>a. a = Some learnMore) (answers s)") auto
    with loop False show ?thesis
      by (simp add: showGitHubAuthPrompt_def)
  qed
qed

lemma showGitHubAuthPrompt_frame:
  "showGitHubAuthPrompt localize node client s = (r, s') \<Longrightarrow>
     responses s' = responses s \<and> requestOptions s' = requestOptions s \<and> now s' = now s \<and>
     cache_picks s' = cache_picks s \<and>
     suppressErrorDisplay (actionContext s') = suppressErrorDisplay (actionContext s)"
proof -
  assume run: "showGitHubAuthPrompt localize node client s = (r, s')"
  obtain r1 s1 where loop: "showGitHubAuthPrompt_loop (invalidToken localize) (answers s) s = (r1, s1)"
    by fastforce
  from showGitHubAuthPrompt_loop_frame [OF loop] run loop show ?thesis
    by (auto simp: showGitHubAuthPrompt_def split: option.splits if_splits)
qed

lemma showGitHubAuthPrompt_trace:
  "\<exists>es. trace (snd (showGitHubAuthPrompt localize node client s)) =
          trace s @ ShowErrorMessage (invalidToken localize) # es \<and>
        (\<forall>e\<in>set es. case e of ShowErrorMessage m \<Rightarrow> True | OpenUrl u \<Rightarrow> True
                       | OpenInPortal n u \<Rightarrow> True | _ \<Rightarrow> False)"
proof -
  obtain r1 s1 where loop: "showGitHubAuthPrompt_loop (invalidToken localize) (answers s) s = (r1, s1)"
    by fastforce
  from showGitHubAuthPrompt_loop_trace [of "invalidToken localize" "answers s" s] loop
  obtain es where es: "trace s1 = trace s @ ShowErrorMessage (invalidToken localize) # es"
    "\<forall>e\<in>set es. case e of ShowErrorMessage m \<Rightarrow> True | OpenUrl u \<Rightarrow> True | _ \<Rightarrow> False"
    by auto
  from es(2) have weaker: "\<forall>e\<in>set es. case e of ShowErrorMessage m \<Rightarrow> True | OpenUrl u \<Rightarrow> True
                       | OpenInPortal n u \<Rightarrow> True | _ \<Rightarrow> False"
    by (auto split: event.splits)
  show ?thesis
  proof (cases "r1 = Some (Some goToPortal)")
    case True
    with loop es(1) weaker show ?thesis
      by (intro exI [of _ "es @ [OpenInPortal node (client_id client @ ''/vstscd'')]"])
         (simp add: showGitHubAuthPrompt_def)
  next
    case False
    with loop es(1) weaker show ?thesis
      by (intro exI [of _ es]) (auto simp: showGitHubAuthPrompt_def split: option.splits)
  qed
qed

lemma prompt_events_no_Request:
  "(\<forall>e\<in>set es. (case e of ShowErrorMessage m \<Rightarrow> True | OpenUrl u \<Rightarrow> True
                        | OpenInPortal n u \<Rightarrow> True | _ \<Rightarrow> False))
   \<Longrightarrow> filter is_Request es = []"
  by (induction es) (auto split: event.splits)

lemma getJsonRequest_pending:
  "responses s = [] \<Longrightarrow>
   getJsonRequest localize parseError node client s =
     (None, s\<lparr>trace := trace s @ [Request (requestOptions s)]\<rparr>)"
  by (simp add: getJsonRequest_def)

lemma getJsonRequest_settled:
  "responses s = (t, outcome) # rest \<Longrightarrow>
   getJsonRequest localize parseError node client s =
     (case (case outcome of Inl error \<Rightarrow> Inl error | Inr r \<Rightarrow> body r) of
        Inr v \<Rightarrow> (Some (Inr v), after_response s t outcome rest)
      | Inl error \<Rightarrow>
          if indexOf (message (parseError error)) ''Bad credentials'' > - 1
          then (case showGitHubAuthPrompt localize node client (after_response s t outcome rest) of
                  (None, s4) \<Rightarrow> (None, s4)
                | (Some u, s4) \<Rightarrow>
                    (Some (Inl error),
                     s4\<lparr>actionContext := (actionContext s4)\<lparr>suppressErrorDisplay := Some True\<rparr>\<rparr>))
          else (Some (Inl error), after_response s t outcome rest))"
  by (simp add: getJsonRequest_def after_response_def Let_def split: sum.splits)

lemma getJsonRequest_failed:
  assumes "responses s = (t, outcome) # rest" and "failure outcome = Some error"
  shows "getJsonRequest localize parseError node client s =
     (if indexOf (message (parseError error)) ''Bad credentials'' > - 1
      then (case showGitHubAuthPrompt localize node client (after_response s t outcome rest) of
              (None, s4) \<Rightarrow> (None, s4)
            | (Some u, s4) \<Rightarrow>
                (Some (Inl error),
                 s4\<lparr>actionContext := (actionContext s4)\<lparr>suppressErrorDisplay := Some True\<rparr>\<rparr>))
      else (Some (Inl error), after_response s t outcome rest))"
  using assms(2) unfolding getJsonRequest_settled [OF assms(1)]
  by (auto simp: failure_def split: sum.splits)

lemma getJsonRequest_trace:
  "\<exists>es. trace (snd (getJsonRequest localize parseError node client s)) =
          trace s @ Request (requestOptions s) # es \<and>
        (\<forall>e\<in>set es. case e of ShowErrorMessage m \<Rightarrow> True | OpenUrl u \<Rightarrow> True
                       | OpenInPortal n u \<Rightarrow> True | _ \<Rightarrow> False)"
proof (cases "responses s")
  case Nil
  then show ?thesis by (simp add: getJsonRequest_pending)
next
  case (Cons p rest)
  obtain t outcome where p: "p = (t, outcome)" by (cases p)
  let ?s3 = "after_response s t outcome rest"
  from showGitHubAuthPrompt_trace [of localize node client ?s3]
  obtain es where es: "trace (snd (showGitHubAuthPrompt localize node client ?s3)) =
      trace ?s3 @ ShowErrorMessage (invalidToken localize) # es"
    "\<forall>e\<in>set es. case e of ShowErrorMessage m \<Rightarrow> True | OpenUrl u \<Rightarrow> True
                       | OpenInPortal n u \<Rightarrow> True | _ \<Rightarrow> False"
    by blast
  have s3: "trace ?s3 = trace s @ [Request (requestOptions s)]"
    by (simp add: after_response_def)
  show ?thesis
  proof (cases "\<exists>error. failure outcome = Some error \<and>
                  indexOf (message (parseError error)) ''Bad credentials'' > - 1")
    case True
    then obtain error where "failure outcome = Some error"
      "indexOf (message (parseError error)) ''Bad credentials'' > - 1" by blast
    with Cons p es s3 show ?thesis
      by (intro exI [of _ "ShowErrorMessage (invalidToken localize) # es"])
         (auto simp: getJsonRequest_failed split: prod.splits option.splits)
  next
    case False
    with Cons p s3 show ?thesis
      by (intro exI [of _ "[]"])
         (auto simp: getJsonRequest_settled failure_def split: sum.splits)
  qed
qed

lemma getJsonRequest_responses:
  "responses (snd (getJsonRequest localize parseError node client s)) = tl (responses s)"
proof (cases "responses s")
  case Nil
  then show ?thesis by (simp add: getJsonRequest_pending)
next
  case (Cons p rest)
  obtain t outcome where p: "p = (t, outcome)" by (cases p)
  let ?s3 = "after_response s t outcome rest"
  obtain r s4 where prompt: "showGitHubAuthPrompt localize node client ?s3 = (r, s4)"
    by fastforce
  from showGitHubAuthPrompt_frame [OF prompt] have "responses s4 = rest"
    by (simp add: after_response_def)
  with Cons p prompt show ?thesis
    by (auto simp: getJsonRequest_settled after_response_def split: sum.splits option.splits)
qed

text \<open>
  C7. \<^verbatim>\<open>getJsonRequest\<close> issues exactly one request: its trace has one request more than
  before, and one response is taken off the script, whatever that response is. When the
  request fails (it rejects, or the body does not parse), the caller gets that very error,
  with one exception that is no retry either: when the parsed message contains
  \<^verbatim>\<open>Bad credentials\<close> and the user never leaves the dialog of the prompt, the call never
  returns.
\<close>

theorem getJsonRequest_once:
  "length (filter is_Request (trace (snd (getJsonRequest localize parseError node client s)))) =
     Suc (length (filter is_Request (trace s))) \<and>
   responses (snd (getJsonRequest localize parseError node client s)) = tl (responses s) \<and>
   (\<forall>t outcome rest error.
      responses s = (t, outcome) # rest \<and> failure outcome = Some error \<longrightarrow>
      fst (getJsonRequest localize parseError node client s) =
        (if indexOf (message (parseError error)) ''Bad credentials'' > - 1 \<and>
            (\<forall>a\<in>set (answers s). a = Some learnMore)
         then None else Some (Inl error)))"
proof (intro conjI allI impI)
  from getJsonRequest_trace [of localize parseError node client s]
  obtain es where es: "trace (snd (getJsonRequest localize parseError node client s)) =
      trace s @ Request (requestOptions s) # es"
    "\<forall>e\<in>set es. case e of ShowErrorMessage m \<Rightarrow> True | OpenUrl u \<Rightarrow> True
                       | OpenInPortal n u \<Rightarrow> True | _ \<Rightarrow> False"
    by blast
  from prompt_events_no_Request [OF es(2)] es(1)
  show "length (filter is_Request (trace (snd (getJsonRequest localize parseError node client s)))) =
     Suc (length (filter is_Request (trace s)))"
    by simp
next
  show "responses (snd (getJsonRequest localize parseError node client s)) = tl (responses s)"
    by (rule getJsonRequest_responses)
next
  fix t outcome rest error
  assume a: "responses s = (t, outcome) # rest \<and> failure outcome = Some error"
  let ?s3 = "after_response s t outcome rest"
  have answers: "answers ?s3 = answers s"
    by (simp add: after_response_def)
  obtain r s4 where prompt: "showGitHubAuthPrompt localize node client ?s3 = (r, s4)"
    by fastforce
  from showGitHubAuthPrompt_result [of localize node client ?s3] prompt answers
  have r: "r = (if \<forall>a\<in>set (answers s). a = Some learnMore then None else Some ())"
    by simp
  from a have run: "getJsonRequest localize parseError node client s =
     (if indexOf (message (parseError error)) ''Bad credentials'' > - 1
      then (case showGitHubAuthPrompt localize node client ?s3 of
              (None, s4) \<Rightarrow> (None, s4)
            | (Some u, s4) \<Rightarrow>
                (Some (Inl error),
                 s4\<lparr>actionContext := (actionContext s4)\<lparr>suppressErrorDisplay := Some True\<rparr>\<rparr>))
      else (Some (Inl error), ?s3))"
    by (intro getJsonRequest_failed) simp_all
  show "fst (getJsonRequest localize parseError node client s) =
        (if indexOf (message (parseError error)) ''Bad credentials'' > - 1 \<and>
            (\<forall>a\<in>set (answers s). a = Some learnMore)
         then None else Some (Inl error))"
    unfolding run prompt using r by (simp split: option.splits)
qed

theorem getJsonRequest_once_witness:
  "fst (getJsonRequest (\<lambda>key msg args. msg) (\<lambda>e. \<lparr>message = toString e\<rparr>) ''node''
          \<lparr>client_id = ''id'', fullName = ''site'', listSourceControls = Inr [],
            updateSourceControl = (\<lambda>c. Inr ()), syncRepository = Inr ()\<rparr>
          \<lparr>requestOptions = \<lparr>url = Some ''https://api.github.com/user'', headers = [],
                              resolveWithFullResponse = Some True, nextLink = None\<rparr>,
            actionContext = \<lparr>suppressErrorDisplay = None, properties = Map.empty\<rparr>,
            cache_picks = [], answers = [Some learnMore, None],
            responses = [(5, Inl (JStr ''401 Bad credentials'') :: jsval + unit Response),
                         (6, Inr \<lparr>link = None, body = Inr ()\<rparr>)],
            now = 0, trace = []\<rparr>) =
     Some (Inl (JStr ''401 Bad credentials'')) \<and>
   responses (snd (getJsonRequest (\<lambda>key msg args. msg) (\<lambda>e. \<lparr>message = toString e\<rparr>) ''node''
          \<lparr>client_id = ''id'', fullName = ''site'', listSourceControls = Inr [],
            updateSourceControl = (\<lambda>c. Inr ()), syncRepository = Inr ()\<rparr>
          \<lparr>requestOptions = \<lparr>url = Some ''https://api.github.com/user'', headers = [],
                              resolveWithFullResponse = Some True, nextLink = None\<rparr>,
            actionContext = \<lparr>suppressErrorDisplay = None, properties = Map.empty\<rparr>,
            cache_picks = [], answers = [Some learnMore, None],
            responses = [(5, Inl (JStr ''401 Bad credentials'') :: jsval + unit Response),
                         (6, Inr \<lparr>link = None, body = Inr ()\<rparr>)],
            now = 0, trace = []\<rparr>)) =
     [(6, Inr \<lparr>link = None, body = Inr ()\<rparr>)]"
  using getJsonRequest_once [of "\<lambda>key msg args. msg" "\<lambda>e. \<lparr>message = toString e\<rparr>" "''node''"
      "\<lparr>client_id = ''id'', fullName = ''site'', listSourceControls = Inr [],
        updateSourceControl = (\<lambda>c. Inr ()), syncRepository = Inr ()\<rparr>"
      "\<lparr>requestOptions = \<lparr>url = Some ''https://api.github.com/user'', headers = [],
                          resolveWithFullResponse = Some True, nextLink = None\<rparr>,
        actionContext = \<lparr>suppressErrorDisplay = None, properties = Map.empty\<rparr>,
        cache_picks = [], answers = [Some learnMore, None],
        responses = [(5, Inl (JStr ''401 Bad credentials'') :: jsval + unit Response),
                     (6, Inr \<lparr>link = None, body = Inr ()\<rparr>)],
        now = 0, trace = []\<rparr>"]
  by (simp add: failure_def)

lemma connectToGitHub_no_token:
  assumes "listSourceControls client = Inr (first # others)" and "\<not> truthy_string (token first)"
  shows "connectToGitHub localize parseError userAgent verifyNoRunFromPackageSetting
           chooseRepository node client s =
     (case showGitHubAuthPrompt localize node client
             (s\<lparr>requestOptions :=
                   \<lparr>url = None, headers = [(''User-Agent'', userAgent)],
                    resolveWithFullResponse = Some True, nextLink = None\<rparr>,
                 trace := trace s @ [ListSourceControls]\<rparr>) of
        (None, s2) \<Rightarrow> (None, s2)
      | (Some u, s2) \<Rightarrow>
          (Some (Inl (new_Error (noToken localize))),
           s2\<lparr>actionContext := (actionContext s2)\<lparr>suppressErrorDisplay := Some True\<rparr>\<rparr>))"
  using assms by (simp add: connectToGitHub_def Let_def)

lemma quiet_refl: "quiet s s"
  by (simp add: quiet_def)

lemma quiet_trans:
  assumes "quiet s s1" and "quiet s1 s2"
  shows "quiet s s2"
proof -
  from assms(1) obtain pre1 es1 where 1: "answers s1 = answers s" "actionContext s1 = actionContext s"
      "responses s = pre1 @ responses s1" "\<forall>p\<in>set pre1. failure (snd p) = None"
      "trace s1 = trace s @ es1" "\<forall>e\<in>set es1. is_Request e"
    unfolding quiet_def by blast
  from assms(2) obtain pre2 es2 where 2: "answers s2 = answers s1" "actionContext s2 = actionContext s1"
      "responses s1 = pre2 @ responses s2" "\<forall>p\<in>set pre2. failure (snd p) = None"
      "trace s2 = trace s1 @ es2" "\<forall>e\<in>set es2. is_Request e"
    unfolding quiet_def by blast
  have "responses s = (pre1 @ pre2) @ responses s2" "\<forall>p\<in>set (pre1 @ pre2). failure (snd p) = None"
    "trace s2 = trace s @ (es1 @ es2)" "\<forall>e\<in>set (es1 @ es2). is_Request e"
    using 1 2 by auto
  with 1 2 show ?thesis
    unfolding quiet_def by metis
qed

lemma quiet_thrown:
  assumes "quiet s s1" and "thrown localize parseError s1 error r s2"
  shows "thrown localize parseError s error r s2"
proof -
  from assms(1) obtain es1 where 1: "answers s1 = answers s"
      "trace s1 = trace s @ es1" "\<forall>e\<in>set es1. is_Request e"
    unfolding quiet_def by blast
  show ?thesis
  proof (cases "indexOf (message (parseError error)) ''Bad credentials'' > - 1")
    case False
    with assms(2) 1 show ?thesis by (simp add: thrown_def)
  next
    case True
    with assms(2) obtain requests es where 2: "requests \<noteq> []" "\<forall>e\<in>set requests. is_Request e"
      "\<forall>e\<in>set es. (case e of ShowErrorMessage m \<Rightarrow> True | OpenUrl u \<Rightarrow> True
                            | OpenInPortal n u \<Rightarrow> True | _ \<Rightarrow> False)"
      "trace s2 = trace s1 @ requests @ ShowErrorMessage (invalidToken localize) # es"
      unfolding thrown_def by blast
    have "es1 @ requests \<noteq> []" "\<forall>e\<in>set (es1 @ requests). is_Request e"
      "trace s2 = trace s @ (es1 @ requests) @ ShowErrorMessage (invalidToken localize) # es"
      using 1 2 by auto
    with 2(3) have "\<exists>requests es.
           requests \<noteq> [] \<and> (\<forall>e\<in>set requests. is_Request e) \<and>
           (\<forall>e\<in>set es. (case e of ShowErrorMessage m \<Rightarrow> True | OpenUrl u \<Rightarrow> True
                            | OpenInPortal n u \<Rightarrow> True | _ \<Rightarrow> False)) \<and>
           trace s2 = trace s @ requests @ ShowErrorMessage (invalidToken localize) # es"
      by blast
    with assms(2) 1(1) show ?thesis
      by (simp add: thrown_def)
  qed
qed

lemma quiet_stopped:
  assumes "quiet s s1" and "stopped localize parseError s1 r s2"
  shows "stopped localize parseError s r s2"
proof -
  from assms(1) obtain pre1 where 1: "responses s = pre1 @ responses s1"
      "\<forall>p\<in>set pre1. failure (snd p) = None"
    unfolding quiet_def by blast
  from assms(2) obtain pre t outcome error where 2:
      "responses s1 = pre @ (t, outcome) # responses s2"
      "\<forall>p\<in>set pre. failure (snd p) = None" "failure outcome = Some error"
      "thrown localize parseError s1 error r s2"
    unfolding stopped_def by blast
  have "responses s = (pre1 @ pre) @ (t, outcome) # responses s2"
    "\<forall>p\<in>set (pre1 @ pre). failure (snd p) = None"
    using 1 2 by auto
  with 2(3) quiet_thrown [OF assms(1) 2(4)] show ?thesis
    unfolding stopped_def by blast
qed

lemma quiet_settles:
  "quiet s s1 \<Longrightarrow> settles localize parseError s1 outcome \<Longrightarrow> settles localize parseError s outcome"
  unfolding settles_def using quiet_trans quiet_stopped by blast

lemma thrown_result:
  "thrown localize parseError s error r s' \<Longrightarrow> r = None \<or> r = Some (Inl error)"
  unfolding thrown_def by (cases "indexOf (message (parseError error)) ''Bad credentials'' > - 1 \<and>
             (\<forall>a\<in>set (answers s). a = Some learnMore)") simp_all

lemma thrown_None:
  "thrown localize parseError s error (None :: (jsval + 'v) option) s' \<Longrightarrow>
   thrown localize parseError s error (None :: (jsval + 'w) option) s'"
  unfolding thrown_def by (cases "indexOf (message (parseError error)) ''Bad credentials'' > - 1 \<and>
             (\<forall>a\<in>set (answers s). a = Some learnMore)") simp_all

lemma thrown_Inl:
  "thrown localize parseError s error (Some (Inl e) :: (jsval + 'v) option) s' \<Longrightarrow>
   thrown localize parseError s error (Some (Inl e) :: (jsval + 'w) option) s'"
  unfolding thrown_def by (cases "indexOf (message (parseError error)) ''Bad credentials'' > - 1 \<and>
             (\<forall>a\<in>set (answers s). a = Some learnMore)") simp_all

lemma stopped_result:
  "stopped localize parseError s r s' \<Longrightarrow> r = None \<or> (\<exists>e. r = Some (Inl e))"
  unfolding stopped_def using thrown_result by blast

lemma stopped_None:
  "stopped localize parseError s (None :: (jsval + 'v) option) s' \<Longrightarrow>
   stopped localize parseError s (None :: (jsval + 'w) option) s'"
  unfolding stopped_def using thrown_None by blast

lemma stopped_Inl:
  "stopped localize parseError s (Some (Inl e) :: (jsval + 'v) option) s' \<Longrightarrow>
   stopped localize parseError s (Some (Inl e) :: (jsval + 'w) option) s'"
  unfolding stopped_def using thrown_Inl by blast

lemma settles_await:
  assumes first: "settles localize parseError s outcome"
    and rest: "\<And>v. fst outcome = Some (Inr v) \<Longrightarrow>
                 settles localize parseError (snd outcome) (continuation v (snd outcome))"
  shows "settles localize parseError s (await outcome continuation)"
proof -
  obtain r s1 where outcome: "outcome = (r, s1)"
    by (cases outcome)
  show ?thesis
  proof (cases r)
    case None
    with first outcome stopped_None [of localize parseError s s1] show ?thesis
      by (auto simp: settles_def await_def)
  next
    case (Some result)
    show ?thesis
    proof (cases result)
      case (Inl e)
      with Some first outcome stopped_Inl [of localize parseError s e s1] show ?thesis
        by (auto simp: settles_def await_def)
    next
      case (Inr v)
      with Some first outcome stopped_result [of localize parseError s r s1]
      have "quiet s s1"
        by (auto simp: settles_def)
      moreover from Inr Some outcome rest [of v]
      have "settles localize parseError s1 (continuation v s1)"
        by simp
      ultimately have "settles localize parseError s (continuation v s1)"
        by (rule quiet_settles)
      with Inr Some outcome show ?thesis
        by (simp add: await_def)
    qed
  qed
qed

lemma settles_return: "settles localize parseError s (r, s)"
  by (simp add: settles_def quiet_refl)

lemma settles_from:
  "answers s0 = answers s \<Longrightarrow> actionContext s0 = actionContext s \<Longrightarrow>
   responses s0 = responses s \<Longrightarrow> trace s0 = trace s \<Longrightarrow>
   settles localize parseError s0 outcome = settles localize parseError s outcome"
  by (simp add: settles_def quiet_def stopped_def thrown_def)

lemma settles_to:
  "answers s1 = answers s2 \<Longrightarrow> actionContext s1 = actionContext s2 \<Longrightarrow>
   responses s1 = responses s2 \<Longrightarrow> trace s1 = trace s2 \<Longrightarrow>
   settles localize parseError s (r, s1) = settles localize parseError s (r, s2)"
  by (simp add: settles_def quiet_def stopped_def thrown_def)

lemma getJsonRequest_settles:
  "settles localize parseError s (getJsonRequest localize parseError node client s)"
proof (cases "responses s")
  case Nil
  then show ?thesis
    by (simp add: getJsonRequest_pending settles_def quiet_def)
next
  case (Cons p rest)
  obtain t outcome where p: "p = (t, outcome)" by (cases p)
  let ?s3 = "after_response s t outcome rest"
  have s3: "answers ?s3 = answers s" "actionContext ?s3 = actionContext s"
    "responses ?s3 = rest" "trace ?s3 = trace s @ [Request (requestOptions s)]"
    by (simp_all add: after_response_def)
  show ?thesis
  proof (cases "failure outcome")
    case None
    then obtain v where "(case outcome of Inl error \<Rightarrow> Inl error | Inr r \<Rightarrow> body r) = Inr v"
      by (auto simp: failure_def split: sum.splits)
    with Cons p have "getJsonRequest localize parseError node client s = (Some (Inr v), ?s3)"
      by (simp add: getJsonRequest_settled)
    moreover from None Cons p s3 have "quiet s ?s3"
      unfolding quiet_def by (intro conjI exI [of _ "[(t, outcome)]"]
          exI [of _ "[Request (requestOptions s)]"]) simp_all
    ultimately show ?thesis
      by (simp add: settles_def)
  next
    case (Some error)
    from Cons p have responses: "responses s = (t, outcome) # rest"
      by simp
    note run = getJsonRequest_failed [OF responses Some, of localize parseError node client]
    show ?thesis
    proof (cases "indexOf (message (parseError error)) ''Bad credentials'' > - 1")
      case False
      with run have "getJsonRequest localize parseError node client s = (Some (Inl error), ?s3)"
        by simp
      moreover from False Some responses s3
      have "stopped localize parseError s (Some (Inl error) :: (jsval + 'a) option) ?s3"
        unfolding stopped_def thrown_def
        by (intro exI [of _ "[]"] exI [of _ t] exI [of _ outcome] exI [of _ error]) simp
      ultimately show ?thesis
        by (simp add: settles_def)
    next
      case True
      obtain r s4 where prompt: "showGitHubAuthPrompt localize node client ?s3 = (r, s4)"
        by fastforce
      from showGitHubAuthPrompt_result [of localize node client ?s3] prompt s3
      have r: "r = (if \<forall>a\<in>set (answers s). a = Some learnMore then None else Some ())"
        by simp
      from showGitHubAuthPrompt_trace [of localize node client ?s3] prompt s3
      obtain es where es: "trace s4 = trace s @ [Request (requestOptions s)] @
            ShowErrorMessage (invalidToken localize) # es"
        "\<forall>e\<in>set es. (case e of ShowErrorMessage m \<Rightarrow> True | OpenUrl u \<Rightarrow> True
                            | OpenInPortal n u \<Rightarrow> True | _ \<Rightarrow> False)"
        by auto
      from showGitHubAuthPrompt_frame [OF prompt] s3 have frame: "responses s4 = rest"
        by simp
      let ?s5 = "s4\<lparr>actionContext := (actionContext s4)\<lparr>suppressErrorDisplay := Some True\<rparr>\<rparr>"
      let ?out = "if \<forall>a\<in>set (answers s). a = Some learnMore
                  then (None :: (jsval + 'a) option, s4) else (Some (Inl error), ?s5)"
      from True run prompt r
      have result: "getJsonRequest localize parseError node client s = ?out"
        by (simp split: option.splits)
      have trace: "\<exists>requests es.
           requests \<noteq> [] \<and> (\<forall>e\<in>set requests. is_Request e) \<and>
           (\<forall>e\<in>set es. (case e of ShowErrorMessage m \<Rightarrow> True | OpenUrl u \<Rightarrow> True
                            | OpenInPortal n u \<Rightarrow> True | _ \<Rightarrow> False)) \<and>
           trace (snd ?out) = trace s @ requests @ ShowErrorMessage (invalidToken localize) # es"
        using es by (intro exI [of _ "[Request (requestOptions s)]"] exI [of _ es]) simp
      have "thrown localize parseError s error (fst ?out) (snd ?out)"
        unfolding thrown_def using True trace by auto
      with Some responses frame have "stopped localize parseError s (fst ?out) (snd ?out)"
        unfolding stopped_def
        by (intro exI [of _ "[]"] exI [of _ t] exI [of _ outcome] exI [of _ error]) simp
      with result show ?thesis
        by (simp add: settles_def)
    qed
  qed
qed

lemma getGitHubReposQuickPicks_loop_await:
  "getGitHubReposQuickPicks_loop localize parseError node client startTime timeoutMs gitHubRepos s =
     await (getJsonRequest localize parseError node client s) (\<lambda>page s1.
       let gitHubRepos1 = gitHubRepos @ page;
           s2 = (if truthy_string (nextLink (requestOptions s1))
                 then s1\<lparr>requestOptions := (requestOptions s1)
                           \<lparr>url := nextLink (requestOptions s1)\<rparr>\<rparr>
                 else s1)
       in if truthy_string (nextLink (requestOptions s2)) \<and> startTime + timeoutMs > now s2
          then getGitHubReposQuickPicks_loop localize parseError node client startTime
                 timeoutMs gitHubRepos1 s2
          else (Some (Inr gitHubRepos1), s2))"
  by (subst getGitHubReposQuickPicks_loop.simps)
     (simp add: await_def split: prod.splits option.splits sum.splits)

lemma getGitHubReposQuickPicks_loop_settles:
  "settles localize parseError s
     (getGitHubReposQuickPicks_loop localize parseError node client startTime timeoutMs
        gitHubRepos s)"
proof (induction localize parseError node client startTime timeoutMs gitHubRepos s
    rule: getGitHubReposQuickPicks_loop.induct)
  case (1 localize parseError node client startTime timeoutMs gitHubRepos s)
  show ?case
    unfolding getGitHubReposQuickPicks_loop_await [of localize parseError node client startTime
        timeoutMs gitHubRepos s]
  proof (rule settles_await [OF getJsonRequest_settles])
    fix page
    let ?out = "getJsonRequest localize parseError node client s"
    let ?s1 = "snd ?out"
    define s2 where "s2 = (if truthy_string (nextLink (requestOptions ?s1))
               then ?s1\<lparr>requestOptions := (requestOptions ?s1)
                         \<lparr>url := nextLink (requestOptions ?s1)\<rparr>\<rparr>
               else ?s1)"
    assume page: "fst ?out = Some (Inr page)"
    have from_s2: "settles localize parseError ?s1 outcome = settles localize parseError s2 outcome"
      for outcome :: "(jsval + (string \<times> jsval) list list) option \<times> (string \<times> jsval) list list state"
      by (rule settles_from) (simp_all add: s2_def)
    have "settles localize parseError s2
        (if truthy_string (nextLink (requestOptions s2)) \<and> startTime + timeoutMs > now s2
         then getGitHubReposQuickPicks_loop localize parseError node client startTime
                timeoutMs (gitHubRepos @ page) s2
         else (Some (Inr (gitHubRepos @ page)), s2))"
    proof (cases "truthy_string (nextLink (requestOptions s2)) \<and> startTime + timeoutMs > now s2")
      case True
      from "1.IH" [OF prod.collapse page refl refl s2_def True]
      have "settles localize parseError s2
          (getGitHubReposQuickPicks_loop localize parseError node client startTime timeoutMs
             (gitHubRepos @ page) s2)" .
      with True show ?thesis
        by simp
    next
      case False
      then show ?thesis
        by (auto simp: settles_return)
    qed
    then show "settles localize parseError ?s1
        (let gitHubRepos1 = gitHubRepos @ page;
             s2 = (if truthy_string (nextLink (requestOptions ?s1))
                   then ?s1\<lparr>requestOptions := (requestOptions ?s1)
                             \<lparr>url := nextLink (requestOptions ?s1)\<rparr>\<rparr>
                   else ?s1)
         in if truthy_string (nextLink (requestOptions s2)) \<and> startTime + timeoutMs > now s2
            then getGitHubReposQuickPicks_loop localize parseError node client startTime
                   timeoutMs gitHubRepos1 s2
            else (Some (Inr gitHubRepos1), s2))"
      unfolding Let_def s2_def [symmetric] from_s2 .
  qed
qed

lemma getGitHubReposQuickPicks_settles:
  "settles localize parseError s
     (getGitHubReposQuickPicks localize parseError localeCompare node client timeoutSeconds' s)"
proof -
  define timeoutMs where "timeoutMs = (case timeoutSeconds' of None \<Rightarrow> 10 | Some t \<Rightarrow> t) * 1000"
  let ?loop = "getGitHubReposQuickPicks_loop localize parseError node client (now s) timeoutMs [] s"
  have "getGitHubReposQuickPicks localize parseError localeCompare node client timeoutSeconds' s =
     await ?loop (\<lambda>gitHubRepos s1.
       let s2 = s1\<lparr>cache_picks :=
                      array_sort
                        (\<lambda>a b. localeCompare (toString (pick_label a)) (toString (pick_label b)))
                        (cache_picks s1 @ createQuickPickFromJsons gitHubRepos ''name'' None)\<rparr>
       in if truthy_string (nextLink (requestOptions s2))
          then (Some (Inr (loadMorePick # map with_data (cache_picks s2))), s2)
          else (Some (Inr (map with_data (cache_picks s2))), s2))"
    by (simp add: getGitHubReposQuickPicks_def await_def timeoutMs_def Let_def
             split: prod.splits option.splits sum.splits)
  moreover have "settles localize parseError s1
      (let s2 = s1\<lparr>cache_picks := picks\<rparr>
       in if truthy_string (nextLink (requestOptions s2))
          then (Some (Inr (loadMorePick # map with_data (cache_picks s2))), s2)
          else (Some (Inr (map with_data (cache_picks s2))), s2))"
    for s1 :: "(string \<times> jsval) list list state" and picks
    by (simp add: Let_def settles_to [of "s1\<lparr>cache_picks := picks\<rparr>" s1] settles_return)
  ultimately show ?thesis
    using getGitHubReposQuickPicks_loop_settles [of localize parseError s node client "now s"
        timeoutMs "[]"]
    by (simp add: settles_await)
qed

lemma connectToGitHub_loop_await:
  "connectToGitHub_loop localize parseError localeCompare showQuickPick_repos node client s =
     await (getGitHubReposQuickPicks localize parseError localeCompare node client None s)
       (\<lambda>picks s1.
          await (showQuickPick_repos picks ''Choose repository.'', s1) (\<lambda>pick s1.
            case data pick of
              None \<Rightarrow>
                connectToGitHub_loop localize parseError localeCompare showQuickPick_repos
                  node client s1
            | Some repoQuickPick \<Rightarrow> (Some (Inr repoQuickPick), s1)))"
  by (subst connectToGitHub_loop.simps)
     (simp add: await_def split: prod.splits option.splits sum.splits)

lemma connectToGitHub_loop_settles:
  "settles localize parseError s
     (connectToGitHub_loop localize parseError localeCompare showQuickPick_repos node client s)"
proof (induction localize parseError localeCompare showQuickPick_repos node client s
    rule: connectToGitHub_loop.induct)
  case (1 localize parseError localeCompare showQuickPick_repos node client s)
  let ?out = "getGitHubReposQuickPicks localize parseError localeCompare node client None s"
  show ?case
    unfolding connectToGitHub_loop_await [of localize parseError localeCompare
        showQuickPick_repos node client s]
  proof (rule settles_await [OF getGitHubReposQuickPicks_settles])
    fix picks
    assume picks: "fst ?out = Some (Inr picks)"
    show "settles localize parseError (snd ?out)
        (await (showQuickPick_repos picks ''Choose repository.'', snd ?out) (\<lambda>pick s1.
            case data pick of
              None \<Rightarrow>
                connectToGitHub_loop localize parseError localeCompare showQuickPick_repos
                  node client s1
            | Some repoQuickPick \<Rightarrow> (Some (Inr repoQuickPick), s1)))"
    proof (rule settles_await [OF settles_return])
      fix pick
      assume "fst (showQuickPick_repos picks ''Choose repository.'', snd ?out) = Some (Inr pick)"
      then have pick: "showQuickPick_repos picks ''Choose repository.'' = Some (Inr pick)"
        by simp
      show "settles localize parseError
          (snd (showQuickPick_repos picks ''Choose repository.'', snd ?out))
          (case data pick of
              None \<Rightarrow>
                connectToGitHub_loop localize parseError localeCompare showQuickPick_repos
                  node client
                  (snd (showQuickPick_repos picks ''Choose repository.'', snd ?out))
            | Some repoQuickPick \<Rightarrow>
                (Some (Inr repoQuickPick),
                 snd (showQuickPick_repos picks ''Choose repository.'', snd ?out)))"
      proof (cases "data pick")
        case None
        from "1.IH" [OF prod.collapse picks refl pick refl None] None show ?thesis
          by simp
      next
        case (Some repoQuickPick)
        then show ?thesis
          by (simp add: settles_return)
      qed
    qed
  qed
qed

lemma settles_fromI:
  "settles localize parseError s outcome \<Longrightarrow>
   answers s0 = answers s \<Longrightarrow> actionContext s0 = actionContext s \<Longrightarrow>
   responses s0 = responses s \<Longrightarrow> trace s0 = trace s \<Longrightarrow>
   settles localize parseError s0 outcome"
  by (simp add: settles_def quiet_def stopped_def thrown_def)

lemma with_responses_simps [simp]:
  "requestOptions (with_responses rs s) = requestOptions s"
  "actionContext (with_responses rs s) = actionContext s"
  "cache_picks (with_responses rs s) = cache_picks s"
  "answers (with_responses rs s) = answers s"
  "responses (with_responses rs s) = rs"
  "now (with_responses rs s) = now s"
  "trace (with_responses rs s) = trace s"
  by (simp_all add: with_responses_def)

lemma singleton_split:
  "[r] = pre @ x # rest \<Longrightarrow> pre = [] \<and> r = x \<and> rest = []"
  by (cases pre) simp_all

lemma user_request_quiet:
  assumes "\<And>t outcome. userResponse = Some (t, outcome) \<Longrightarrow> failure outcome = None"
  shows "quiet s
     (snd (case getJsonRequest localize parseError node client
                 (with_responses (case userResponse of None \<Rightarrow> [] | Some r \<Rightarrow> [r]) s) of
             (outcome, u) \<Rightarrow> (outcome :: (jsval + 'b) option, with_responses (responses s) u)))"
proof -
  let ?rs = "case userResponse of None \<Rightarrow> [] | Some r \<Rightarrow> [r]"
  let ?s = "with_responses ?rs s :: 'b state"
  obtain r u where run: "getJsonRequest localize parseError node client ?s = (r, u)"
    by fastforce
  have "\<not> stopped localize parseError ?s r u"
  proof
    assume "stopped localize parseError ?s r u"
    then obtain pre t outcome error where "?rs = pre @ (t, outcome) # responses u"
      "failure outcome = Some error"
      unfolding stopped_def by auto
    with assms show False
      by (cases userResponse) (auto dest: singleton_split)
  qed
  with getJsonRequest_settles [of localize parseError ?s node client] run
  have "quiet ?s u"
    by (simp add: settles_def)
  then have "quiet s (with_responses (responses s) u)"
    unfolding quiet_def by simp
  with run show ?thesis by simp
qed

lemma user_request_thrown:
  assumes "failure outcome = Some error"
  shows "thrown localize parseError s error
     (fst (case getJsonRequest localize parseError node client (with_responses [(t, outcome)] s) of
             (outcome, u) \<Rightarrow> (outcome :: (jsval + 'b) option, with_responses (responses s) u)))
     (snd (case getJsonRequest localize parseError node client (with_responses [(t, outcome)] s) of
             (outcome, u) \<Rightarrow> (outcome :: (jsval + 'b) option, with_responses (responses s) u)))"
proof -
  let ?s = "with_responses [(t, outcome)] s :: 'b state"
  obtain r u where run: "getJsonRequest localize parseError node client ?s = (r, u)"
    by fastforce
  from getJsonRequest_responses [of localize parseError node client ?s] run
  have consumed: "responses u = []"
    by simp
  have "\<not> quiet ?s u"
  proof
    assume "quiet ?s u"
    then obtain pre where "[(t, outcome)] = pre @ responses u"
      "\<forall>p\<in>set pre. failure (snd p) = None"
      unfolding quiet_def by auto
    with consumed assms show False by auto
  qed
  with getJsonRequest_settles [of localize parseError ?s node client] run
  have "stopped localize parseError ?s r u"
    by (simp add: settles_def)
  then obtain pre t' outcome' error' where
      "[(t, outcome)] = pre @ (t', outcome') # responses u"
      "failure outcome' = Some error'" "thrown localize parseError ?s error' r u"
    unfolding stopped_def by auto
  with assms singleton_split [of "(t, outcome)" pre "(t', outcome')" "responses u"]
  have "thrown localize parseError ?s error r u"
    by simp
  then have "thrown localize parseError s error r (with_responses (responses s) u)"
    unfolding thrown_def by simp
  with run show ?thesis by simp
qed

lemma user_request_settles:
  assumes "\<And>t outcome. userResponse = Some (t, outcome) \<Longrightarrow> failure outcome = None"
  shows "settles localize parseError s
     (case getJsonRequest localize parseError node client
             (with_responses (case userResponse of None \<Rightarrow> [] | Some r \<Rightarrow> [r]) s) of
        (outcome, u) \<Rightarrow> (outcome :: (jsval + 'b) option, with_responses (responses s) u))"
  using user_request_quiet [OF assms, where s = s and localize = localize and parseError = parseError
      and node = node and client = client]
  by (simp add: settles_def)

lemma connectToGitHub_repository_settles:
  assumes "\<And>signed t outcome. signRequest (requestOptions s) oAuth2Token = Inr signed \<Longrightarrow>
             userResponse = Some (t, outcome) \<Longrightarrow> failure outcome = None"
  shows "settles localize parseError s
     (connectToGitHub_repository localize parseError localeCompare nonNullError signRequest
        showQuickPick showQuickPick_repos node client userResponse oAuth2Token s)"
  unfolding connectToGitHub_repository_def Let_def
  apply (rule settles_await)
   apply (rule settles_return)
  apply (rule settles_await)
   apply (rule settles_fromI [OF user_request_settles])
  using assms apply simp_all
  apply (intro settles_await settles_return)
     apply (rule settles_fromI [OF getJsonRequest_settles]; simp)
    apply (rule settles_fromI [OF connectToGitHub_loop_settles]; simp)
   apply (rule settles_fromI [OF getJsonRequest_settles]; simp)
  done

lemma connectToGitHub_repository_user:
  assumes sign: "signRequest (requestOptions s) oAuth2Token = Inr signed"
    and user: "userResponse = Some (t, outcome)" and failure: "failure outcome = Some error"
  shows "responses (snd (connectToGitHub_repository localize parseError localeCompare
           nonNullError signRequest showQuickPick showQuickPick_repos node client userResponse
           oAuth2Token s)) = responses s \<and>
     thrown localize parseError s error
       (fst (connectToGitHub_repository localize parseError localeCompare
           nonNullError signRequest showQuickPick showQuickPick_repos node client userResponse
           oAuth2Token s))
       (snd (connectToGitHub_repository localize parseError localeCompare
           nonNullError signRequest showQuickPick showQuickPick_repos node client userResponse
           oAuth2Token s))"
proof -
  define s1 where "s1 = s\<lparr>requestOptions := signed\<lparr>url := Some ''https://api.github.com/user''\<rparr>\<rparr>"
  define request where "request =
     (case getJsonRequest localize parseError node client (with_responses [(t, outcome)] s1) of
        (outcome, u) \<Rightarrow>
          (outcome :: (jsval + (string \<times> jsval) list) option, with_responses (responses s1) u))"
  from user_request_thrown [OF failure, of localize parseError s1 node client t]
  have thrown: "thrown localize parseError s1 error (fst request) (snd request)"
    by (simp add: request_def)
  have responses: "responses (snd request) = responses s"
    by (simp add: request_def s1_def split: prod.splits)
  obtain continuation where run: "connectToGitHub_repository localize parseError localeCompare
      nonNullError signRequest showQuickPick showQuickPick_repos node client userResponse
      oAuth2Token s = await request continuation"
    using sign user
    by (simp add: connectToGitHub_repository_def await_def [of "(Some (Inr signed), s)"]
          request_def s1_def Let_def)
  obtain r s2 where request: "request = (r, s2)"
    by (cases request)
  from thrown request have thrown2: "thrown localize parseError s error r s2"
    by (simp add: thrown_def s1_def)
  from thrown_result [OF thrown2] show ?thesis
  proof
    assume "r = None"
    with run request responses thrown2 thrown_None [of localize parseError s error s2] show ?thesis
      by (simp add: await_def)
  next
    assume "r = Some (Inl error)"
    with run request responses thrown2 thrown_Inl [of localize parseError s error error s2]
    show ?thesis
      by (simp add: await_def)
  qed
qed

lemma connectToGitHub_update_frame:
  "responses (snd (connectToGitHub_update localize parseError verifyNoRunFromPackageSetting client
      siteSourceControl repoName s)) = responses s"
  by (simp add: connectToGitHub_update_def Let_def split: sum.splits)

lemma connectToGitHub_token:
  assumes "listSourceControls client = Inr (first # others)" and "truthy_string (token first)"
  shows "connectToGitHub localize parseError userAgent verifyNoRunFromPackageSetting
           chooseRepository node client s =
     (case chooseRepository (the (token first))
             (s\<lparr>requestOptions :=
                   \<lparr>url = None, headers = [(''User-Agent'', userAgent)],
                    resolveWithFullResponse = Some True, nextLink = None\<rparr>,
                 trace := trace s @ [ListSourceControls]\<rparr>) of
        (None, s2) \<Rightarrow> (None, s2)
      | (Some (Inl e), s2) \<Rightarrow> (Some (Inl e), s2)
      | (Some (Inr (siteSourceControl, repoName)), s2) \<Rightarrow>
          connectToGitHub_update localize parseError verifyNoRunFromPackageSetting client
            siteSourceControl repoName s2)"
  using assms by (simp add: connectToGitHub_def Let_def)

lemma connectToGitHub_frame:
  "responses (snd (connectToGitHub localize parseError userAgent verifyNoRunFromPackageSetting
      chooseRepository node client s)) =
   (if \<exists>first others. listSourceControls client = Inr (first # others) \<and>
         truthy_string (token first)
    then responses (snd (chooseRepository
           (the (token (hd (case listSourceControls client of Inr l \<Rightarrow> l | Inl e \<Rightarrow> []))))
           (s\<lparr>requestOptions :=
                \<lparr>url = None, headers = [(''User-Agent'', userAgent)],
                 resolveWithFullResponse = Some True, nextLink = None\<rparr>,
              trace := trace s @ [ListSourceControls]\<rparr>)))
    else responses s)"
proof (cases "\<exists>first others. listSourceControls client = Inr (first # others) \<and>
         truthy_string (token first)")
  case True
  then obtain first others where token: "listSourceControls client = Inr (first # others)"
      "truthy_string (token first)"
    by blast
  with connectToGitHub_token [OF token, of localize parseError userAgent
      verifyNoRunFromPackageSetting chooseRepository node s]
  show ?thesis
    by (auto simp: connectToGitHub_update_frame split: prod.splits option.splits sum.splits)
next
  case False
  let ?s1 = "s\<lparr>requestOptions :=
                \<lparr>url = None, headers = [(''User-Agent'', userAgent)],
                 resolveWithFullResponse = Some True, nextLink = None\<rparr>,
              trace := trace s @ [ListSourceControls]\<rparr>"
  obtain r s2 where prompt: "showGitHubAuthPrompt localize node client ?s1 = (r, s2)"
    by fastforce
  from showGitHubAuthPrompt_frame [OF prompt] have "responses s2 = responses s"
    by simp
  with False prompt show ?thesis
    by (auto simp: connectToGitHub_def Let_def split: sum.splits list.splits option.splits)
qed

lemma thrown_stops:
  assumes thrown: "thrown localize parseError s1 error r s2"
    and credentials: "indexOf (message (parseError error)) ''Bad credentials'' > - 1"
    and s1: "trace s1 = trace s @ [ListSourceControls]" "answers s1 = answers s"
    and run: "fst run = (case r of None \<Rightarrow> None | Some (Inl e) \<Rightarrow> Some (Inl e)
                         | Some (Inr v) \<Rightarrow> other)" "snd run = s2"
  shows "stops_for_token localize s error run"
proof -
  from thrown credentials s1 obtain requests es where
      "requests \<noteq> []" "\<forall>e\<in>set requests. is_Request e"
      "\<forall>e\<in>set es. (case e of ShowErrorMessage m \<Rightarrow> True | OpenUrl u \<Rightarrow> True
                         | OpenInPortal n u \<Rightarrow> True | _ \<Rightarrow> False)"
      "trace s2 = trace s @ ListSourceControls # requests @
         ShowErrorMessage (invalidToken localize) # es"
    unfolding thrown_def by auto
  then have "\<exists>requests es.
        requests \<noteq> [] \<and> (\<forall>e\<in>set requests. is_Request e) \<and>
        (\<forall>e\<in>set es. (case e of ShowErrorMessage m \<Rightarrow> True | OpenUrl u \<Rightarrow> True
                         | OpenInPortal n u \<Rightarrow> True | _ \<Rightarrow> False)) \<and>
        trace s2 =
          trace s @ ListSourceControls # requests @ ShowErrorMessage (invalidToken localize) # es"
    by blast
  moreover from thrown credentials s1
  have "r = (if \<forall>a\<in>set (answers s). a = Some learnMore then None else Some (Inl error))"
    "(\<exists>a\<in>set (answers s). a \<noteq> Some learnMore) \<longrightarrow>
        suppressErrorDisplay (actionContext s2) = Some True"
    unfolding thrown_def by auto
  ultimately show ?thesis
    unfolding stops_for_token_def using run by simp
qed

lemma connectToGitHub_bad_credentials:
  fixes localize parseError userAgent verifyNoRunFromPackageSetting localeCompare nonNullError
    signRequest showQuickPick showQuickPick_repos node client userResponse
    and s :: "(string \<times> jsval) list list state"
  defines "run \<equiv> connectToGitHub localize parseError userAgent verifyNoRunFromPackageSetting
      (connectToGitHub_repository localize parseError localeCompare nonNullError signRequest
         showQuickPick showQuickPick_repos node client userResponse) node client s"
  assumes i: "i < length (responses s) - length (responses (snd run))"
    and response: "responses s ! i = (t, outcome)"
    and failure: "failure outcome = Some error"
    and credentials: "indexOf (message (parseError error)) ''Bad credentials'' > - 1"
  shows "stops_for_token localize s error run \<and> responses (snd run) = drop (Suc i) (responses s)"
proof -
  let ?s1 = "s\<lparr>requestOptions :=
                \<lparr>url = None, headers = [(''User-Agent'', userAgent)],
                 resolveWithFullResponse = Some True, nextLink = None\<rparr>,
              trace := trace s @ [ListSourceControls]\<rparr>"
  let ?choose = "connectToGitHub_repository localize parseError localeCompare nonNullError
      signRequest showQuickPick showQuickPick_repos node client userResponse"
  note frame = connectToGitHub_frame [of localize parseError userAgent
      verifyNoRunFromPackageSetting ?choose node client s, folded run_def]
  from i frame obtain first others where token:
      "listSourceControls client = Inr (first # others)" "truthy_string (token first)"
    by (auto split: if_splits)
  define out where "out = ?choose (the (token first)) ?s1"
  from frame token have responses: "responses (snd run) = responses (snd out)"
    by (auto simp: out_def)
  note run = connectToGitHub_token [OF token, of localize parseError userAgent
      verifyNoRunFromPackageSetting ?choose node s, folded run_def out_def]
  have "settles localize parseError ?s1 out"
    unfolding out_def
  proof (rule connectToGitHub_repository_settles)
    fix signed t' outcome'
    assume sign: "signRequest (requestOptions ?s1) (the (token first)) = Inr signed"
      and user: "userResponse = Some (t', outcome')"
    show "failure outcome' = None"
    proof (rule ccontr)
      assume "failure outcome' \<noteq> None"
      then obtain error' where "failure outcome' = Some error'"
        by auto
      from connectToGitHub_repository_user [where signRequest = signRequest and s = ?s1
          and oAuth2Token = "the (token first)" and localize = localize
          and parseError = parseError and localeCompare = localeCompare
          and nonNullError = nonNullError and showQuickPick = showQuickPick
          and showQuickPick_repos = showQuickPick_repos and node = node and client = client,
          OF sign user this]
      have "responses (snd out) = responses s"
        by (simp add: out_def)
      with i responses show False by simp
    qed
  qed
  then consider "quiet ?s1 (snd out)" | "stopped localize parseError ?s1 (fst out) (snd out)"
    unfolding settles_def by blast
  then show ?thesis
  proof cases
    case 1
    then obtain pre where pre: "responses s = pre @ responses (snd out)"
        "\<forall>p\<in>set pre. failure (snd p) = None"
      unfolding quiet_def by auto
    with i responses have "i < length pre"
      by simp
    with pre response have "(t, outcome) \<in> set pre"
      by (metis nth_append nth_mem)
    with pre(2) failure show ?thesis
      by auto
  next
    case 2
    then obtain pre t' outcome' error' where pre:
        "responses s = pre @ (t', outcome') # responses (snd out)"
        "\<forall>p\<in>set pre. failure (snd p) = None" "failure outcome' = Some error'"
        "thrown localize parseError ?s1 error' (fst out) (snd out)"
      unfolding stopped_def by auto
    from i responses pre(1) have "i \<le> length pre"
      by simp
    have "i = length pre"
    proof (rule ccontr)
      assume "i \<noteq> length pre"
      with \<open>i \<le> length pre\<close> have "i < length pre" by simp
      with pre(1) response have "(t, outcome) \<in> set pre"
        by (metis nth_append nth_mem)
      with pre(2) failure show False by auto
    qed
    with pre(1) response have same: "(t', outcome') = (t, outcome)"
      by simp
    with pre(3) failure have error: "error' = error"
      by simp
    from \<open>i = length pre\<close> pre(1) have rest: "responses (snd out) = drop (Suc i) (responses s)"
      by simp
    from thrown_result [OF pre(4)] run
    have result: "fst run = (case fst out of None \<Rightarrow> None | Some (Inl e) \<Rightarrow> Some (Inl e)
                              | Some (Inr v) \<Rightarrow> None)" "snd run = snd out"
      by (auto split: prod.splits)
    from pre(4) error have "thrown localize parseError ?s1 error (fst out) (snd out)"
      by simp
    from thrown_stops [OF this credentials _ _ result] rest responses show ?thesis
      by simp
  qed
qed

lemma connectToGitHub_user_bad_credentials:
  fixes localize parseError userAgent verifyNoRunFromPackageSetting localeCompare nonNullError
    signRequest showQuickPick showQuickPick_repos node client userResponse
    and s :: "(string \<times> jsval) list list state"
  defines "run \<equiv> connectToGitHub localize parseError userAgent verifyNoRunFromPackageSetting
      (connectToGitHub_repository localize parseError localeCompare nonNullError signRequest
         showQuickPick showQuickPick_repos node client userResponse) node client s"
  assumes token: "listSourceControls client = Inr (first # others)" "truthy_string (token first)"
    and sign: "signRequest \<lparr>url = None, headers = [(''User-Agent'', userAgent)],
                  resolveWithFullResponse = Some True, nextLink = None\<rparr> (the (token first)) =
               Inr signed"
    and user: "userResponse = Some (t, outcome)"
    and failure: "failure outcome = Some error"
    and credentials: "indexOf (message (parseError error)) ''Bad credentials'' > - 1"
  shows "stops_for_token localize s error run \<and> responses (snd run) = responses s"
proof -
  let ?s1 = "s\<lparr>requestOptions :=
                \<lparr>url = None, headers = [(''User-Agent'', userAgent)],
                 resolveWithFullResponse = Some True, nextLink = None\<rparr>,
              trace := trace s @ [ListSourceControls]\<rparr>"
  let ?choose = "connectToGitHub_repository localize parseError localeCompare nonNullError
      signRequest showQuickPick showQuickPick_repos node client userResponse"
  define out where "out = ?choose (the (token first)) ?s1"
  note run = connectToGitHub_token [OF token, of localize parseError userAgent
      verifyNoRunFromPackageSetting ?choose node s, folded run_def out_def]
  from sign have "signRequest (requestOptions ?s1) (the (token first)) = Inr signed"
    by simp
  from connectToGitHub_repository_user [where signRequest = signRequest and s = ?s1
          and oAuth2Token = "the (token first)" and localize = localize
          and parseError = parseError and localeCompare = localeCompare
          and nonNullError = nonNullError and showQuickPick = showQuickPick
          and showQuickPick_repos = showQuickPick_repos and node = node and client = client,
          OF this user failure]
  have responses: "responses (snd out) = responses s"
    and thrown: "thrown localize parseError ?s1 error (fst out) (snd out)"
    by (simp_all add: out_def)
  from thrown_result [OF thrown] run
  have result: "fst run = (case fst out of None \<Rightarrow> None | Some (Inl e) \<Rightarrow> Some (Inl e)
                            | Some (Inr v) \<Rightarrow> None)" "snd run = snd out"
    by (auto split: prod.splits)
  from thrown_stops [OF thrown credentials _ _ result] responses result(2) show ?thesis
    by simp
qed

lemma connectToGitHub_no_token_prompts:
  assumes a1: "listSourceControls client = Inr (first # others)"
    and a2: "\<not> truthy_string (token first)"
  shows "(\<exists>es. trace (snd (connectToGitHub localize parseError userAgent
                           verifyNoRunFromPackageSetting chooseRepository node client s)) =
              trace s @ [ListSourceControls, ShowErrorMessage (invalidToken localize)] @ es \<and>
            (\<forall>e\<in>set es. (case e of ShowErrorMessage m \<Rightarrow> True | OpenUrl u \<Rightarrow> True
                            | OpenInPortal n u \<Rightarrow> True | _ \<Rightarrow> False))) \<and>
      fst (connectToGitHub localize parseError userAgent verifyNoRunFromPackageSetting
             chooseRepository node client s) =
        (if \<forall>a\<in>set (answers s). a = Some learnMore then None
         else Some (Inl (new_Error (noToken localize)))) \<and>
      ((\<exists>a\<in>set (answers s). a \<noteq> Some learnMore) \<longrightarrow>
         suppressErrorDisplay (actionContext (snd (connectToGitHub localize parseError userAgent
             verifyNoRunFromPackageSetting chooseRepository node client s))) = Some True)"
proof (intro conjI impI)
  let ?s1 = "s\<lparr>requestOptions :=
                   \<lparr>url = None, headers = [(''User-Agent'', userAgent)],
                    resolveWithFullResponse = Some True, nextLink = None\<rparr>,
                 trace := trace s @ [ListSourceControls]\<rparr>"
  let ?run = "connectToGitHub localize parseError userAgent verifyNoRunFromPackageSetting
             chooseRepository node client s"
  obtain r s2 where prompt: "showGitHubAuthPrompt localize node client ?s1 = (r, s2)"
    by fastforce
  have run: "?run =
     (case showGitHubAuthPrompt localize node client ?s1 of
        (None, s2) \<Rightarrow> (None, s2)
      | (Some u, s2) \<Rightarrow>
          (Some (Inl (new_Error (noToken localize))),
           s2\<lparr>actionContext := (actionContext s2)\<lparr>suppressErrorDisplay := Some True\<rparr>\<rparr>))"
    by (rule connectToGitHub_no_token [OF a1 a2])
  from showGitHubAuthPrompt_result [of localize node client ?s1] prompt
  have r: "r = (if \<forall>a\<in>set (answers s). a = Some learnMore then None else Some ())"
    by simp
  from showGitHubAuthPrompt_trace [of localize node client ?s1] prompt
  obtain es where es: "trace s2 = trace ?s1 @ ShowErrorMessage (invalidToken localize) # es"
    "\<forall>e\<in>set es. (case e of ShowErrorMessage m \<Rightarrow> True | OpenUrl u \<Rightarrow> True
                            | OpenInPortal n u \<Rightarrow> True | _ \<Rightarrow> False)"
    by auto
  from es show "\<exists>es. trace (snd ?run) =
              trace s @ [ListSourceControls, ShowErrorMessage (invalidToken localize)] @ es \<and>
            (\<forall>e\<in>set es. (case e of ShowErrorMessage m \<Rightarrow> True | OpenUrl u \<Rightarrow> True
                            | OpenInPortal n u \<Rightarrow> True | _ \<Rightarrow> False))"
    unfolding run prompt by (intro exI [of _ es]) (simp split: option.splits)
  from r show "fst ?run =
        (if \<forall>a\<in>set (answers s). a = Some learnMore then None
         else Some (Inl (new_Error (noToken localize))))"
    unfolding run prompt by (simp split: option.splits)
  assume "\<exists>a\<in>set (answers s). a \<noteq> Some learnMore"
  with r show "suppressErrorDisplay (actionContext (snd ?run)) = Some True"
    unfolding run prompt by auto
qed

text \<open>
  C5, as stated, fails, in two ways. First, when no source control is listed there is no
  stored token, and \<^verbatim>\<open>connectToGitHub\<close> throws the TypeError of reading \<^verbatim>\<open>token\<close> off
  the first element of the empty array: it has shown no prompt, although the user here would
  answer it, and has not suppressed the error display. Second, when the first source control
  has no token and the user asks to learn more, the dialog of the prompt is shown again; as
  long as the user does not answer it, no error is thrown and the error display is not
  suppressed.
\<close>

theorem connectToGitHub_token_counterexample:
  "connectToGitHub (\<lambda>key msg args. msg) (\<lambda>e. \<lparr>message = toString e\<rparr>) ''agent'' (\<lambda>c. Inr ())
       (connectToGitHub_repository (\<lambda>key msg args. msg) (\<lambda>e. \<lparr>message = toString e\<rparr>)
          (\<lambda>a b. 0) (\<lambda>key. JStr key) (\<lambda>r tok. Inr r) (\<lambda>picks ph. None) (\<lambda>picks ph. None)
          ''node''
          \<lparr>client_id = ''id'', fullName = ''site'', listSourceControls = Inr [],
            updateSourceControl = (\<lambda>c. Inr ()), syncRepository = Inr ()\<rparr>
          None)
       ''node''
       \<lparr>client_id = ''id'', fullName = ''site'', listSourceControls = Inr [],
         updateSourceControl = (\<lambda>c. Inr ()), syncRepository = Inr ()\<rparr>
       \<lparr>requestOptions = \<lparr>url = None, headers = [], resolveWithFullResponse = None,
                           nextLink = None\<rparr>,
         actionContext = \<lparr>suppressErrorDisplay = None, properties = Map.empty\<rparr>,
         cache_picks = [], answers = [Some goToPortal], responses = [], now = 0, trace = []\<rparr> =
     (Some (Inl (new_TypeError ''Cannot read property 'token' of undefined'')),
      \<lparr>requestOptions = \<lparr>url = None, headers = [(''User-Agent'', ''agent'')],
                          resolveWithFullResponse = Some True, nextLink = None\<rparr>,
        actionContext = \<lparr>suppressErrorDisplay = None, properties = Map.empty\<rparr>,
        cache_picks = [], answers = [Some goToPortal], responses = [], now = 0,
        trace = [ListSourceControls]\<rparr>) \<and>
   connectToGitHub (\<lambda>key msg args. msg) (\<lambda>e. \<lparr>message = toString e\<rparr>) ''agent'' (\<lambda>c. Inr ())
       (connectToGitHub_repository (\<lambda>key msg args. msg) (\<lambda>e. \<lparr>message = toString e\<rparr>)
          (\<lambda>a b. 0) (\<lambda>key. JStr key) (\<lambda>r tok. Inr r) (\<lambda>picks ph. None) (\<lambda>picks ph. None)
          ''node''
          \<lparr>client_id = ''id'', fullName = ''site'', listSourceControls = Inr [\<lparr>token = None\<rparr>],
            updateSourceControl = (\<lambda>c. Inr ()), syncRepository = Inr ()\<rparr>
          None)
       ''node''
       \<lparr>client_id = ''id'', fullName = ''site'', listSourceControls = Inr [\<lparr>token = None\<rparr>],
         updateSourceControl = (\<lambda>c. Inr ()), syncRepository = Inr ()\<rparr>
       \<lparr>requestOptions = \<lparr>url = None, headers = [], resolveWithFullResponse = None,
                           nextLink = None\<rparr>,
         actionContext = \<lparr>suppressErrorDisplay = None, properties = Map.empty\<rparr>,
         cache_picks = [], answers = [Some learnMore], responses = [], now = 0, trace = []\<rparr> =
     (None,
      \<lparr>requestOptions = \<lparr>url = None, headers = [(''User-Agent'', ''agent'')],
                          resolveWithFullResponse = Some True, nextLink = None\<rparr>,
        actionContext = \<lparr>suppressErrorDisplay = None,
                          properties = [''githubLearnMore'' \<mapsto> ''true'']\<rparr>,
        cache_picks = [], answers = [], responses = [], now = 0,
        trace = [ListSourceControls,
                 ShowErrorMessage
                   ''Azure's GitHub token is invalid.  Authorize in the \"Deployment Center\"'',
                 OpenUrl ''https://aka.ms/B7g6sw'',
                 ShowErrorMessage
                   ''Azure's GitHub token is invalid.  Authorize in the \"Deployment Center\"'']\<rparr>)"
  by (simp add: connectToGitHub_def showGitHubAuthPrompt_def invalidToken_def Let_def)

text \<open>
  C5, amended. Here \<open>run\<close> is \<^verbatim>\<open>connectToGitHub\<close> with the code's choice of the
  repository. First, when the first source control listed has no token (it is undefined or
  empty), the run lists the source controls and shows the prompt, and makes no other call than
  those of the prompt: no request, no update, no sync. It throws the error
  \<^verbatim>\<open>No oAuth2 Token.\<close> with the error display suppressed as soon as the user leaves the
  dialog by the portal button or by dismissing it, and it does not return as long as the user
  only asks to learn more. Second and third, when a request of the run fails (it rejects, or
  its body does not parse) with a parsed message that contains \<^verbatim>\<open>Bad credentials\<close>, be it
  the request for the user or any later one, whose response is the one at some place \<open>i\<close>
  among those that the run has read off the script, the run stops for the token: the prompt is
  shown after the requests, no call follows but those of the prompt, the error of the request
  is thrown again with the error display suppressed once the user leaves the dialog, and the
  failed request is the last response read. So the run never updates the source control and
  never completes normally.
\<close>

theorem invalid_token_prompts:
  fixes localize parseError userAgent verifyNoRunFromPackageSetting localeCompare nonNullError
    signRequest showQuickPick showQuickPick_repos node client userResponse
    and s :: "(string \<times> jsval) list list state"
  defines "run \<equiv> connectToGitHub localize parseError userAgent verifyNoRunFromPackageSetting
      (connectToGitHub_repository localize parseError localeCompare nonNullError signRequest
         showQuickPick showQuickPick_repos node client userResponse) node client s"
  shows
    "(listSourceControls client = Inr (first # others) \<and> \<not> truthy_string (token first) \<longrightarrow>
        (\<exists>es. trace (snd run) =
                trace s @ [ListSourceControls, ShowErrorMessage (invalidToken localize)] @ es \<and>
              (\<forall>e\<in>set es. (case e of ShowErrorMessage m \<Rightarrow> True | OpenUrl u \<Rightarrow> True
                              | OpenInPortal n u \<Rightarrow> True | _ \<Rightarrow> False))) \<and>
        fst run =
          (if \<forall>a\<in>set (answers s). a = Some learnMore then None
           else Some (Inl (new_Error (noToken localize)))) \<and>
        ((\<exists>a\<in>set (answers s). a \<noteq> Some learnMore) \<longrightarrow>
           suppressErrorDisplay (actionContext (snd run)) = Some True)) \<and>
     (listSourceControls client = Inr (first # others) \<and> truthy_string (token first) \<and>
      signRequest \<lparr>url = None, headers = [(''User-Agent'', userAgent)],
                    resolveWithFullResponse = Some True, nextLink = None\<rparr>
          (the (token first)) = Inr signed \<and>
      userResponse = Some (time, userOutcome) \<and> failure userOutcome = Some error \<and>
      indexOf (message (parseError error)) ''Bad credentials'' > - 1 \<longrightarrow>
        stops_for_token localize s error run \<and> responses (snd run) = responses s) \<and>
     (i < length (responses s) - length (responses (snd run)) \<and>
      responses s ! i = (t, outcome) \<and> failure outcome = Some error \<and>
      indexOf (message (parseError error)) ''Bad credentials'' > - 1 \<longrightarrow>
        stops_for_token localize s error run \<and>
        responses (snd run) = drop (Suc i) (responses s))"
proof -
  have absent: "listSourceControls client = Inr (first # others) \<and>
      \<not> truthy_string (token first) \<longrightarrow>
        (\<exists>es. trace (snd run) =
                trace s @ [ListSourceControls, ShowErrorMessage (invalidToken localize)] @ es \<and>
              (\<forall>e\<in>set es. (case e of ShowErrorMessage m \<Rightarrow> True | OpenUrl u \<Rightarrow> True
                              | OpenInPortal n u \<Rightarrow> True | _ \<Rightarrow> False))) \<and>
        fst run =
          (if \<forall>a\<in>set (answers s). a = Some learnMore then None
           else Some (Inl (new_Error (noToken localize)))) \<and>
        ((\<exists>a\<in>set (answers s). a \<noteq> Some learnMore) \<longrightarrow>
           suppressErrorDisplay (actionContext (snd run)) = Some True)"
  proof (rule impI)
    assume "listSourceControls client = Inr (first # others) \<and> \<not> truthy_string (token first)"
    then have a1: "listSourceControls client = Inr (first # others)"
      and a2: "\<not> truthy_string (token first)"
      by blast+
    show "(\<exists>es. trace (snd run) =
                trace s @ [ListSourceControls, ShowErrorMessage (invalidToken localize)] @ es \<and>
              (\<forall>e\<in>set es. (case e of ShowErrorMessage m \<Rightarrow> True | OpenUrl u \<Rightarrow> True
                              | OpenInPortal n u \<Rightarrow> True | _ \<Rightarrow> False))) \<and>
        fst run =
          (if \<forall>a\<in>set (answers s). a = Some learnMore then None
           else Some (Inl (new_Error (noToken localize)))) \<and>
        ((\<exists>a\<in>set (answers s). a \<noteq> Some learnMore) \<longrightarrow>
           suppressErrorDisplay (actionContext (snd run)) = Some True)"
      unfolding run_def by (rule connectToGitHub_no_token_prompts [OF a1 a2])
  qed
  have user: "listSourceControls client = Inr (first # others) \<and> truthy_string (token first) \<and>
      signRequest \<lparr>url = None, headers = [(''User-Agent'', userAgent)],
                    resolveWithFullResponse = Some True, nextLink = None\<rparr>
          (the (token first)) = Inr signed \<and>
      userResponse = Some (time, userOutcome) \<and> failure userOutcome = Some error \<and>
      indexOf (message (parseError error)) ''Bad credentials'' > - 1 \<longrightarrow>
        stops_for_token localize s error run \<and> responses (snd run) = responses s"
  proof (rule impI)
    assume a: "listSourceControls client = Inr (first # others) \<and> truthy_string (token first) \<and>
      signRequest \<lparr>url = None, headers = [(''User-Agent'', userAgent)],
                    resolveWithFullResponse = Some True, nextLink = None\<rparr>
          (the (token first)) = Inr signed \<and>
      userResponse = Some (time, userOutcome) \<and> failure userOutcome = Some error \<and>
      indexOf (message (parseError error)) ''Bad credentials'' > - 1"
    then have a1: "listSourceControls client = Inr (first # others)"
      and a2: "truthy_string (token first)"
      and a3: "signRequest \<lparr>url = None, headers = [(''User-Agent'', userAgent)],
                    resolveWithFullResponse = Some True, nextLink = None\<rparr>
          (the (token first)) = Inr signed"
      and a4: "userResponse = Some (time, userOutcome)" and a5: "failure userOutcome = Some error"
      and a6: "indexOf (message (parseError error)) ''Bad credentials'' > - 1"
      by blast+
    show "stops_for_token localize s error run \<and> responses (snd run) = responses s"
      unfolding run_def
      by (rule connectToGitHub_user_bad_credentials
            [where signRequest = signRequest and parseError = parseError, OF a1 a2 a3 a4 a5 a6])
  qed
  have later: "i < length (responses s) - length (responses (snd run)) \<and>
      responses s ! i = (t, outcome) \<and> failure outcome = Some error \<and>
      indexOf (message (parseError error)) ''Bad credentials'' > - 1 \<longrightarrow>
        stops_for_token localize s error run \<and>
        responses (snd run) = drop (Suc i) (responses s)"
  proof (rule impI)
    assume a: "i < length (responses s) - length (responses (snd run)) \<and>
      responses s ! i = (t, outcome) \<and> failure outcome = Some error \<and>
      indexOf (message (parseError error)) ''Bad credentials'' > - 1"
    then have a1: "i < length (responses s) - length (responses (snd run))"
      and a2: "responses s ! i = (t, outcome)" and a3: "failure outcome = Some error"
      and a4: "indexOf (message (parseError error)) ''Bad credentials'' > - 1"
      by blast+
    show "stops_for_token localize s error run \<and>
        responses (snd run) = drop (Suc i) (responses s)"
      unfolding run_def
      by (rule connectToGitHub_bad_credentials
            [where parseError = parseError, OF a1 [unfolded run_def] a2 a3 a4])
  qed
  show ?thesis
    by (rule conjI [OF absent conjI [OF user later]])
qed

theorem invalid_token_prompts_witness:
  "fst (connectToGitHub (\<lambda>key msg args. msg) (\<lambda>e. \<lparr>message = toString e\<rparr>) ''agent''
          (\<lambda>c. Inr ())
          (connectToGitHub_repository (\<lambda>key msg args. msg) (\<lambda>e. \<lparr>message = toString e\<rparr>)
             (\<lambda>a b. 0) (\<lambda>key. JStr key)
             (\<lambda>r tok. Inr (r\<lparr>headers := headers r @ [(''Authorization'', ''Bearer '' @ tok)]\<rparr>))
             (\<lambda>picks ph. case picks of [] \<Rightarrow> None | p # ps \<Rightarrow> Some (Inr p))
             (\<lambda>picks ph. case picks of [] \<Rightarrow> None | p # ps \<Rightarrow> Some (Inr p))
             ''node''
             \<lparr>client_id = ''id'', fullName = ''site'',
               listSourceControls = Inr [\<lparr>token = None\<rparr>],
               updateSourceControl = (\<lambda>c. Inr ()), syncRepository = Inr ()\<rparr>
             None)
          ''node''
          \<lparr>client_id = ''id'', fullName = ''site'', listSourceControls = Inr [\<lparr>token = None\<rparr>],
            updateSourceControl = (\<lambda>c. Inr ()), syncRepository = Inr ()\<rparr>
          \<lparr>requestOptions = \<lparr>url = None, headers = [], resolveWithFullResponse = None,
                              nextLink = None\<rparr>,
            actionContext = \<lparr>suppressErrorDisplay = None, properties = Map.empty\<rparr>,
            cache_picks = [], answers = [Some learnMore, Some goToPortal], responses = [],
            now = 0, trace = []\<rparr>) =
     Some (Inl (new_Error ''No oAuth2 Token.'')) \<and>
   fst (connectToGitHub (\<lambda>key msg args. msg) (\<lambda>e. \<lparr>message = toString e\<rparr>) ''agent''
          (\<lambda>c. Inr ())
          (connectToGitHub_repository (\<lambda>key msg args. msg) (\<lambda>e. \<lparr>message = toString e\<rparr>)
             (\<lambda>a b. 0) (\<lambda>key. JStr key)
             (\<lambda>r tok. Inr (r\<lparr>headers := headers r @ [(''Authorization'', ''Bearer '' @ tok)]\<rparr>))
             (\<lambda>picks ph. case picks of [] \<Rightarrow> None | p # ps \<Rightarrow> Some (Inr p))
             (\<lambda>picks ph. case picks of [] \<Rightarrow> None | p # ps \<Rightarrow> Some (Inr p))
             ''node''
             \<lparr>client_id = ''id'', fullName = ''site'',
               listSourceControls = Inr [\<lparr>token = Some ''secret''\<rparr>],
               updateSourceControl = (\<lambda>c. Inr ()), syncRepository = Inr ()\<rparr>
             (Some (1, Inl (JStr ''401 Bad credentials''))))
          ''node''
          \<lparr>client_id = ''id'', fullName = ''site'',
            listSourceControls = Inr [\<lparr>token = Some ''secret''\<rparr>],
            updateSourceControl = (\<lambda>c. Inr ()), syncRepository = Inr ()\<rparr>
          \<lparr>requestOptions = \<lparr>url = None, headers = [], resolveWithFullResponse = None,
                              nextLink = None\<rparr>,
            actionContext = \<lparr>suppressErrorDisplay = None, properties = Map.empty\<rparr>,
            cache_picks = [], answers = [None], responses = [], now = 0, trace = []\<rparr>) =
     Some (Inl (JStr ''401 Bad credentials'')) \<and>
   (case connectToGitHub (\<lambda>key msg args. msg) (\<lambda>e. \<lparr>message = toString e\<rparr>) ''agent''
          (\<lambda>c. Inr ())
          (connectToGitHub_repository (\<lambda>key msg args. msg) (\<lambda>e. \<lparr>message = toString e\<rparr>)
             (\<lambda>a b. 0) (\<lambda>key. JStr key)
             (\<lambda>r tok. Inr (r\<lparr>headers := headers r @ [(''Authorization'', ''Bearer '' @ tok)]\<rparr>))
             (\<lambda>picks ph. case picks of [] \<Rightarrow> None | p # ps \<Rightarrow> Some (Inr p))
             (\<lambda>picks ph. case picks of [] \<Rightarrow> None | p # ps \<Rightarrow> Some (Inr p))
             ''node''
             \<lparr>client_id = ''id'', fullName = ''site'',
               listSourceControls = Inr [\<lparr>token = Some ''secret''\<rparr>],
               updateSourceControl = (\<lambda>c. Inr ()), syncRepository = Inr ()\<rparr>
             (Some (1, Inr \<lparr>link = None,
                             body = Inr [(''login'', JStr ''me''),
                                         (''repos_url'', JStr ''https://api.github.com/user/repos'')]\<rparr>)))
          ''node''
          \<lparr>client_id = ''id'', fullName = ''site'',
            listSourceControls = Inr [\<lparr>token = Some ''secret''\<rparr>],
            updateSourceControl = (\<lambda>c. Inr ()), syncRepository = Inr ()\<rparr>
          \<lparr>requestOptions = \<lparr>url = None, headers = [], resolveWithFullResponse = None,
                              nextLink = None\<rparr>,
            actionContext = \<lparr>suppressErrorDisplay = None, properties = Map.empty\<rparr>,
            cache_picks = [], answers = [Some goToPortal],
            responses = [(2, Inr \<lparr>link = None, body = Inr []\<rparr>),
                         (3, Inl (JStr ''401 Bad credentials'')),
                         (4, Inr \<lparr>link = None, body = Inr [[(''name'', JStr ''main'')]]\<rparr>)],
            now = 0, trace = []\<rparr> of
      (result, s') \<Rightarrow> (result, suppressErrorDisplay (actionContext s'), responses s')) =
     (Some (Inl (JStr ''401 Bad credentials'')), Some True,
      [(4, Inr \<lparr>link = None, body = Inr [[(''name'', JStr ''main'')]]\<rparr>)])"
proof -
  let ?localize = "\<lambda>(key :: string) (msg :: string) (args :: string list). msg"
  let ?parseError = "\<lambda>e. \<lparr>message = toString e\<rparr>"
  let ?sign = "\<lambda>r tok. Inr (r\<lparr>headers := headers r @ [(''Authorization'', ''Bearer '' @ tok)]\<rparr>)
      :: jsval + gitHubWebResource"
  let ?pick = "\<lambda>(picks :: (string \<times> jsval) list IAzureQuickPickItem list) (ph :: string).
      case picks of [] \<Rightarrow> None | p # ps \<Rightarrow> Some (Inr p :: jsval + _)"
  let ?pick_repos = "\<lambda>(picks :: (string \<times> jsval) list option IAzureQuickPickItem list)
      (ph :: string). case picks of [] \<Rightarrow> None | p # ps \<Rightarrow> Some (Inr p :: jsval + _)"
  let ?client = "\<lambda>tok. \<lparr>client_id = ''id'', fullName = ''site'',
      listSourceControls = Inr [\<lparr>token = tok\<rparr>],
      updateSourceControl = (\<lambda>c. Inr ()), syncRepository = Inr ()\<rparr>"
  let ?state = "\<lambda>as rs. \<lparr>requestOptions = \<lparr>url = None, headers = [],
        resolveWithFullResponse = None, nextLink = None\<rparr>,
      actionContext = \<lparr>suppressErrorDisplay = None, properties = Map.empty\<rparr>,
      cache_picks = [], answers = as,
      responses = (rs :: (int \<times> (jsval + (string \<times> jsval) list list Response)) list),
      now = 0, trace = []\<rparr>"
  let ?user = "(1, Inr \<lparr>link = None,
      body = Inr [(''login'', JStr ''me''),
                  (''repos_url'', JStr ''https://api.github.com/user/repos'')]\<rparr>)
    :: int \<times> (jsval + (string \<times> jsval) list Response)"
  let ?refused = "Inl (JStr ''401 Bad credentials'')"
  let ?signed = "\<lparr>url = None,
      headers = [(''User-Agent'', ''agent''), (''Authorization'', ''Bearer secret'')],
      resolveWithFullResponse = Some True, nextLink = None\<rparr>"
  let ?script = "[(2, Inr \<lparr>link = None, body = Inr []\<rparr>), (3, ?refused),
      (4, Inr \<lparr>link = None, body = Inr [[(''name'', JStr ''main'')]]\<rparr>)]"
  note defs = connectToGitHub_def connectToGitHub_repository_def await_def getJsonRequest_def
    with_responses_def createQuickPickFromJsons_def property_def nonNull_def nonNullProp_def
    connectToGitHub_loop.simps getGitHubReposQuickPicks_def getGitHubReposQuickPicks_loop.simps
    array_sort_def showGitHubAuthPrompt_def invalidToken_def noToken_def failure_def indexOf_def
    stops_for_token_def Let_def
  from invalid_token_prompts [where localize = ?localize and parseError = ?parseError
      and userAgent = "''agent''" and verifyNoRunFromPackageSetting = "\<lambda>c. Inr ()"
      and localeCompare = "\<lambda>a b. 0" and nonNullError = "\<lambda>key. JStr key"
      and signRequest = ?sign and showQuickPick = ?pick and showQuickPick_repos = ?pick_repos
      and node = "''node''" and client = "?client None" and userResponse = None
      and s = "?state [Some learnMore, Some goToPortal] []"
      and first = "\<lparr>token = None\<rparr>" and others = "[]" and signed = ?signed
      and time = 1 and userOutcome = "snd ?user" and i = 0 and t = 3 and outcome = ?refused
      and error = "JStr ''401 Bad credentials''"]
  have absent: "fst (connectToGitHub ?localize ?parseError ''agent'' (\<lambda>c. Inr ())
      (connectToGitHub_repository ?localize ?parseError (\<lambda>a b. 0) (\<lambda>key. JStr key) ?sign
         ?pick ?pick_repos ''node'' (?client None) None)
      ''node'' (?client None) (?state [Some learnMore, Some goToPortal] [])) =
    Some (Inl (new_Error ''No oAuth2 Token.''))"
    by (simp add: noToken_def)
  from invalid_token_prompts [where localize = ?localize and parseError = ?parseError
      and userAgent = "''agent''" and verifyNoRunFromPackageSetting = "\<lambda>c. Inr ()"
      and localeCompare = "\<lambda>a b. 0" and nonNullError = "\<lambda>key. JStr key"
      and signRequest = ?sign and showQuickPick = ?pick and showQuickPick_repos = ?pick_repos
      and node = "''node''" and client = "?client (Some ''secret'')"
      and userResponse = "Some (1, ?refused)" and s = "?state [None] []"
      and first = "\<lparr>token = Some ''secret''\<rparr>" and others = "[]" and signed = ?signed
      and time = 1 and userOutcome = ?refused and i = 0 and t = 3 and outcome = ?refused
      and error = "JStr ''401 Bad credentials''"]
  have user: "fst (connectToGitHub ?localize ?parseError ''agent'' (\<lambda>c. Inr ())
      (connectToGitHub_repository ?localize ?parseError (\<lambda>a b. 0) (\<lambda>key. JStr key) ?sign
         ?pick ?pick_repos ''node'' (?client (Some ''secret'')) (Some (1, ?refused)))
      ''node'' (?client (Some ''secret'')) (?state [None] [])) =
    Some (Inl (JStr ''401 Bad credentials''))"
    by (simp add: failure_def indexOf_def stops_for_token_def)
  let ?run = "connectToGitHub ?localize ?parseError ''agent'' (\<lambda>c. Inr ())
      (connectToGitHub_repository ?localize ?parseError (\<lambda>a b. 0) (\<lambda>key. JStr key) ?sign
         ?pick ?pick_repos ''node'' (?client (Some ''secret'')) (Some ?user))
      ''node'' (?client (Some ''secret'')) (?state [Some goToPortal] ?script)"
  have read: "responses (snd ?run) =
      [(4, Inr \<lparr>link = None, body = Inr [[(''name'', JStr ''main'')]]\<rparr>)]"
    by (simp add: defs)
  from invalid_token_prompts [where localize = ?localize and parseError = ?parseError
      and userAgent = "''agent''" and verifyNoRunFromPackageSetting = "\<lambda>c. Inr ()"
      and localeCompare = "\<lambda>a b. 0" and nonNullError = "\<lambda>key. JStr key"
      and signRequest = ?sign and showQuickPick = ?pick and showQuickPick_repos = ?pick_repos
      and node = "''node''" and client = "?client (Some ''secret'')"
      and userResponse = "Some ?user" and s = "?state [Some goToPortal] ?script"
      and first = "\<lparr>token = Some ''secret''\<rparr>" and others = "[]" and signed = ?signed
      and time = 1 and userOutcome = "snd ?user" and i = 1 and t = 3 and outcome = ?refused
      and error = "JStr ''401 Bad credentials''"]
  have later: "fst ?run = Some (Inl (JStr ''401 Bad credentials'')) \<and>
      suppressErrorDisplay (actionContext (snd ?run)) = Some True"
    unfolding read by (simp add: failure_def indexOf_def stops_for_token_def)
  from absent user later read show ?thesis
    by (simp add: case_prod_unfold)
qed

text \<open>
  C2. When \<^verbatim>\<open>connectToGitHub\<close> has a token and a repository, the verification passes and
  \<^verbatim>\<open>updateSourceControl\<close> throws, the calls made from the progress notification on are
  the notification, the line, the verification, the update and then one
  \<^verbatim>\<open>syncRepository\<close>, nothing more. The operation completes normally when the sync does,
  and also when the sync throws an error whose parsed message contains
  \<^verbatim>\<open>"statusCode":200\<close>; it throws the error of the sync otherwise.
\<close>

theorem connectToGitHub_resync:
  "listSourceControls client = Inr (first # others) \<Longrightarrow>
   truthy_string (token first) \<Longrightarrow>
   chooseRepository (the (token first))
       (s\<lparr>requestOptions :=
             \<lparr>url = None, headers = [(''User-Agent'', userAgent)],
              resolveWithFullResponse = Some True, nextLink = None\<rparr>,
           trace := trace s @ [ListSourceControls]\<rparr>) =
     (Some (Inr (siteSourceControl, repoName)), s2) \<Longrightarrow>
   verifyNoRunFromPackageSetting client = Inr () \<Longrightarrow>
   updateSourceControl client siteSourceControl = Inl err \<Longrightarrow>
   connectToGitHub localize parseError userAgent verifyNoRunFromPackageSetting chooseRepository
       node client s =
     (Some (case syncRepository client of
              Inr u \<Rightarrow> Inr ()
            | Inl error \<Rightarrow>
                if indexOf (message (parseError error)) ''\"statusCode\":200'' = - 1
                then Inl error else Inr ()),
      s2\<lparr>trace := trace s2 @
           [WithProgress
              (localize ''ConnectingToGithub''
                 ''\"{0}\" is being connected to repo \"{1}\". This may take several minutes...''
                 [fullName client, repoName]),
            AppendLine
              (localize ''ConnectingToGithub''
                 ''\"{0}\" is being connected to repo \"{1}\". This may take several minutes...''
                 [fullName client, repoName]),
            VerifyNoRunFromPackageSetting,
            UpdateSourceControl siteSourceControl,
            SyncRepository]\<rparr>)"
  by (simp add: connectToGitHub_def connectToGitHub_update_def Let_def split: sum.splits)

theorem connectToGitHub_resync_witness:
  "fst (connectToGitHub (\<lambda>key msg args. msg) (\<lambda>e. \<lparr>message = toString e\<rparr>) ''agent''
       (\<lambda>c. Inr ())
       (\<lambda>tok s. (Some (Inr (\<lparr>repoUrl = ''https://github.com/org/repo'', branch = ''main'',
                                isManualIntegration = False, deploymentRollbackEnabled = True,
                                isMercurial = False\<rparr>, ''org/repo'')), s))
       ''node''
       \<lparr>client_id = ''id'', fullName = ''site'',
         listSourceControls = Inr [\<lparr>token = Some ''secret''\<rparr>],
         updateSourceControl = (\<lambda>c. Inl (JStr ''deployment failed'')),
         syncRepository = Inl (JStr ''{\"statusCode\":200}'')\<rparr>
       \<lparr>requestOptions = \<lparr>url = None, headers = [], resolveWithFullResponse = None,
                           nextLink = None\<rparr>,
         actionContext = \<lparr>suppressErrorDisplay = None, properties = Map.empty\<rparr>,
         cache_picks = [], answers = [],
         responses = ([] :: (int \<times> (jsval + unit Response)) list),
         now = 0, trace = []\<rparr>) = Some (Inr ()) \<and>
   filter (\<lambda>e. e = SyncRepository)
     (trace (snd (connectToGitHub (\<lambda>key msg args. msg) (\<lambda>e. \<lparr>message = toString e\<rparr>) ''agent''
       (\<lambda>c. Inr ())
       (\<lambda>tok s. (Some (Inr (\<lparr>repoUrl = ''https://github.com/org/repo'', branch = ''main'',
                                isManualIntegration = False, deploymentRollbackEnabled = True,
                                isMercurial = False\<rparr>, ''org/repo'')), s))
       ''node''
       \<lparr>client_id = ''id'', fullName = ''site'',
         listSourceControls = Inr [\<lparr>token = Some ''secret''\<rparr>],
         updateSourceControl = (\<lambda>c. Inl (JStr ''deployment failed'')),
         syncRepository = Inl (JStr ''{\"statusCode\":200}'')\<rparr>
       \<lparr>requestOptions = \<lparr>url = None, headers = [], resolveWithFullResponse = None,
                           nextLink = None\<rparr>,
         actionContext = \<lparr>suppressErrorDisplay = None, properties = Map.empty\<rparr>,
         cache_picks = [], answers = [],
         responses = ([] :: (int \<times> (jsval + unit Response)) list),
         now = 0, trace = []\<rparr>))) = [SyncRepository]"
proof -
  let ?client = "\<lparr>client_id = ''id'', fullName = ''site'',
      listSourceControls = Inr [\<lparr>token = Some ''secret''\<rparr>],
      updateSourceControl = (\<lambda>c. Inl (JStr ''deployment failed'')),
      syncRepository = Inl (JStr ''{\"statusCode\":200}'')\<rparr>"
  let ?s = "\<lparr>requestOptions = \<lparr>url = None, headers = [], resolveWithFullResponse = None,
                           nextLink = None\<rparr>,
         actionContext = \<lparr>suppressErrorDisplay = None, properties = Map.empty\<rparr>,
         cache_picks = [], answers = [],
         responses = ([] :: (int \<times> (jsval + unit Response)) list),
         now = 0, trace = []\<rparr>"
  let ?control = "\<lparr>repoUrl = ''https://github.com/org/repo'', branch = ''main'',
      isManualIntegration = False, deploymentRollbackEnabled = True, isMercurial = False\<rparr>"
  have "connectToGitHub (\<lambda>key msg args. msg) (\<lambda>e. \<lparr>message = toString e\<rparr>) ''agent''
       (\<lambda>c. Inr ()) (\<lambda>tok s. (Some (Inr (?control, ''org/repo'')), s)) ''node'' ?client ?s =
     (Some (case syncRepository ?client of
              Inr u \<Rightarrow> Inr ()
            | Inl error \<Rightarrow>
                if indexOf (message ((\<lambda>e. \<lparr>message = toString e\<rparr>) error))
                     ''\"statusCode\":200'' = - 1
                then Inl error else Inr ()),
      (?s\<lparr>requestOptions :=
             \<lparr>url = None, headers = [(''User-Agent'', ''agent'')],
              resolveWithFullResponse = Some True, nextLink = None\<rparr>,
           trace := trace ?s @ [ListSourceControls]\<rparr>)
       \<lparr>trace := trace (?s\<lparr>requestOptions :=
             \<lparr>url = None, headers = [(''User-Agent'', ''agent'')],
              resolveWithFullResponse = Some True, nextLink = None\<rparr>,
           trace := trace ?s @ [ListSourceControls]\<rparr>) @
           [WithProgress
              ((\<lambda>key msg args. msg) ''ConnectingToGithub''
                 ''\"{0}\" is being connected to repo \"{1}\". This may take several minutes...''
                 [fullName ?client, ''org/repo'']),
            AppendLine
              ((\<lambda>key msg args. msg) ''ConnectingToGithub''
                 ''\"{0}\" is being connected to repo \"{1}\". This may take several minutes...''
                 [fullName ?client, ''org/repo'']),
            VerifyNoRunFromPackageSetting,
            UpdateSourceControl ?control,
            SyncRepository]\<rparr>)"
    by (rule connectToGitHub_resync [where first = "\<lparr>token = Some ''secret''\<rparr>" and others = "[]"
          and err = "JStr ''deployment failed''"]) simp_all
  then show ?thesis
    by (simp add: indexOf_def)
qed

section \<open>Properties of the pagination\<close>

lemma indexOf_from_miss:
  "indexOf_from k s needle = - 1 \<longleftrightarrow> \<not> sublist needle s"
  by (induction s arbitrary: k) (auto simp: sublist_Cons_right)

lemma includes_string_sublist: "includes_string s needle \<longleftrightarrow> sublist needle s"
  by (simp add: includes_string_def indexOf_def indexOf_from_miss)

lemma prefix_shorter:
  assumes "prefix needle (xs @ ys)" and "length needle \<le> length xs"
  shows "prefix needle xs"
  using assms by (metis prefix_length_prefix prefix_prefix prefix_order.order_refl)

lemma indexOf_from_first:
  assumes "\<not> sublist needle (xs @ butlast needle)" and "needle \<noteq> []"
  shows "indexOf_from k (xs @ needle @ rest) needle = int (k + length xs)"
  using assms(1)
proof (induction xs arbitrary: k)
  case Nil
  with assms(2) show ?case
    by (cases needle) simp_all
next
  case (Cons x xs)
  have split: "(x # xs) @ needle @ rest = ((x # xs) @ butlast needle) @ last needle # rest"
    using assms(2) by (metis append.assoc append_Cons append_Nil append_butlast_last_id)
  have "\<not> prefix needle ((x # xs) @ needle @ rest)"
  proof
    assume "prefix needle ((x # xs) @ needle @ rest)"
    then have "prefix needle (((x # xs) @ butlast needle) @ last needle # rest)"
      by (simp only: split)
    moreover have "length needle \<le> length ((x # xs) @ butlast needle)"
      using assms(2) by simp
    ultimately have "prefix needle ((x # xs) @ butlast needle)"
      by (rule prefix_shorter)
    then have "sublist needle ((x # xs) @ butlast needle)"
      by (metis prefix_imp_sublist)
    with Cons.prems show False by simp
  qed
  moreover from Cons.prems have "\<not> sublist needle (xs @ butlast needle)"
    by (simp add: sublist_Cons_right)
  ultimately show ?case
    using Cons.IH [of "Suc k"] by simp
qed

lemma no_sublist_append_sep:
  assumes "\<not> sublist needle xs" and "\<not> sublist needle (z # ys)" and "z \<notin> set needle"
  shows "\<not> sublist needle (xs @ z # ys)"
proof
  assume "sublist needle (xs @ z # ys)"
  with assms(1,2) obtain xs1 xs2 where parts: "needle = xs1 @ xs2" "suffix xs1 xs"
      "prefix xs2 (z # ys)"
    by (auto simp: sublist_append)
  show False
  proof (cases xs2)
    case Nil
    with parts have "suffix needle xs" by simp
    then have "sublist needle xs" by (metis suffix_imp_sublist)
    with assms(1) show False by simp
  next
    case (Cons c cs)
    with parts(3) have "c = z" by simp
    with Cons parts(1) assms(3) show False by simp
  qed
qed


lemma link_entry_no_separator:
  assumes "wellformed_entry e"
  shows "\<not> sublist '', '' (link_entry e @ butlast '', '')"
proof -
  from assms have url: "\<not> sublist '', '' (snd e)" and name: "\<not> sublist '', '' (fst e)"
    by (simp_all add: wellformed_entry_def includes_string_sublist)
  have "\<not> sublist '', '' (fst e @ CHR 0x22 # '','')"
    by (rule no_sublist_append_sep [OF name]) (simp_all add: sublist_Cons_right)
  then have "\<not> sublist '', '' (CHR ''>'' # ''; rel=\"'' @ fst e @ ''\"'' @ '','')"
    by (simp add: sublist_Cons_right)
  from no_sublist_append_sep [OF url this] show ?thesis
    by (simp add: link_entry_def sublist_Cons_right)
qed

lemma link_entry_indexOf_separator:
  assumes "wellformed_entry e"
  shows "indexOf (link_entry e @ '', '' @ rest) '', '' = int (length (link_entry e))"
    and "indexOf (link_entry e) '', '' = - 1"
proof -
  show "indexOf (link_entry e @ '', '' @ rest) '', '' = int (length (link_entry e))"
    unfolding indexOf_def
    using indexOf_from_first [OF link_entry_no_separator [OF assms], of 0 rest] by simp
  from link_entry_no_separator [OF assms] have "\<not> sublist '', '' (link_entry e)"
    by (metis sublist_append)
  then show "indexOf (link_entry e) '', '' = - 1"
    by (simp add: indexOf_def indexOf_from_miss)
qed

lemma split_link_header:
  assumes "entries \<noteq> []" and "\<forall>e\<in>set entries. wellformed_entry e"
  shows "split (link_header entries) '', '' = map link_entry entries"
  using assms
proof (induction entries rule: induct_list012)
  case 1
  then show ?case by simp
next
  case (2 e)
  then have "indexOf (link_entry e) '', '' = - 1"
    by (simp add: link_entry_indexOf_separator)
  then show ?case
    by (simp add: link_header_def split.simps [of "link_entry e"])
next
  case (3 e e' es)
  let ?rest = "join '', '' (map link_entry (e' # es))"
  from 3 have wf: "wellformed_entry e" by simp
  have idx: "indexOf (link_entry e @ '', '' @ ?rest) '', '' = int (length (link_entry e))"
    by (rule link_entry_indexOf_separator(1) [OF wf])
  have "split (link_entry e @ '', '' @ ?rest) '', '' = link_entry e # split ?rest '', ''"
    using idx by (subst split.simps) simp
  moreover from 3 have "split (link_header (e' # es)) '', '' = map link_entry (e' # es)"
    by simp
  ultimately show ?case
    by (simp add: link_header_def)
qed


lemma link_entry_indexOf_rel:
  assumes "wellformed_entry e"
  shows "indexOf (link_entry e) ''rel='' = int (length (snd e)) + 4"
proof -
  from assms have url: "\<not> sublist ''rel='' (snd e)"
    by (simp add: wellformed_entry_def includes_string_sublist)
  have "\<not> sublist ''rel='' (snd e @ CHR ''>'' # ''; rel'')"
    by (rule no_sublist_append_sep [OF url]) (simp_all add: sublist_Cons_right)
  then have "\<not> sublist ''rel='' ((''<'' @ snd e @ ''>; '') @ butlast ''rel='')"
    by (simp add: sublist_Cons_right)
  from indexOf_from_first [OF this, of 0 "CHR 0x22 # fst e @ [CHR 0x22]"] show ?thesis
    by (simp add: indexOf_def link_entry_def)
qed

lemma link_entry_indexOf_close:
  assumes "wellformed_entry e"
  shows "indexOf (link_entry e) ''>'' = int (length (snd e)) + 1"
proof -
  from assms have url: "\<not> sublist ''>'' (snd e)"
    by (simp add: wellformed_entry_def includes_string_sublist)
  then have "\<not> sublist ''>'' ((''<'' @ snd e) @ butlast ''>'')"
    by (simp add: sublist_Cons_right)
  from indexOf_from_first [OF this, of 0 "''; rel=\"'' @ fst e @ [CHR 0x22]"] show ?thesis
    by (simp add: indexOf_def link_entry_def)
qed

lemma link_entry_key:
  assumes "wellformed_entry e"
  shows "substring (link_entry e)
           (indexOf (link_entry e) ''rel='' + int (length ''rel='') + 1)
           (int (length (link_entry e)) - 1) = fst e"
proof -
  let ?before = "''<'' @ snd e @ ''>; rel=\"''"
  have entry: "link_entry e = ?before @ fst e @ ''\"''"
    by (simp add: link_entry_def)
  have start: "indexOf (link_entry e) ''rel='' + int (length ''rel='') + 1 = int (length ?before)"
    unfolding link_entry_indexOf_rel [OF assms] by simp
  have finish: "int (length (link_entry e)) - 1 = int (length ?before + length (fst e))"
    by (simp add: link_entry_def)
  have "substring (?before @ fst e @ ''\"'') (int (length ?before))
          (int (length ?before + length (fst e))) = fst e"
    unfolding substring_def Let_def by (simp del: append.simps)
  then have "substring (link_entry e) (int (length ?before))
      (int (length ?before + length (fst e))) = fst e"
    by (simp only: entry)
  then show ?thesis
    by (simp only: start finish)
qed

lemma link_entry_value:
  assumes "wellformed_entry e"
  shows "substring (link_entry e) (indexOf (link_entry e) ''<'' + 1)
           (indexOf (link_entry e) ''>'') = snd e"
proof -
  have "indexOf (link_entry e) ''<'' = 0"
    by (simp add: indexOf_def link_entry_def)
  then show ?thesis
    unfolding link_entry_indexOf_close [OF assms]
    by (simp add: substring_def link_entry_def Let_def)
qed

lemma fold_link_entries:
  assumes "\<forall>e\<in>set entries. wellformed_entry e"
  shows "fold (\<lambda>url linkMap.
            linkMap(substring url (indexOf url ''rel='' + int (length ''rel='') + 1)
                      (int (length url) - 1)
                    \<mapsto> substring url (indexOf url ''<'' + 1) (indexOf url ''>'')))
           (map link_entry entries) m =
         m ++ map_of (rev entries)"
  using assms
proof (induction entries arbitrary: m)
  case Nil
  then show ?case by simp
next
  case (Cons e entries)
  from Cons.prems have wf: "wellformed_entry e" and rest: "\<forall>e\<in>set entries. wellformed_entry e"
    by simp_all
  have "m(fst e \<mapsto> snd e) ++ map_of (rev entries) = m ++ map_of (rev (e # entries))"
    by (cases e) (simp add: map_add_upd_left)
  then show ?case
    unfolding list.map fold_Cons comp_def link_entry_key [OF wf] link_entry_value [OF wf]
      Cons.IH [OF rest] .
qed

lemma parseLinkHeader_wellformed:
  assumes "entries \<noteq> []" and "\<forall>e\<in>set entries. wellformed_entry e"
  shows "parseLinkHeaderToGitHubLinkObject (link_header entries) = map_of (rev entries)"
  using fold_link_entries [OF assms(2), of Map.empty]
  by (simp add: parseLinkHeaderToGitHubLinkObject_def split_link_header [OF assms] Let_def)

lemma getGitHubReposQuickPicks_loop_step:
  assumes "responses s = (t, Inr r) # rest" and "body r = Inr page"
  shows "getGitHubReposQuickPicks_loop localize parseError node client startTime timeoutMs
           gitHubRepos s =
     (if truthy_string (nextLink (requestOptions (after_page s t r rest))) \<and>
         startTime + timeoutMs > t
      then getGitHubReposQuickPicks_loop localize parseError node client startTime timeoutMs
             (gitHubRepos @ page) (after_page s t r rest)
      else (Some (Inr (gitHubRepos @ page)), after_page s t r rest))"
proof -
  have "now (after_page s t r rest) = t"
    by (simp add: after_page_def after_response_def Let_def)
  then show ?thesis
    by (subst getGitHubReposQuickPicks_loop.simps)
       (simp add: getJsonRequest_settled [OF assms(1)] assms(2) after_page_def Let_def)
qed

lemma after_page_fields:
  "responses (after_page s t r rest) = rest"
  "now (after_page s t r rest) = t"
  "cache_picks (after_page s t r rest) = cache_picks s"
  "trace (after_page s t r rest) = trace s @ [Request (requestOptions s)]"
  "nextLink (requestOptions (after_page s t r rest)) =
     (if truthy_string (link r) then parseLinkHeaderToGitHubLinkObject (the (link r)) ''next''
      else nextLink (requestOptions s))"
  "url (requestOptions (after_page s t r rest)) =
     (if truthy_string (nextLink (requestOptions (after_page s t r rest)))
      then nextLink (requestOptions (after_page s t r rest))
      else url (requestOptions s))"
  by (simp_all add: after_page_def after_response_def Let_def)

lemma getGitHubReposQuickPicks_loop_pages:
  assumes "\<forall>(t, l, page)\<in>set pages.
             l \<noteq> [] \<and> truthy_string (parseLinkHeaderToGitHubLinkObject l ''next'') \<and>
             startTime + timeoutMs > t"
    and "responses s = map page_response pages @ (t, Inr r) # rest"
    and "body r = Inr page"
    and "\<not> (truthy_string
              (if truthy_string (link r)
               then parseLinkHeaderToGitHubLinkObject (the (link r)) ''next''
               else if pages = [] then nextLink (requestOptions s)
               else parseLinkHeaderToGitHubLinkObject (fst (snd (last pages))) ''next'') \<and>
            startTime + timeoutMs > t)"
  shows "\<exists>s'. getGitHubReposQuickPicks_loop localize parseError node client startTime timeoutMs
               gitHubRepos s =
             (Some (Inr (gitHubRepos @ concat (map (\<lambda>(t, l, page). page) pages) @ page)), s') \<and>
           responses s' = rest \<and> cache_picks s' = cache_picks s \<and>
           nextLink (requestOptions s') =
             (if truthy_string (link r)
              then parseLinkHeaderToGitHubLinkObject (the (link r)) ''next''
              else if pages = [] then nextLink (requestOptions s)
              else parseLinkHeaderToGitHubLinkObject (fst (snd (last pages))) ''next'') \<and>
           trace s' =
             trace s @ Request (requestOptions s) #
             map (\<lambda>(t, l, page).
                    Request ((requestOptions s)
                      \<lparr>nextLink := parseLinkHeaderToGitHubLinkObject l ''next'',
                       url := parseLinkHeaderToGitHubLinkObject l ''next''\<rparr>)) pages"
  using assms
proof (induction pages arbitrary: s gitHubRepos)
  case Nil
  then have first: "responses s = (t, Inr r) # rest" by simp
  from Nil.prems(4) have "\<not> (truthy_string (nextLink (requestOptions (after_page s t r rest))) \<and>
      startTime + timeoutMs > t)"
    by (simp add: after_page_fields)
  then have "getGitHubReposQuickPicks_loop localize parseError node client startTime timeoutMs
           gitHubRepos s = (Some (Inr (gitHubRepos @ page)), after_page s t r rest)"
    unfolding getGitHubReposQuickPicks_loop_step [OF first Nil.prems(3)] by auto
  then show ?case
    by (intro exI [of _ "after_page s t r rest"]) (simp add: after_page_fields)
next
  case (Cons p pages)
  obtain tp lp pagep where p: "p = (tp, lp, pagep)" by (cases p)
  let ?r = "\<lparr>link = Some lp, body = Inr pagep\<rparr>"
  let ?rest = "map page_response pages @ (t, Inr r) # rest"
  let ?s = "after_page s tp ?r ?rest"
  from Cons.prems(2) p have first: "responses s = (tp, Inr ?r) # ?rest"
    by (simp add: page_response_def)
  from Cons.prems(1) p have cont: "lp \<noteq> []"
      "truthy_string (parseLinkHeaderToGitHubLinkObject lp ''next'')" "startTime + timeoutMs > tp"
    and others: "\<forall>(t, l, page)\<in>set pages.
             l \<noteq> [] \<and> truthy_string (parseLinkHeaderToGitHubLinkObject l ''next'') \<and>
             startTime + timeoutMs > t"
    by simp_all
  from cont have link_next: "nextLink (requestOptions ?s) = parseLinkHeaderToGitHubLinkObject lp ''next''"
    by (simp add: after_page_fields)
  have options: "requestOptions ?s = (requestOptions s)
                      \<lparr>nextLink := parseLinkHeaderToGitHubLinkObject lp ''next'',
                       url := parseLinkHeaderToGitHubLinkObject lp ''next''\<rparr>"
    using cont by (simp add: after_page_def after_response_def Let_def)
  have step: "getGitHubReposQuickPicks_loop localize parseError node client startTime timeoutMs
           gitHubRepos s =
      getGitHubReposQuickPicks_loop localize parseError node client startTime timeoutMs
             (gitHubRepos @ pagep) ?s"
  proof -
    have "body ?r = Inr pagep" by simp
    from getGitHubReposQuickPicks_loop_step [OF first this] link_next cont show ?thesis
      by simp
  qed
  have stop: "\<not> (truthy_string
              (if truthy_string (link r)
               then parseLinkHeaderToGitHubLinkObject (the (link r)) ''next''
               else if pages = [] then nextLink (requestOptions ?s)
               else parseLinkHeaderToGitHubLinkObject (fst (snd (last pages))) ''next'') \<and>
            startTime + timeoutMs > t)"
    using Cons.prems(4) p link_next by (cases "pages = []") simp_all
  have fields: "responses ?s = ?rest" "cache_picks ?s = cache_picks s"
      "trace ?s = trace s @ [Request (requestOptions s)]"
    by (simp_all add: after_page_fields)
  from Cons.IH [OF others fields(1) Cons.prems(3) stop, of "gitHubRepos @ pagep"]
  obtain s' where s': "getGitHubReposQuickPicks_loop localize parseError node client startTime
        timeoutMs (gitHubRepos @ pagep) ?s =
      (Some (Inr ((gitHubRepos @ pagep) @ concat (map (\<lambda>(t, l, page). page) pages) @ page)), s')"
    "responses s' = rest" "cache_picks s' = cache_picks ?s"
    "nextLink (requestOptions s') =
             (if truthy_string (link r)
              then parseLinkHeaderToGitHubLinkObject (the (link r)) ''next''
              else if pages = [] then nextLink (requestOptions ?s)
              else parseLinkHeaderToGitHubLinkObject (fst (snd (last pages))) ''next'')"
    "trace s' =
             trace ?s @ Request (requestOptions ?s) #
             map (\<lambda>(t, l, page).
                    Request ((requestOptions ?s)
                      \<lparr>nextLink := parseLinkHeaderToGitHubLinkObject l ''next'',
                       url := parseLinkHeaderToGitHubLinkObject l ''next''\<rparr>)) pages"
    by blast
  have result: "getGitHubReposQuickPicks_loop localize parseError node client startTime timeoutMs
               gitHubRepos s =
             (Some (Inr (gitHubRepos @ concat (map (\<lambda>(t, l, page). page) (p # pages)) @ page)), s')"
    unfolding step s'(1) by (simp add: p)
  have link': "nextLink (requestOptions s') =
             (if truthy_string (link r)
              then parseLinkHeaderToGitHubLinkObject (the (link r)) ''next''
              else if p # pages = [] then nextLink (requestOptions s)
              else parseLinkHeaderToGitHubLinkObject (fst (snd (last (p # pages)))) ''next'')"
    unfolding s'(4) link_next by (simp add: p)
  have trace': "trace s' =
             trace s @ Request (requestOptions s) #
             map (\<lambda>(t, l, page).
                    Request ((requestOptions s)
                      \<lparr>nextLink := parseLinkHeaderToGitHubLinkObject l ''next'',
                       url := parseLinkHeaderToGitHubLinkObject l ''next''\<rparr>)) (p # pages)"
    unfolding s'(5) fields(3) options by (simp add: p)
  from result s'(2) s'(3) fields(2) link' trace' show ?case
    by (intro exI [of _ s']) simp
qed

lemma getJsonRequest_nextLink:
  assumes "responses s = (t, Inr r) # rest"
  shows "nextLink (requestOptions (snd (getJsonRequest localize parseError node client s))) =
     (if truthy_string (link r) then parseLinkHeaderToGitHubLinkObject (the (link r)) ''next''
      else nextLink (requestOptions s))"
proof -
  let ?s3 = "after_response s t (Inr r) rest"
  obtain u s4 where prompt: "showGitHubAuthPrompt localize node client ?s3 = (u, s4)"
    by fastforce
  from showGitHubAuthPrompt_frame [OF prompt] have "requestOptions s4 = requestOptions ?s3"
    by simp
  moreover have "nextLink (requestOptions ?s3) =
     (if truthy_string (link r) then parseLinkHeaderToGitHubLinkObject (the (link r)) ''next''
      else nextLink (requestOptions s))"
    by (simp add: after_response_def)
  ultimately show ?thesis
    unfolding getJsonRequest_settled [OF assms] prompt
    by (simp split: sum.splits option.splits)
qed

lemma parseLinkHeader_entries:
  assumes "entries \<noteq> []" and "\<forall>e\<in>set entries. wellformed_entry e"
    and "distinct (map fst entries)"
  shows "\<forall>e\<in>set entries. parseLinkHeaderToGitHubLinkObject (link_header entries) (fst e) = Some (snd e)"
  unfolding parseLinkHeader_wellformed [OF assms(1,2)]
  using assms(3) by (auto simp: rev_map [symmetric])

lemma getGitHubReposQuickPicks_pages:
  assumes "\<forall>(t, l, page)\<in>set pages.
             l \<noteq> [] \<and> truthy_string (parseLinkHeaderToGitHubLinkObject l ''next'') \<and>
             now s + (case timeoutSeconds' of None \<Rightarrow> 10 | Some x \<Rightarrow> x) * 1000 > t"
    and "responses s = map page_response pages @ (t, Inr r) # rest"
    and "body r = Inr page"
    and "left = (if truthy_string (link r)
               then parseLinkHeaderToGitHubLinkObject (the (link r)) ''next''
               else if pages = [] then nextLink (requestOptions s)
               else parseLinkHeaderToGitHubLinkObject (fst (snd (last pages))) ''next'')"
    and "\<not> (truthy_string left \<and>
            now s + (case timeoutSeconds' of None \<Rightarrow> 10 | Some x \<Rightarrow> x) * 1000 > t)"
  shows "fst (getGitHubReposQuickPicks localize parseError localeCompare node client
                timeoutSeconds' s) =
           Some (Inr ((if truthy_string left then [loadMorePick] else []) @
                      map with_data
                        (array_sort
                           (\<lambda>a b. localeCompare (toString (pick_label a))
                                    (toString (pick_label b)))
                           (cache_picks s @
                            createQuickPickFromJsons
                              (concat (map (\<lambda>(t, l, page). page) pages) @ page) ''name'' None))))"
    and "trace (snd (getGitHubReposQuickPicks localize parseError localeCompare node client
                timeoutSeconds' s)) =
             trace s @ Request (requestOptions s) #
             map (\<lambda>(t, l, page).
                    Request ((requestOptions s)
                      \<lparr>nextLink := parseLinkHeaderToGitHubLinkObject l ''next'',
                       url := parseLinkHeaderToGitHubLinkObject l ''next''\<rparr>)) pages"
    and "responses (snd (getGitHubReposQuickPicks localize parseError localeCompare node client
                timeoutSeconds' s)) = rest"
proof -
  let ?timeoutMs = "(case timeoutSeconds' of None \<Rightarrow> 10 | Some x \<Rightarrow> x) * 1000"
  from assms(5) have stop: "\<not> (truthy_string
              (if truthy_string (link r)
               then parseLinkHeaderToGitHubLinkObject (the (link r)) ''next''
               else if pages = [] then nextLink (requestOptions s)
               else parseLinkHeaderToGitHubLinkObject (fst (snd (last pages))) ''next'') \<and>
            now s + ?timeoutMs > t)"
    unfolding assms(4) .
  from getGitHubReposQuickPicks_loop_pages [OF assms(1) assms(2) assms(3) stop,
      of localize parseError node client "[]"]
  obtain s' where s': "getGitHubReposQuickPicks_loop localize parseError node client (now s)
        ?timeoutMs [] s =
      (Some (Inr ([] @ concat (map (\<lambda>(t, l, page). page) pages) @ page)), s')"
    "responses s' = rest" "cache_picks s' = cache_picks s"
    "nextLink (requestOptions s') = left"
    "trace s' =
             trace s @ Request (requestOptions s) #
             map (\<lambda>(t, l, page).
                    Request ((requestOptions s)
                      \<lparr>nextLink := parseLinkHeaderToGitHubLinkObject l ''next'',
                       url := parseLinkHeaderToGitHubLinkObject l ''next''\<rparr>)) pages"
    unfolding assms(4) by blast
  have run: "getGitHubReposQuickPicks localize parseError localeCompare node client
                timeoutSeconds' s =
      (let s2 = s'\<lparr>cache_picks :=
                       array_sort
                         (\<lambda>a b. localeCompare (toString (pick_label a))
                                  (toString (pick_label b)))
                         (cache_picks s' @
                          createQuickPickFromJsons
                            (concat (map (\<lambda>(t, l, page). page) pages) @ page) ''name'' None)\<rparr>
       in if truthy_string (nextLink (requestOptions s2))
          then (Some (Inr (loadMorePick # map with_data (cache_picks s2))), s2)
          else (Some (Inr (map with_data (cache_picks s2))), s2))"
    using s'(1) by (simp add: getGitHubReposQuickPicks_def Let_def)
  show "fst (getGitHubReposQuickPicks localize parseError localeCompare node client
                timeoutSeconds' s) =
           Some (Inr ((if truthy_string left then [loadMorePick] else []) @
                      map with_data
                        (array_sort
                           (\<lambda>a b. localeCompare (toString (pick_label a))
                                    (toString (pick_label b)))
                           (cache_picks s @
                            createQuickPickFromJsons
                              (concat (map (\<lambda>(t, l, page). page) pages) @ page) ''name'' None))))"
    unfolding run using s'(3,4) by (simp add: Let_def)
  show "trace (snd (getGitHubReposQuickPicks localize parseError localeCompare node client
                timeoutSeconds' s)) =
             trace s @ Request (requestOptions s) #
             map (\<lambda>(t, l, page).
                    Request ((requestOptions s)
                      \<lparr>nextLink := parseLinkHeaderToGitHubLinkObject l ''next'',
                       url := parseLinkHeaderToGitHubLinkObject l ''next''\<rparr>)) pages"
    unfolding run using s'(5) by (simp add: Let_def)
  show "responses (snd (getGitHubReposQuickPicks localize parseError localeCompare node client
                timeoutSeconds' s)) = rest"
    unfolding run using s'(2) by (simp add: Let_def)
qed

text \<open>
  C4, as stated, fails: \<^verbatim>\<open>getGitHubReposQuickPicks\<close> does not keep requesting for as long
  as a next link exists. Here the call starts at time 0 with the default timeout of 10
  seconds; the first response has a next link but settles at time 10000. The call makes this
  one request, leaves the second page on the script unrequested, and returns the pick that
  loads more before the pick of the first page, with the next link still set.
\<close>

theorem getGitHubReposQuickPicks_timeout_counterexample:
  "getGitHubReposQuickPicks (\<lambda>key msg args. msg) (\<lambda>e. \<lparr>message = toString e\<rparr>) (\<lambda>a b. 0) ''node''
       \<lparr>client_id = ''id'', fullName = ''site'', listSourceControls = Inr [],
         updateSourceControl = (\<lambda>c. Inr ()), syncRepository = Inr ()\<rparr>
       None
       \<lparr>requestOptions = \<lparr>url = Some ''u1'', headers = [], resolveWithFullResponse = Some True,
                           nextLink = None\<rparr>,
         actionContext = \<lparr>suppressErrorDisplay = None, properties = Map.empty\<rparr>,
         cache_picks = [], answers = [],
         responses = [(10000, Inr \<lparr>link = Some ''<u2>; rel=\"next\"'',
                                   body = Inr [[(''name'', JStr ''a'')]]\<rparr>),
                      (10001, Inr \<lparr>link = None, body = Inr [[(''name'', JStr ''b'')]]\<rparr>)],
         now = 0, trace = []\<rparr> =
     (Some (Inr [loadMorePick,
                 \<lparr>pick_id = None, pick_label = JStr ''a'', pick_description = Some '''',
                  pick_detail = None, suppressPersistence = None,
                  data = Some [(''name'', JStr ''a'')]\<rparr>]),
      \<lparr>requestOptions = \<lparr>url = Some ''u2'', headers = [], resolveWithFullResponse = Some True,
                          nextLink = Some ''u2''\<rparr>,
        actionContext = \<lparr>suppressErrorDisplay = None, properties = Map.empty\<rparr>,
        cache_picks = [\<lparr>pick_id = None, pick_label = JStr ''a'', pick_description = Some '''',
                        pick_detail = None, suppressPersistence = None,
                        data = [(''name'', JStr ''a'')]\<rparr>],
        answers = [],
        responses = [(10001, Inr \<lparr>link = None, body = Inr [[(''name'', JStr ''b'')]]\<rparr>)],
        now = 10000,
        trace = [Request \<lparr>url = Some ''u1'', headers = [], resolveWithFullResponse = Some True,
                           nextLink = None\<rparr>]\<rparr>)"
  by (simp add: getGitHubReposQuickPicks_def getGitHubReposQuickPicks_loop.simps
        getJsonRequest_def parseLinkHeaderToGitHubLinkObject_def split.simps indexOf_def
        substring_def createQuickPickFromJsons_def property_def array_sort_def with_data_def
        Let_def)

text \<open>
  C4, amended. First, for a \<^verbatim>\<open>Link\<close> header of well-formed entries
  \<^verbatim>\<open><URL>; rel="NAME"\<close> separated by a comma and a space,
  \<^verbatim>\<open>parseLinkHeaderToGitHubLinkObject\<close> gives the map of the names to the URLs, a later
  entry overriding an earlier one of the same name; with distinct names every entry is mapped
  to its URL. Second, \<^verbatim>\<open>getJsonRequest\<close> stores the URL of \<^verbatim>\<open>rel="next"\<close> as
  \<^verbatim>\<open>nextLink\<close> whenever the response has a \<^verbatim>\<open>Link\<close> header (and undefined when that header
  has no such entry); with no \<^verbatim>\<open>Link\<close> header it leaves \<^verbatim>\<open>nextLink\<close> as it was. Third,
  \<^verbatim>\<open>getGitHubReposQuickPicks\<close> requests the URL it is given and then the next link of each
  page, for as long as the page read has a next link and has settled less than
  \<^verbatim>\<open>timeoutSeconds\<close> (10 when left out) after the start of the call; it stops at the first
  page for which one of the two fails. It returns the picks of the cache and of the
  repositories of all the pages read, sorted, with the pick that loads more put first when a
  next link is left.
\<close>

theorem link_header_pagination:
  "(entries \<noteq> [] \<and> (\<forall>e\<in>set entries. wellformed_entry e) \<longrightarrow>
      parseLinkHeaderToGitHubLinkObject (link_header entries) = map_of (rev entries) \<and>
      (distinct (map fst entries) \<longrightarrow>
         (\<forall>e\<in>set entries.
            parseLinkHeaderToGitHubLinkObject (link_header entries) (fst e) = Some (snd e)))) \<and>
   (responses s = (t, Inr r) # rest \<longrightarrow>
      nextLink (requestOptions (snd (getJsonRequest localize parseError node client s))) =
        (if truthy_string (link r)
         then parseLinkHeaderToGitHubLinkObject (the (link r)) ''next''
         else nextLink (requestOptions s))) \<and>
   ((\<forall>(tp, l, page)\<in>set pages.
        l \<noteq> [] \<and> truthy_string (parseLinkHeaderToGitHubLinkObject l ''next'') \<and>
        now st + (case timeoutSeconds' of None \<Rightarrow> 10 | Some x \<Rightarrow> x) * 1000 > tp) \<and>
    responses st = map page_response pages @ (tf, Inr final) # remaining \<and>
    body final = Inr lastPage \<and>
    left = (if truthy_string (link final)
            then parseLinkHeaderToGitHubLinkObject (the (link final)) ''next''
            else if pages = [] then nextLink (requestOptions st)
            else parseLinkHeaderToGitHubLinkObject (fst (snd (last pages))) ''next'') \<and>
    \<not> (truthy_string left \<and>
       now st + (case timeoutSeconds' of None \<Rightarrow> 10 | Some x \<Rightarrow> x) * 1000 > tf) \<longrightarrow>
      fst (getGitHubReposQuickPicks localize parseError localeCompare node client
             timeoutSeconds' st) =
        Some (Inr ((if truthy_string left then [loadMorePick] else []) @
                   map with_data
                     (array_sort
                        (\<lambda>a b. localeCompare (toString (pick_label a))
                                 (toString (pick_label b)))
                        (cache_picks st @
                         createQuickPickFromJsons
                           (concat (map (\<lambda>(tp, l, page). page) pages) @ lastPage)
                           ''name'' None)))) \<and>
      trace (snd (getGitHubReposQuickPicks localize parseError localeCompare node client
                    timeoutSeconds' st)) =
        trace st @ Request (requestOptions st) #
        map (\<lambda>(tp, l, page).
               Request ((requestOptions st)
                 \<lparr>nextLink := parseLinkHeaderToGitHubLinkObject l ''next'',
                  url := parseLinkHeaderToGitHubLinkObject l ''next''\<rparr>)) pages \<and>
      responses (snd (getGitHubReposQuickPicks localize parseError localeCompare node client
                        timeoutSeconds' st)) = remaining)"
proof (intro conjI impI)
  assume "entries \<noteq> [] \<and> (\<forall>e\<in>set entries. wellformed_entry e)"
  then have wf: "entries \<noteq> []" "\<forall>e\<in>set entries. wellformed_entry e"
    by blast+
  show "parseLinkHeaderToGitHubLinkObject (link_header entries) = map_of (rev entries)"
    by (rule parseLinkHeader_wellformed [OF wf])
  assume "distinct (map fst entries)"
  from parseLinkHeader_entries [OF wf this]
  show "\<forall>e\<in>set entries.
      parseLinkHeaderToGitHubLinkObject (link_header entries) (fst e) = Some (snd e)" .
next
  assume "responses s = (t, Inr r) # rest"
  then show "nextLink (requestOptions (snd (getJsonRequest localize parseError node client s))) =
        (if truthy_string (link r)
         then parseLinkHeaderToGitHubLinkObject (the (link r)) ''next''
         else nextLink (requestOptions s))"
    by (rule getJsonRequest_nextLink)
next
  assume a: "(\<forall>(tp, l, page)\<in>set pages.
        l \<noteq> [] \<and> truthy_string (parseLinkHeaderToGitHubLinkObject l ''next'') \<and>
        now st + (case timeoutSeconds' of None \<Rightarrow> 10 | Some x \<Rightarrow> x) * 1000 > tp) \<and>
    responses st = map page_response pages @ (tf, Inr final) # remaining \<and>
    body final = Inr lastPage \<and>
    left = (if truthy_string (link final)
            then parseLinkHeaderToGitHubLinkObject (the (link final)) ''next''
            else if pages = [] then nextLink (requestOptions st)
            else parseLinkHeaderToGitHubLinkObject (fst (snd (last pages))) ''next'') \<and>
    \<not> (truthy_string left \<and>
       now st + (case timeoutSeconds' of None \<Rightarrow> 10 | Some x \<Rightarrow> x) * 1000 > tf)"
  then have a1: "\<forall>(tp, l, page)\<in>set pages.
        l \<noteq> [] \<and> truthy_string (parseLinkHeaderToGitHubLinkObject l ''next'') \<and>
        now st + (case timeoutSeconds' of None \<Rightarrow> 10 | Some x \<Rightarrow> x) * 1000 > tp"
    and a2: "responses st = map page_response pages @ (tf, Inr final) # remaining"
    and a3: "body final = Inr lastPage"
    and a4: "left = (if truthy_string (link final)
            then parseLinkHeaderToGitHubLinkObject (the (link final)) ''next''
            else if pages = [] then nextLink (requestOptions st)
            else parseLinkHeaderToGitHubLinkObject (fst (snd (last pages))) ''next'')"
    and a5: "\<not> (truthy_string left \<and>
       now st + (case timeoutSeconds' of None \<Rightarrow> 10 | Some x \<Rightarrow> x) * 1000 > tf)"
    by blast+
  show "fst (getGitHubReposQuickPicks localize parseError localeCompare node client
             timeoutSeconds' st) =
        Some (Inr ((if truthy_string left then [loadMorePick] else []) @
                   map with_data
                     (array_sort
                        (\<lambda>a b. localeCompare (toString (pick_label a))
                                 (toString (pick_label b)))
                        (cache_picks st @
                         createQuickPickFromJsons
                           (concat (map (\<lambda>(tp, l, page). page) pages) @ lastPage)
                           ''name'' None))))"
    by (rule getGitHubReposQuickPicks_pages(1) [OF a1 a2 a3 a4 a5])
  show "trace (snd (getGitHubReposQuickPicks localize parseError localeCompare node client
                    timeoutSeconds' st)) =
        trace st @ Request (requestOptions st) #
        map (\<lambda>(tp, l, page).
               Request ((requestOptions st)
                 \<lparr>nextLink := parseLinkHeaderToGitHubLinkObject l ''next'',
                  url := parseLinkHeaderToGitHubLinkObject l ''next''\<rparr>)) pages"
    by (rule getGitHubReposQuickPicks_pages(2) [OF a1 a2 a3 a4 a5])
  show "responses (snd (getGitHubReposQuickPicks localize parseError localeCompare node client
                        timeoutSeconds' st)) = remaining"
    by (rule getGitHubReposQuickPicks_pages(3) [OF a1 a2 a3 a4 a5])
qed

theorem link_header_pagination_witness:
  "parseLinkHeaderToGitHubLinkObject ''<u1>; rel=\"prev\", <u3>; rel=\"next\"'' ''next'' =
     Some ''u3'' \<and>
   nextLink (requestOptions (snd
     (getJsonRequest (\<lambda>key msg args. msg) (\<lambda>e. \<lparr>message = toString e\<rparr>) ''node''
        \<lparr>client_id = ''id'', fullName = ''site'', listSourceControls = Inr [],
          updateSourceControl = (\<lambda>c. Inr ()), syncRepository = Inr ()\<rparr>
        \<lparr>requestOptions = \<lparr>url = Some ''u1'', headers = [],
                            resolveWithFullResponse = Some True, nextLink = None\<rparr>,
          actionContext = \<lparr>suppressErrorDisplay = None, properties = Map.empty\<rparr>,
          cache_picks = [], answers = [],
          responses = [(100, Inr \<lparr>link = Some ''<u2>; rel=\"next\"'',
                                  body = Inr [[(''name'', JStr ''b'')]]\<rparr>),
                       (200, Inr \<lparr>link = Some ''<u1>; rel=\"prev\"'',
                                  body = Inr [[(''name'', JStr ''a'')]]\<rparr>)],
          now = 0, trace = []\<rparr>))) = Some ''u2'' \<and>
   fst (getGitHubReposQuickPicks (\<lambda>key msg args. msg) (\<lambda>e. \<lparr>message = toString e\<rparr>)
          (\<lambda>a b. 0) ''node''
          \<lparr>client_id = ''id'', fullName = ''site'', listSourceControls = Inr [],
            updateSourceControl = (\<lambda>c. Inr ()), syncRepository = Inr ()\<rparr>
          None
          \<lparr>requestOptions = \<lparr>url = Some ''u1'', headers = [],
                              resolveWithFullResponse = Some True, nextLink = None\<rparr>,
            actionContext = \<lparr>suppressErrorDisplay = None, properties = Map.empty\<rparr>,
            cache_picks = [], answers = [],
            responses = [(100, Inr \<lparr>link = Some ''<u2>; rel=\"next\"'',
                                    body = Inr [[(''name'', JStr ''b'')]]\<rparr>),
                         (200, Inr \<lparr>link = Some ''<u1>; rel=\"prev\"'',
                                    body = Inr [[(''name'', JStr ''a'')]]\<rparr>)],
            now = 0, trace = []\<rparr>) =
     Some (Inr [\<lparr>pick_id = None, pick_label = JStr ''b'', pick_description = Some '''',
                 pick_detail = None, suppressPersistence = None,
                 data = Some [(''name'', JStr ''b'')]\<rparr>,
                \<lparr>pick_id = None, pick_label = JStr ''a'', pick_description = Some '''',
                 pick_detail = None, suppressPersistence = None,
                 data = Some [(''name'', JStr ''a'')]\<rparr>]) \<and>
   trace (snd (getGitHubReposQuickPicks (\<lambda>key msg args. msg) (\<lambda>e. \<lparr>message = toString e\<rparr>)
          (\<lambda>a b. 0) ''node''
          \<lparr>client_id = ''id'', fullName = ''site'', listSourceControls = Inr [],
            updateSourceControl = (\<lambda>c. Inr ()), syncRepository = Inr ()\<rparr>
          None
          \<lparr>requestOptions = \<lparr>url = Some ''u1'', headers = [],
                              resolveWithFullResponse = Some True, nextLink = None\<rparr>,
            actionContext = \<lparr>suppressErrorDisplay = None, properties = Map.empty\<rparr>,
            cache_picks = [], answers = [],
            responses = [(100, Inr \<lparr>link = Some ''<u2>; rel=\"next\"'',
                                    body = Inr [[(''name'', JStr ''b'')]]\<rparr>),
                         (200, Inr \<lparr>link = Some ''<u1>; rel=\"prev\"'',
                                    body = Inr [[(''name'', JStr ''a'')]]\<rparr>)],
            now = 0, trace = []\<rparr>)) =
     [Request \<lparr>url = Some ''u1'', headers = [], resolveWithFullResponse = Some True,
               nextLink = None\<rparr>,
      Request \<lparr>url = Some ''u2'', headers = [], resolveWithFullResponse = Some True,
               nextLink = Some ''u2''\<rparr>]"
proof -
  let ?client = "\<lparr>client_id = ''id'', fullName = ''site'', listSourceControls = Inr [],
      updateSourceControl = (\<lambda>c. Inr ()), syncRepository = Inr ()\<rparr>"
  let ?first = "\<lparr>link = Some ''<u2>; rel=\"next\"'', body = Inr [[(''name'', JStr ''b'')]]\<rparr>"
  let ?final = "\<lparr>link = Some ''<u1>; rel=\"prev\"'', body = Inr [[(''name'', JStr ''a'')]]\<rparr>"
  let ?st = "\<lparr>requestOptions = \<lparr>url = Some ''u1'', headers = [],
                              resolveWithFullResponse = Some True, nextLink = None\<rparr>,
            actionContext = \<lparr>suppressErrorDisplay = None, properties = Map.empty\<rparr>,
            cache_picks = [], answers = [],
            responses = [(100, Inr ?first), (200, Inr ?final)],
            now = 0, trace = []\<rparr>"
  have header: "link_header [(''prev'', ''u1''), (''next'', ''u3'')] =
      ''<u1>; rel=\"prev\", <u3>; rel=\"next\"''"
    by (simp add: link_header_def link_entry_def)
  have wf: "\<forall>e\<in>set [(''prev'', ''u1''), (''next'', ''u3'')]. wellformed_entry e"
    by (simp add: wellformed_entry_def includes_string_def indexOf_def)
  have parsed: "parseLinkHeaderToGitHubLinkObject ''<u2>; rel=\"next\"'' ''next'' = Some ''u2''"
      "parseLinkHeaderToGitHubLinkObject ''<u1>; rel=\"prev\"'' ''next'' = None"
    by (simp_all add: parseLinkHeaderToGitHubLinkObject_def split.simps indexOf_def
          substring_def Let_def)
  note inst = link_header_pagination [where entries = "[(''prev'', ''u1''), (''next'', ''u3'')]"
      and s = ?st and t = 100 and r = ?first and rest = "[(200, Inr ?final)]"
      and st = ?st and pages = "[(100, ''<u2>; rel=\"next\"'', [[(''name'', JStr ''b'')]])]"
      and tf = 200 and final = ?final and remaining = "[]"
      and lastPage = "[[(''name'', JStr ''a'')]]" and left = None and timeoutSeconds' = None
      and localize = "\<lambda>key msg args. msg" and parseError = "\<lambda>e. \<lparr>message = toString e\<rparr>"
      and localeCompare = "\<lambda>a b. 0" and node = "''node''" and client = ?client]
  from inst wf have "parseLinkHeaderToGitHubLinkObject
      (link_header [(''prev'', ''u1''), (''next'', ''u3'')]) ''next'' = Some ''u3''"
    by simp
  then have one: "parseLinkHeaderToGitHubLinkObject ''<u1>; rel=\"prev\", <u3>; rel=\"next\"''
      ''next'' = Some ''u3''"
    unfolding header .
  from inst parsed have two: "nextLink (requestOptions (snd
      (getJsonRequest (\<lambda>key msg args. msg) (\<lambda>e. \<lparr>message = toString e\<rparr>) ''node''
         ?client ?st))) = Some ''u2''"
    by simp
  from inst parsed have three: "fst (getGitHubReposQuickPicks (\<lambda>key msg args. msg)
        (\<lambda>e. \<lparr>message = toString e\<rparr>) (\<lambda>a b. 0) ''node'' ?client None ?st) =
     Some (Inr [\<lparr>pick_id = None, pick_label = JStr ''b'', pick_description = Some '''',
                 pick_detail = None, suppressPersistence = None,
                 data = Some [(''name'', JStr ''b'')]\<rparr>,
                \<lparr>pick_id = None, pick_label = JStr ''a'', pick_description = Some '''',
                 pick_detail = None, suppressPersistence = None,
                 data = Some [(''name'', JStr ''a'')]\<rparr>])"
    "trace (snd (getGitHubReposQuickPicks (\<lambda>key msg args. msg)
        (\<lambda>e. \<lparr>message = toString e\<rparr>) (\<lambda>a b. 0) ''node'' ?client None ?st)) =
     [Request \<lparr>url = Some ''u1'', headers = [], resolveWithFullResponse = Some True,
               nextLink = None\<rparr>,
      Request \<lparr>url = Some ''u2'', headers = [], resolveWithFullResponse = Some True,
               nextLink = Some ''u2''\<rparr>]"
    by (simp_all add: page_response_def createQuickPickFromJsons_def property_def
          array_sort_def with_data_def)
  from one two three show ?thesis
    by simp
qed

end
